theory Spec2Isabelle
  imports Complex_Main
begin

section \<open>Python text primitives\<close>

text \<open>
  Python \<open>str\<close> values are modelled as \<^typ>\<open>string\<close>; one \<^typ>\<open>char\<close> stands for one
  code point below 256, so \<^const>\<open>length\<close> is Python's \<open>len\<close> on such text. The functions
  below follow the built-in string methods the nodes call.
\<close>

definition isspace :: "char \<Rightarrow> bool" where
  \<comment> \<open>\<open>str.isspace\<close> on one code point: TAB..CR, FS..US, SPACE, NEL, NBSP.\<close>
  "isspace c = (let n = (of_char c :: nat) in
     (9 \<le> n \<and> n \<le> 13) \<or> (28 \<le> n \<and> n \<le> 32) \<or> n = 133 \<or> n = 160)"

definition lstrip :: "string \<Rightarrow> string" where
  "lstrip s = dropWhile isspace s"

definition rstrip :: "string \<Rightarrow> string" where
  "rstrip s = rev (dropWhile isspace (rev s))"

definition strip :: "string \<Rightarrow> string" where
  \<comment> \<open>\<open>s.strip()\<close>\<close>
  "strip s = rstrip (lstrip s)"

definition lstrip_chars :: "char \<Rightarrow> string \<Rightarrow> string" where
  \<comment> \<open>\<open>s.lstrip(c)\<close> for a one-character argument\<close>
  "lstrip_chars c s = dropWhile (\<lambda>x. x = c) s"

definition backslash :: char where
  "backslash = CHR 0x5C"

definition lower_char :: "char \<Rightarrow> char" where
  \<comment> \<open>\<open>str.lower\<close> on one code point below 256\<close>
  "lower_char c = (let n = (of_char c :: nat) in
     if (65 \<le> n \<and> n \<le> 90) \<or> (192 \<le> n \<and> n \<le> 222 \<and> n \<noteq> 215)
     then char_of (n + 32) else c)"

definition lower :: "string \<Rightarrow> string" where
  "lower s = map lower_char s"

fun startswith :: "string \<Rightarrow> string \<Rightarrow> bool" where
  \<comment> \<open>\<open>s.startswith(p)\<close>, written \<open>startswith p s\<close>\<close>
  "startswith [] s = True"
| "startswith (p # ps) [] = False"
| "startswith (p # ps) (c # cs) = (p = c \<and> startswith ps cs)"

definition endswith :: "string \<Rightarrow> string \<Rightarrow> bool" where
  "endswith p s = startswith (rev p) (rev s)"

fun split_on :: "(char \<Rightarrow> bool) \<Rightarrow> string \<Rightarrow> string list" where
  \<comment> \<open>\<open>re.split\<close> on a one-character class: every separator cuts, empty pieces are kept\<close>
  "split_on p [] = [[]]"
| "split_on p (c # cs) =
     (if p c then [] # split_on p cs
      else (case split_on p cs of
              w # ws \<Rightarrow> (c # w) # ws
            | [] \<Rightarrow> [[c]]))"

fun join :: "string \<Rightarrow> string list \<Rightarrow> string" where
  \<comment> \<open>\<open>sep.join(parts)\<close>\<close>
  "join sep [] = []"
| "join sep [x] = x"
| "join sep (x # y # ys) = x @ sep @ join sep (y # ys)"

definition after_last :: "char \<Rightarrow> string \<Rightarrow> string" where
  \<comment> \<open>\<open>s.rsplit(c, 1)[-1]\<close>: the text after the last \<open>c\<close>, all of \<open>s\<close> when there is none\<close>
  "after_last c s = rev (takeWhile (\<lambda>x. x \<noteq> c) (rev s))"

definition newline :: char where
  "newline = CHR 0x0A"

section \<open>Python values, exceptions and built-ins\<close>

text \<open>
  What \<open>json.loads\<close> returns. A \<open>dict\<close> is an association list in insertion order;
  \<open>int\<close> is unbounded; a \<open>float\<close> is modelled by the rational it denotes (rounding,
  infinities and NaN are outside the model).
\<close>

datatype json =
    JNull
  | JBool bool
  | JInt int
  | JFloat rat
  | JString string
  | JArray "json list"
  | JObject "(string \<times> json) list"

datatype exn_kind =
    JSONDecodeError | ValueError | ValidationError | TypeError | AttributeError
  | KeyError | RuntimeError | OverflowError | OtherError

datatype exn = Exn (kind: exn_kind) (str_of_exn: string)

definition is_ValueError :: "exn \<Rightarrow> bool" where
  \<comment> \<open>\<open>except ValueError\<close>: \<open>JSONDecodeError\<close> and pydantic's \<open>ValidationError\<close> are subclasses\<close>
  "is_ValueError e = (kind e \<in> {ValueError, JSONDecodeError, ValidationError})"

text \<open>
  The interpreter's own functions are parameters of the model, so that every theorem holds
  for whatever they compute: \<open>json.loads\<close> (a value, or the exception it raises),
  \<open>repr()\<close> (which is \<open>str()\<close> on every value but a \<open>str\<close>), and \<open>float()\<close> of a \<open>str\<close>.
\<close>

record builtins =
  json_loads :: "string \<Rightarrow> exn + json"
  py_repr :: "json \<Rightarrow> string"
  str_to_float :: "string \<Rightarrow> rat option"

definition type_name :: "json \<Rightarrow> string" where
  "type_name v = (case v of
       JNull \<Rightarrow> ''NoneType'' | JBool _ \<Rightarrow> ''bool'' | JInt _ \<Rightarrow> ''int''
     | JFloat _ \<Rightarrow> ''float'' | JString _ \<Rightarrow> ''str'' | JArray _ \<Rightarrow> ''list''
     | JObject _ \<Rightarrow> ''dict'')"

definition quoted :: "string \<Rightarrow> string" where
  "quoted s = CHR 0x27 # s @ [CHR 0x27]"

definition no_attribute :: "json \<Rightarrow> string \<Rightarrow> exn" where
  "no_attribute v attr =
     Exn AttributeError (quoted (type_name v) @ '' object has no attribute '' @ quoted attr)"

definition dict_get :: "(string \<times> json) list \<Rightarrow> string \<Rightarrow> json \<Rightarrow> json" where
  \<comment> \<open>\<open>d.get(k, default)\<close> on a \<open>dict\<close>\<close>
  "dict_get d k dflt = (case map_of d k of Some v \<Rightarrow> v | None \<Rightarrow> dflt)"

definition py_get :: "json \<Rightarrow> string \<Rightarrow> json \<Rightarrow> exn + json" where
  \<comment> \<open>\<open>x.get(k, default)\<close> on any value: only a \<open>dict\<close> has \<open>get\<close>\<close>
  "py_get x k dflt = (case x of JObject d \<Rightarrow> Inr (dict_get d k dflt)
                               | _ \<Rightarrow> Inl (no_attribute x ''get''))"

definition dict_set :: "(string \<times> json) list \<Rightarrow> string \<Rightarrow> json \<Rightarrow> (string \<times> json) list" where
  \<comment> \<open>\<open>d[k] = v\<close>: an existing key keeps its place, a new key goes last\<close>
  "dict_set d k v = (if k \<in> set (map fst d)
                     then map (\<lambda>(k', v'). if k' = k then (k', v) else (k', v')) d
                     else d @ [(k, v)])"

definition truthy :: "json \<Rightarrow> bool" where
  \<comment> \<open>\<open>bool(x)\<close>\<close>
  "truthy v = (case v of
       JNull \<Rightarrow> False | JBool b \<Rightarrow> b | JInt i \<Rightarrow> i \<noteq> 0 | JFloat r \<Rightarrow> r \<noteq> 0
     | JString s \<Rightarrow> s \<noteq> [] | JArray xs \<Rightarrow> xs \<noteq> [] | JObject d \<Rightarrow> d \<noteq> [])"

definition py_iter :: "json \<Rightarrow> exn + json list" where
  \<comment> \<open>the items a \<open>for\<close> loop visits: list elements, the characters of a \<open>str\<close>, the keys of a \<open>dict\<close>\<close>
  "py_iter v = (case v of
       JArray xs \<Rightarrow> Inr xs
     | JString s \<Rightarrow> Inr (map (\<lambda>c. JString [c]) s)
     | JObject d \<Rightarrow> Inr (map (\<lambda>(k, _). JString k) d)
     | _ \<Rightarrow> Inl (Exn TypeError (quoted (type_name v) @ '' object is not iterable'')))"

definition py_str :: "builtins \<Rightarrow> json \<Rightarrow> string" where
  \<comment> \<open>\<open>str(x)\<close>\<close>
  "py_str B v = (case v of JString s \<Rightarrow> s | _ \<Rightarrow> py_repr B v)"

definition float_overflows :: "int \<Rightarrow> bool" where
  \<comment> \<open>an \<open>int\<close> that rounds to a value beyond the largest double,
      \<open>2 ** 1024 - 2 ** 971\<close>\<close>
  "float_overflows i = (2 ^ 1024 - 2 ^ 970 \<le> \<bar>i\<bar>)"

definition int_too_large :: exn where
  "int_too_large = Exn OverflowError ''int too large to convert to float''"

definition py_float :: "builtins \<Rightarrow> json \<Rightarrow> exn + rat" where
  \<comment> \<open>\<open>float(x)\<close>\<close>
  "py_float B v = (case v of
       JInt i \<Rightarrow> if float_overflows i then Inl int_too_large else Inr (of_int i)
     | JFloat r \<Rightarrow> Inr r
     | JBool b \<Rightarrow> Inr (if b then 1 else 0)
     | JString s \<Rightarrow> (case str_to_float B s of
                       Some r \<Rightarrow> Inr r
                     | None \<Rightarrow> Inl (Exn ValueError
                         (''could not convert string to float: '' @ py_repr B v)))
     | _ \<Rightarrow> Inl (Exn TypeError
              (''float() argument must be a string or a real number, not ''
               @ quoted (type_name v))))"

definition utf8_len :: "string \<Rightarrow> nat" where
  \<comment> \<open>\<open>len(s.encode("utf-8", errors="replace"))\<close>: one byte below U+0080, two up to U+00FF\<close>
  "utf8_len s = sum_list (map (\<lambda>c. if (of_char c :: nat) < 128 then 1 else 2) s)"

section \<open>Scaffold node: path filter\<close>

definition MAX_SCAFFOLD_CONTENT_BYTES :: nat where
  "MAX_SCAFFOLD_CONTENT_BYTES = 512 * 1024"

definition ALLOWED_EXTENSIONS :: "string list" where
  "ALLOWED_EXTENSIONS =
    [''.py'', ''.js'', ''.ts'', ''.jsx'', ''.tsx'', ''.go'', ''.rs'', ''.java'', ''.kt'',
     ''.html'', ''.css'', ''.scss'', ''.json'', ''.yaml'', ''.yml'', ''.toml'', ''.cfg'',
     ''.md'', ''.txt'', ''.sql'', ''.sh'', ''.bash'', ''.dockerfile'', ''.env'',
     ''.gitignore'', ''.dockerignore'', ''.editorconfig'', ''.prettierrc'',
     ''.eslintrc'', ''.ini'', ''.lock'', ''.xml'', ''.gradle'', ''.properties'']"

definition FORBIDDEN_PATH_PARTS :: "string list" where
  "FORBIDDEN_PATH_PARTS = [''__pycache__'', ''node_modules'', ''.git'', ''..'', ''~'']"

definition ALLOWED_DOT_PARTS :: "string list" where
  \<comment> \<open>the set literal of the loop in \<open>_sanitize_path\<close>\<close>
  "ALLOWED_DOT_PARTS =
    [''.env'', ''.env.example'', ''.gitignore'', ''.dockerignore'',
     ''.editorconfig'', ''.prettierrc'', ''.eslintrc'', ''.github'']"

definition trim_path :: "string \<Rightarrow> string" where
  \<comment> \<open>\<open>path.strip().lstrip("/").lstrip("\\")\<close>\<close>
  "trim_path path = lstrip_chars backslash (lstrip_chars (CHR ''/'') (strip path))"

definition path_parts :: "string \<Rightarrow> string list" where
  \<comment> \<open>\<open>re.split(r"[/\\]", path)\<close>\<close>
  "path_parts path = split_on (\<lambda>c. c = CHR ''/'' \<or> c = backslash) path"

fun parts_allowed :: "string list \<Rightarrow> bool" where
  \<comment> \<open>the \<open>for part in parts\<close> loop; \<open>False\<close> is its \<open>return None\<close>\<close>
  "parts_allowed [] = True"
| "parts_allowed (part # rest) =
     (if part \<in> set FORBIDDEN_PATH_PARTS then False
      else if startswith ''.'' part \<and> part \<notin> set ALLOWED_DOT_PARTS then False
      else parts_allowed rest)"

definition file_ext :: "string \<Rightarrow> string" where
  \<comment> \<open>\<open>"." + filename.rsplit(".", 1)[-1].lower()\<close>\<close>
  "file_ext filename = ''.'' @ lower (after_last (CHR ''.'') filename)"

definition sanitize_path :: "string \<Rightarrow> string option" where
  "sanitize_path path0 =
     (let path = trim_path path0 in
      if path = [] \<or> length path > 300 then None
      else
        let parts = path_parts path in
        if \<not> parts_allowed parts then None
        else
          let filename = last parts in
          if CHR ''.'' \<in> set filename \<and> file_ext filename \<notin> set ALLOWED_EXTENSIONS
          then None
          else Some (join ''/'' parts))"

section \<open>Scaffold node: validation\<close>

definition path_arg :: "json \<Rightarrow> exn + string option" where
  \<comment> \<open>\<open>_sanitize_path(x)\<close> on an untyped argument: \<open>x.strip()\<close> exists on a \<open>str\<close> only\<close>
  "path_arg x = (case x of JString s \<Rightarrow> Inr (sanitize_path s)
                         | _ \<Rightarrow> Inl (no_attribute x ''strip''))"

definition file_entry :: "builtins \<Rightarrow> string \<Rightarrow> string \<Rightarrow> (string \<times> json) list \<Rightarrow> json" where
  \<comment> \<open>the dict appended to \<open>files\<close>\<close>
  "file_entry B path content raw_file = JObject
     [(''path'', JString path),
      (''content'', JString content),
      (''language'', JString (take 30 (py_str B (dict_get raw_file ''language'' (JString ''text''))))),
      (''description'', JString (take 300 (py_str B (dict_get raw_file ''description'' (JString ''''))))) ]"

fun files_loop :: "builtins \<Rightarrow> json list \<Rightarrow> nat \<Rightarrow> json list \<Rightarrow> exn + json list" where
  \<comment> \<open>the \<open>for raw_file in ...\<close> loop of \<open>_validate_scaffold\<close>, with \<open>total_size\<close> and \<open>files\<close>\<close>
  "files_loop B [] total_size files = Inr files"
| "files_loop B (raw_file # rest) total_size files =
     (case raw_file of
        JObject d \<Rightarrow>
          (case path_arg (dict_get d ''path'' (JString '''')) of
             Inl e \<Rightarrow> Inl e
           | Inr None \<Rightarrow> files_loop B rest total_size files
           | Inr (Some path) \<Rightarrow>
               if path = [] then files_loop B rest total_size files
               else
                 let content = py_str B (dict_get d ''content'' (JString ''''));
                     total_size' = total_size + utf8_len content
                 in if total_size' > MAX_SCAFFOLD_CONTENT_BYTES then Inr files
                    else files_loop B rest total_size' (files @ [file_entry B path content d]))
      | _ \<Rightarrow> files_loop B rest total_size files)"

definition project_name_of :: "string \<Rightarrow> string" where
  \<comment> \<open>\<open>re.sub(r"[^a-z0-9\\-]", "", s.lower())[:80] or "scaffold-project"\<close>\<close>
  "project_name_of s =
     (let kept = take 80 (filter (\<lambda>c. c \<in> set ''abcdefghijklmnopqrstuvwxyz0123456789-'') (lower s))
      in if kept = [] then ''scaffold-project'' else kept)"

definition validate_scaffold :: "builtins \<Rightarrow> json \<Rightarrow> exn + json" where
  "validate_scaffold B scaffold =
     (case py_get scaffold ''files'' (JArray []) of
        Inl e \<Rightarrow> Inl e
      | Inr fs \<Rightarrow>
     (case py_iter fs of
        Inl e \<Rightarrow> Inl e
      | Inr raw_files \<Rightarrow>
     (case files_loop B raw_files 0 [] of
        Inl e \<Rightarrow> Inl e
      | Inr files \<Rightarrow>
     (case py_get scaffold ''project_name'' (JString ''scaffold-project'') of
        Inl e \<Rightarrow> Inl e
      | Inr pn \<Rightarrow>
     (case py_get scaffold ''file_tree'' (JString '''') of
        Inl e \<Rightarrow> Inl e
      | Inr ft \<Rightarrow>
          Inr (JObject
            [(''project_name'', JString (project_name_of (py_str B pn))),
             (''files'', JArray files),
             (''file_tree'', JString (take 5000 (py_str B ft)))]))))))"

section \<open>A reference parser for closed evaluations\<close>

text \<open>
  A parser for the JSON grammar that \<open>json.loads\<close> accepts (objects, arrays, strings with
  escapes, numbers, \<open>true\<close>, \<open>false\<close>, \<open>null\<close>, a later duplicate key replacing the
  earlier). It is used only to run the nodes on concrete texts; the general theorems take the
  parser as a parameter. The constants \<open>NaN\<close> and \<open>Infinity\<close> and escapes above U+00FF,
  which have no value in this model, are rejected, and the message of the exception is not
  modelled.
\<close>

datatype token = TLBrace | TRBrace | TLBrack | TRBrack | TColon | TComma | TValue json

definition is_digit :: "char \<Rightarrow> bool" where
  "is_digit c = (let n = (of_char c :: nat) in 48 \<le> n \<and> n \<le> 57)"

definition digit_val :: "char \<Rightarrow> nat" where
  "digit_val c = of_char c - 48"

definition nat_of_digits :: "string \<Rightarrow> nat" where
  "nat_of_digits ds = foldl (\<lambda>acc c. 10 * acc + digit_val c) 0 ds"

definition split_sign :: "string \<Rightarrow> bool \<times> string" where
  "split_sign s = (case s of c # cs \<Rightarrow> if c = CHR ''-'' then (True, cs) else (False, s) | [] \<Rightarrow> (False, s))"

definition json_int_part :: "string \<Rightarrow> bool" where
  "json_int_part ds = (ds \<noteq> [] \<and> list_all is_digit ds \<and> (ds = ''0'' \<or> hd ds \<noteq> CHR ''0''))"

definition digits1 :: "string \<Rightarrow> bool" where
  "digits1 ds = (ds \<noteq> [] \<and> list_all is_digit ds)"

definition pow10 :: "int \<Rightarrow> rat" where
  "pow10 e = (if e \<ge> 0 then 10 ^ nat e else 1 / 10 ^ nat (- e))"

definition json_number :: "string \<Rightarrow> json option" where
  "json_number w =
     (let (neg, body) = split_sign w;
          mant = takeWhile (\<lambda>c. c \<noteq> CHR ''e'' \<and> c \<noteq> CHR ''E'') body;
          exp_part = dropWhile (\<lambda>c. c \<noteq> CHR ''e'' \<and> c \<noteq> CHR ''E'') body;
          ip = takeWhile (\<lambda>c. c \<noteq> CHR ''.'') mant;
          fp = dropWhile (\<lambda>c. c \<noteq> CHR ''.'') mant
      in if \<not> json_int_part ip then None
         else if fp = [] \<and> exp_part = []
         then Some (JInt (if neg then - int (nat_of_digits ip) else int (nat_of_digits ip)))
         else if fp \<noteq> [] \<and> \<not> digits1 (tl fp) then None
         else
           let frac = tl fp;
               m = (of_nat (nat_of_digits (ip @ frac)) :: rat) / 10 ^ length frac;
               e = tl exp_part;
               ed = (if e \<noteq> [] \<and> (hd e = CHR ''-'' \<or> hd e = CHR ''+'') then tl e else e);
               ex = (if e \<noteq> [] \<and> hd e = CHR ''-'' then - int (nat_of_digits ed)
                     else int (nat_of_digits ed))
           in if exp_part \<noteq> [] \<and> \<not> digits1 ed then None
              else Some (JFloat ((if neg then - m else m) * pow10 ex)))"

definition json_scalar :: "string \<Rightarrow> json option" where
  "json_scalar w =
     (if w = ''true'' then Some (JBool True)
      else if w = ''false'' then Some (JBool False)
      else if w = ''null'' then Some JNull
      else json_number w)"

definition is_word_char :: "char \<Rightarrow> bool" where
  "is_word_char c = (let n = (of_char c :: nat) in
     (48 \<le> n \<and> n \<le> 57) \<or> (65 \<le> n \<and> n \<le> 90) \<or> (97 \<le> n \<and> n \<le> 122)
     \<or> c = CHR ''-'' \<or> c = CHR ''+'' \<or> c = CHR ''.'')"

definition json_ws :: "char \<Rightarrow> bool" where
  "json_ws c = (c = CHR '' '' \<or> c = CHR 0x09 \<or> c = CHR 0x0A \<or> c = CHR 0x0D)"

definition hex_val :: "char \<Rightarrow> nat option" where
  "hex_val c = (let n = (of_char c :: nat) in
     if 48 \<le> n \<and> n \<le> 57 then Some (n - 48)
     else if 65 \<le> n \<and> n \<le> 70 then Some (n - 55)
     else if 97 \<le> n \<and> n \<le> 102 then Some (n - 87)
     else None)"

definition escape_char :: "char \<Rightarrow> char option" where
  "escape_char c =
     (if c = CHR 0x22 then Some (CHR 0x22)
      else if c = backslash then Some backslash
      else if c = CHR ''/'' then Some (CHR ''/'')
      else if c = CHR ''b'' then Some (CHR 0x08)
      else if c = CHR ''f'' then Some (CHR 0x0C)
      else if c = CHR ''n'' then Some (CHR 0x0A)
      else if c = CHR ''r'' then Some (CHR 0x0D)
      else if c = CHR ''t'' then Some (CHR 0x09)
      else None)"

datatype lex_state =
    LNormal
  | LWord string
  | LString string
  | LEscape string
  | LUnicode string "nat list"

definition single_token :: "char \<Rightarrow> token option" where
  "single_token c =
     (if c = CHR ''{'' then Some TLBrace
      else if c = CHR ''}'' then Some TRBrace
      else if c = CHR ''['' then Some TLBrack
      else if c = CHR '']'' then Some TRBrack
      else if c = CHR '':'' then Some TColon
      else if c = CHR '','' then Some TComma
      else None)"

definition emit :: "token \<Rightarrow> token list option \<Rightarrow> token list option" where
  "emit t r = map_option ((#) t) r"

fun lex :: "lex_state \<Rightarrow> string \<Rightarrow> token list option" where
  "lex LNormal [] = Some []"
| "lex (LWord w) [] = map_option (\<lambda>v. [TValue v]) (json_scalar (rev w))"
| "lex (LString acc) [] = None"
| "lex (LEscape acc) [] = None"
| "lex (LUnicode acc ds) [] = None"
| "lex LNormal (c # cs) =
     (if json_ws c then lex LNormal cs
      else if c = CHR 0x22 then lex (LString []) cs
      else if is_word_char c then lex (LWord [c]) cs
      else (case single_token c of Some t \<Rightarrow> emit t (lex LNormal cs) | None \<Rightarrow> None))"
| "lex (LWord w) (c # cs) =
     (if is_word_char c then lex (LWord (c # w)) cs
      else (case json_scalar (rev w) of
              None \<Rightarrow> None
            | Some v \<Rightarrow>
                if json_ws c then emit (TValue v) (lex LNormal cs)
                else (case single_token c of
                        Some t \<Rightarrow> emit (TValue v) (emit t (lex LNormal cs))
                      | None \<Rightarrow> None)))"
| "lex (LString acc) (c # cs) =
     (if c = CHR 0x22 then emit (TValue (JString (rev acc))) (lex LNormal cs)
      else if c = backslash then lex (LEscape acc) cs
      else if (of_char c :: nat) < 32 then None
      else lex (LString (c # acc)) cs)"
| "lex (LEscape acc) (c # cs) =
     (if c = CHR ''u'' then lex (LUnicode acc []) cs
      else (case escape_char c of
              Some x \<Rightarrow> lex (LString (x # acc)) cs
            | None \<Rightarrow> None))"
| "lex (LUnicode acc ds) (c # cs) =
     (case hex_val c of
        None \<Rightarrow> None
      | Some d \<Rightarrow>
          if length ds < 3 then lex (LUnicode acc (ds @ [d])) cs
          else
            let n = foldl (\<lambda>a x. 16 * a + x) 0 (ds @ [d])
            in if n < 256 then lex (LString (char_of n # acc)) cs else None)"

datatype frame = FArr "json list" | FObj "(string \<times> json) list" "string option"

datatype expect = EValue | EValueOrClose | EKeyOrClose | EKey | EColon | ECommaOrClose | EEnd

datatype pstate = PState (stack: "frame list") (expecting: expect) (result: "json option")

definition push_value :: "json \<Rightarrow> frame list \<Rightarrow> pstate option" where
  "push_value v st =
     (case st of
        [] \<Rightarrow> Some (PState [] EEnd (Some v))
      | FArr xs # rest \<Rightarrow> Some (PState (FArr (xs @ [v]) # rest) ECommaOrClose None)
      | FObj kvs (Some k) # rest \<Rightarrow> Some (PState (FObj (dict_set kvs k v) None # rest) ECommaOrClose None)
      | FObj kvs None # rest \<Rightarrow> None)"

definition step :: "pstate \<Rightarrow> token \<Rightarrow> pstate option" where
  "step ps t =
     (let st = stack ps; ex = expecting ps in
      if ex = EValue \<or> ex = EValueOrClose then
        (case t of
           TValue v \<Rightarrow> push_value v st
         | TLBrack \<Rightarrow> Some (PState (FArr [] # st) EValueOrClose None)
         | TLBrace \<Rightarrow> Some (PState (FObj [] None # st) EKeyOrClose None)
         | TRBrack \<Rightarrow> (case st of FArr xs # rest \<Rightarrow>
                          if ex = EValueOrClose then push_value (JArray xs) rest else None
                        | _ \<Rightarrow> None)
         | _ \<Rightarrow> None)
      else if ex = EKeyOrClose \<or> ex = EKey then
        (case t of
           TValue (JString k) \<Rightarrow> (case st of FObj kvs _ # rest \<Rightarrow> Some (PState (FObj kvs (Some k) # rest) EColon None)
                                   | _ \<Rightarrow> None)
         | TRBrace \<Rightarrow> (case st of FObj kvs _ # rest \<Rightarrow>
                          if ex = EKeyOrClose then push_value (JObject kvs) rest else None
                        | _ \<Rightarrow> None)
         | _ \<Rightarrow> None)
      else if ex = EColon then
        (case t of TColon \<Rightarrow> Some (PState st EValue None) | _ \<Rightarrow> None)
      else if ex = ECommaOrClose then
        (case t of
           TComma \<Rightarrow> (case st of FArr _ # _ \<Rightarrow> Some (PState st EValue None)
                               | FObj _ _ # _ \<Rightarrow> Some (PState st EKey None)
                               | [] \<Rightarrow> None)
         | TRBrack \<Rightarrow> (case st of FArr xs # rest \<Rightarrow> push_value (JArray xs) rest | _ \<Rightarrow> None)
         | TRBrace \<Rightarrow> (case st of FObj kvs _ # rest \<Rightarrow> push_value (JObject kvs) rest | _ \<Rightarrow> None)
         | _ \<Rightarrow> None)
      else None)"

fun run_tokens :: "pstate \<Rightarrow> token list \<Rightarrow> json option" where
  "run_tokens ps [] = (if expecting ps = EEnd then result ps else None)"
| "run_tokens ps (t # ts) = (case step ps t of None \<Rightarrow> None | Some ps' \<Rightarrow> run_tokens ps' ts)"

definition json_parse :: "string \<Rightarrow> exn + json" where
  "json_parse s =
     (case lex LNormal s of
        None \<Rightarrow> Inl (Exn JSONDecodeError ''invalid JSON'')
      | Some ts \<Rightarrow>
          (case run_tokens (PState [] EValue None) ts of
             None \<Rightarrow> Inl (Exn JSONDecodeError ''invalid JSON'')
           | Some v \<Rightarrow> Inr v))"

section \<open>Reference \<open>repr\<close> and \<open>float\<close> for closed evaluations\<close>

text \<open>
  Like the parser, these stand in for the interpreter when a node is run on a concrete input:
  \<open>repr\<close> of the values \<open>json.loads\<close> builds (the escapes inside the \<open>repr\<close> of a \<open>str\<close> are
  not modelled) and \<open>float\<close> of a plain decimal literal (\<open>inf\<close>, \<open>nan\<close> and digit separators
  are not modelled).
\<close>

fun dec_digits :: "nat \<Rightarrow> nat \<Rightarrow> string" where
  "dec_digits 0 n = []"
| "dec_digits (Suc fuel) n =
     (if n < 10 then [char_of (48 + n)]
      else dec_digits fuel (n div 10) @ [char_of (48 + n mod 10)])"

definition repr_nat :: "nat \<Rightarrow> string" where
  "repr_nat n = dec_digits (Suc n) n"

definition repr_int :: "int \<Rightarrow> string" where
  "repr_int i = (if i < 0 then CHR ''-'' # repr_nat (nat (- i)) else repr_nat (nat i))"

fun frac_digits :: "nat \<Rightarrow> rat \<Rightarrow> string" where
  "frac_digits 0 r = []"
| "frac_digits (Suc fuel) r =
     (if r = 0 then []
      else let d = nat \<lfloor>r * 10\<rfloor> in char_of (48 + d) # frac_digits fuel (r * 10 - of_nat d))"

definition repr_float :: "rat \<Rightarrow> string" where
  "repr_float r =
     (let a = \<bar>r\<bar>; ip = nat \<lfloor>a\<rfloor>; fr = a - of_nat ip
      in (if r < 0 then ''-'' else '''') @ repr_nat ip @ ''.''
         @ (if fr = 0 then ''0'' else frac_digits 17 fr))"

fun repr_model :: "json \<Rightarrow> string" where
  "repr_model JNull = ''None''"
| "repr_model (JBool b) = (if b then ''True'' else ''False'')"
| "repr_model (JInt i) = repr_int i"
| "repr_model (JFloat r) = repr_float r"
| "repr_model (JString s) = quoted s"
| "repr_model (JArray xs) = ''['' @ join '', '' (map repr_model xs) @ '']''"
| "repr_model (JObject kvs) =
     ''{'' @ join '', '' (map (\<lambda>kv. quoted (fst kv) @ '': '' @ repr_model (snd kv)) kvs) @ ''}''"

definition float_literal :: "string \<Rightarrow> rat option" where
  "float_literal s =
     (let t = strip s;
          neg = startswith ''-'' t;
          body = (if startswith ''-'' t \<or> startswith ''+'' t then tl t else t);
          mant = takeWhile (\<lambda>c. c \<noteq> CHR ''e'' \<and> c \<noteq> CHR ''E'') body;
          exp_part = dropWhile (\<lambda>c. c \<noteq> CHR ''e'' \<and> c \<noteq> CHR ''E'') body;
          ip = takeWhile (\<lambda>c. c \<noteq> CHR ''.'') mant;
          fp = dropWhile (\<lambda>c. c \<noteq> CHR ''.'') mant;
          frac = (if fp = [] then [] else tl fp);
          m = (of_nat (nat_of_digits (ip @ frac)) :: rat) / 10 ^ length frac;
          e = (if exp_part = [] then [] else tl exp_part);
          ed = (if startswith ''-'' e \<or> startswith ''+'' e then tl e else e);
          ex = (if startswith ''-'' e then - int (nat_of_digits ed) else int (nat_of_digits ed))
      in if \<not> list_all is_digit ip \<or> \<not> list_all is_digit frac \<or> ip @ frac = [] then None
         else if exp_part \<noteq> [] \<and> \<not> digits1 ed then None
         else Some ((if neg then - m else m) * pow10 ex))"

definition py :: builtins where
  "py = \<lparr>json_loads = json_parse, py_repr = repr_model, str_to_float = float_literal\<rparr>"

definition dq :: "string \<Rightarrow> string" where
  \<comment> \<open>a text between double quotes, for writing JSON texts\<close>
  "dq s = CHR 0x22 # s @ [CHR 0x22]"

section \<open>Scaffold budget: the notions of the specification\<close>

text \<open>
  The candidates of budget enforcement are the raw files that the path filter lets through,
  in the shape in which \<open>_validate_scaffold\<close> would append them. \<open>enforce_budget\<close> follows
  the words of the specification: iterate in order, accumulate the byte length of the
  content, stop accepting once the running total would exceed the budget.
\<close>

definition candidate_entry :: "builtins \<Rightarrow> json \<Rightarrow> json option" where
  "candidate_entry B raw_file =
     (case raw_file of
        JObject d \<Rightarrow>
          (case dict_get d ''path'' (JString '''') of
             JString p \<Rightarrow>
               (case sanitize_path p of
                  Some path \<Rightarrow>
                    if path = [] then None
                    else Some (file_entry B path (py_str B (dict_get d ''content'' (JString ''''))) d)
                | None \<Rightarrow> None)
           | _ \<Rightarrow> None)
      | _ \<Rightarrow> None)"

definition candidate_files :: "builtins \<Rightarrow> json list \<Rightarrow> json list" where
  "candidate_files B raw_files = List.map_filter (candidate_entry B) raw_files"

definition content_bytes :: "json \<Rightarrow> nat" where
  "content_bytes entry =
     (case entry of
        JObject d \<Rightarrow> (case dict_get d ''content'' (JString '''') of
                        JString s \<Rightarrow> utf8_len s | _ \<Rightarrow> 0)
      | _ \<Rightarrow> 0)"

definition total_bytes :: "json list \<Rightarrow> nat" where
  "total_bytes entries = sum_list (map content_bytes entries)"

fun enforce_budget :: "nat \<Rightarrow> nat \<Rightarrow> json list \<Rightarrow> json list" where
  "enforce_budget cap running [] = []"
| "enforce_budget cap running (f # fs) =
     (if running + content_bytes f > cap then []
      else f # enforce_budget cap (running + content_bytes f) fs)"

definition files_of :: "json \<Rightarrow> json list" where
  \<comment> \<open>\<open>validated["files"]\<close>\<close>
  "files_of validated =
     (case validated of
        JObject d \<Rightarrow> (case dict_get d ''files'' (JArray []) of JArray fs \<Rightarrow> fs | _ \<Rightarrow> [])
      | _ \<Rightarrow> [])"

section \<open>Concrete inputs\<close>

definition demo_scaffold :: "(string \<times> json) list" where
  \<comment> \<open>four raw files: one rejected by the path filter, one of exactly 512 KiB\<close>
  "demo_scaffold =
     [(''project_name'', JString ''Demo App''),
      (''files'', JArray
         [JObject [(''path'', JString ''a.txt''), (''content'', JString ''hi'')],
          JObject [(''path'', JString ''../evil.txt''), (''content'', JString ''no'')],
          JObject [(''path'', JString ''big.txt''),
                   (''content'', JString (replicate 524288 (CHR ''x'')))],
          JObject [(''path'', JString ''c.txt''), (''content'', JString ''z'')]])]"

section \<open>Company logic node\<close>

record company_modifier =
  emphasis_areas :: "string list"
  weight_adjustments :: "(string \<times> rat) list"
  portfolio_focus :: string

definition startup_modifier :: company_modifier where
  "startup_modifier = \<lparr>
     emphasis_areas = [''Shipping speed'', ''Full-stack capability'', ''MVP mindset'',
                       ''Wearing multiple hats'', ''Rapid iteration''],
     weight_adjustments = [(''full-stack'', 3), (''shipping speed'', 3), (''react'', 3 / 2),
                           (''fastapi'', 3 / 2), (''docker'', 2), (''ci/cd'', 3 / 2),
                           (''system design'', - 1)],
     portfolio_focus = ''Show end-to-end projects shipped solo. ''
                       @ ''Emphasize speed, deployment, and user-facing features.'' \<rparr>"

definition mid_level_modifier :: company_modifier where
  "mid_level_modifier = \<lparr>
     emphasis_areas = [''Clean architecture'', ''Code quality'', ''Testing'',
                       ''Design patterns'', ''Team collaboration''],
     weight_adjustments = [(''clean code'', 3), (''testing'', 5 / 2), (''design patterns'', 2),
                           (''code review'', 3 / 2), (''documentation'', 3 / 2)],
     portfolio_focus = ''Show well-structured projects with tests, CI, and clean code. ''
                       @ ''Emphasize maintainability, modularity, and code quality metrics.'' \<rparr>"

definition faang_modifier :: company_modifier where
  "faang_modifier = \<lparr>
     emphasis_areas = [''System design'', ''Scalability'', ''Data structures & algorithms'',
                       ''Distributed systems'', ''Performance optimization''],
     weight_adjustments = [(''system design'', 4), (''scalability'', 7 / 2), (''algorithms'', 3),
                           (''distributed systems'', 5 / 2), (''performance'', 2),
                           (''kubernetes'', 3 / 2)],
     portfolio_focus = ''Show projects that demonstrate scale thinking. ''
                       @ ''Include architecture diagrams, load considerations, ''
                       @ ''and system design documentation.'' \<rparr>"

definition research_modifier :: company_modifier where
  "research_modifier = \<lparr>
     emphasis_areas = [''Novel approach'', ''Rigorous evaluation'', ''Paper-grade documentation'',
                       ''Reproducibility'', ''Experiment tracking''],
     weight_adjustments = [(''machine learning'', 3), (''evaluation metrics'', 5 / 2),
                           (''reproducibility'', 2), (''research methodology'', 2),
                           (''python'', 1)],
     portfolio_focus = ''Show projects with clear problem formulation, novel approaches, ''
                       @ ''ablation studies, and paper-quality writeups.'' \<rparr>"

definition enterprise_modifier :: company_modifier where
  "enterprise_modifier = \<lparr>
     emphasis_areas = [''Security'', ''Reliability'', ''Compliance'',
                       ''Error handling'', ''Logging & monitoring'', ''Documentation''],
     weight_adjustments = [(''security'', 4), (''reliability'', 3), (''error handling'', 5 / 2),
                           (''logging'', 2), (''monitoring'', 2), (''documentation'', 2),
                           (''compliance'', 3 / 2)],
     portfolio_focus = ''Show projects with robust error handling, security headers, ''
                       @ ''structured logging, auth, and deployment pipelines.'' \<rparr>"

definition COMPANY_MODIFIERS :: "(string \<times> company_modifier) list" where
  "COMPANY_MODIFIERS =
     [(''startup'', startup_modifier), (''mid_level'', mid_level_modifier),
      (''faang'', faang_modifier), (''research'', research_modifier),
      (''enterprise'', enterprise_modifier)]"

definition modifiers_for :: "string \<Rightarrow> company_modifier" where
  \<comment> \<open>\<open>COMPANY_MODIFIERS.get(company_type, COMPANY_MODIFIERS["mid_level"])\<close>\<close>
  "modifiers_for company_type =
     (case map_of COMPANY_MODIFIERS company_type of
        Some m \<Rightarrow> m
      | None \<Rightarrow> mid_level_modifier)"

text \<open>
  The fields of \<open>AgentState\<close> that the modelled nodes read; \<open>None\<close> is a key that is absent
  (or, where the node writes \<open>state.get(k) or default\<close>, a value that is \<open>None\<close>).
\<close>

record agent_state =
  jd_text :: "string option"
  role :: "string option"
  company_type :: "string option"
  geography :: "string option"
  skill_profile :: "json option"
  errors :: "string list option"
  repo_url :: "string option"

record company_modifiers_out =
  cm_company_type :: string
  cm_emphasis_areas :: "string list"
  cm_weight_adjustments :: "(string \<times> rat) list"
  cm_portfolio_focus :: string

record company_update =
  cu_skill_profile :: json
  cu_company_modifiers :: company_modifiers_out
  cu_current_phase :: string

fun contains :: "string \<Rightarrow> string \<Rightarrow> bool" where
  \<comment> \<open>\<open>sub in s\<close>, written \<open>contains sub s\<close>\<close>
  "contains sub [] = (sub = [])"
| "contains sub (c # cs) = (startswith sub (c # cs) \<or> contains sub cs)"

definition py_add_float :: "json \<Rightarrow> rat \<Rightarrow> exn + rat" where
  \<comment> \<open>\<open>x + a\<close> for a \<open>float\<close> \<open>a\<close>\<close>
  "py_add_float x a = (case x of
       JInt i \<Rightarrow> if float_overflows i then Inl int_too_large else Inr (of_int i + a)
     | JFloat r \<Rightarrow> Inr (r + a)
     | JBool b \<Rightarrow> Inr ((if b then 1 else 0) + a)
     | JString _ \<Rightarrow> Inl (Exn TypeError (''can only concatenate str (not '' @ dq ''float''
                                          @ '') to str''))
     | JArray _ \<Rightarrow> Inl (Exn TypeError (''can only concatenate list (not '' @ dq ''float''
                                         @ '') to list''))
     | _ \<Rightarrow> Inl (Exn TypeError (''unsupported operand type(s) for +: ''
                                  @ quoted (type_name x) @ '' and '' @ quoted ''float'')))"

fun apply_adjustments ::
  "(string \<times> rat) list \<Rightarrow> string \<Rightarrow> (string \<times> json) list \<Rightarrow> exn + (string \<times> json) list" where
  \<comment> \<open>the loop \<open>for adj_key, adj_value in adjustments.items()\<close> on one skill\<close>
  "apply_adjustments [] skill_name_lower skill = Inr skill"
| "apply_adjustments ((adj_key, adj_value) # rest) skill_name_lower skill =
     (if contains adj_key skill_name_lower then
        (case py_add_float (dict_get skill ''weight'' (JFloat 5)) adj_value of
           Inl e \<Rightarrow> Inl e
         | Inr s \<Rightarrow>
             apply_adjustments rest skill_name_lower
               (dict_set skill ''weight'' (JFloat (max 0 (min 10 s)))))
      else apply_adjustments rest skill_name_lower skill)"

fun adjust_skills :: "(string \<times> rat) list \<Rightarrow> json list \<Rightarrow> exn + json list" where
  \<comment> \<open>the loop \<open>for skill in skills\<close>\<close>
  "adjust_skills adjustments [] = Inr []"
| "adjust_skills adjustments (skill # rest) =
     (case py_get skill ''name'' (JString '''') of
        Inl e \<Rightarrow> Inl e
      | Inr (JString nm) \<Rightarrow>
          (case skill of
             JObject d \<Rightarrow>
               (case apply_adjustments adjustments (lower nm) d of
                  Inl e \<Rightarrow> Inl e
                | Inr d' \<Rightarrow>
                    (case adjust_skills adjustments rest of
                       Inl e \<Rightarrow> Inl e
                     | Inr rest' \<Rightarrow> Inr (JObject d' # rest')))
           | _ \<Rightarrow> Inl (no_attribute skill ''get''))
      | Inr v \<Rightarrow> Inl (no_attribute v ''lower''))"

datatype sort_key = is_NumKey: NumKey rat | is_StrKey: StrKey string | NoKey

definition key_of :: "json \<Rightarrow> sort_key" where
  "key_of v = (case v of
       JInt i \<Rightarrow> NumKey (of_int i)
     | JFloat r \<Rightarrow> NumKey r
     | JBool b \<Rightarrow> NumKey (if b then 1 else 0)
     | JString s \<Rightarrow> StrKey s
     | _ \<Rightarrow> NoKey)"

fun str_lt :: "string \<Rightarrow> string \<Rightarrow> bool" where
  \<comment> \<open>\<open>a < b\<close> on \<open>str\<close>: lexicographic by code point\<close>
  "str_lt a [] = False"
| "str_lt [] (b # bs) = True"
| "str_lt (a # as) (b # bs) =
     ((of_char a :: nat) < of_char b \<or> (a = b \<and> str_lt as bs))"

definition key_lt :: "sort_key \<Rightarrow> sort_key \<Rightarrow> bool" where
  "key_lt a b = (case (a, b) of
       (NumKey x, NumKey y) \<Rightarrow> x < y
     | (StrKey x, StrKey y) \<Rightarrow> str_lt x y
     | _ \<Rightarrow> False)"

fun insert_desc :: "('a \<Rightarrow> sort_key) \<Rightarrow> 'a \<Rightarrow> 'a list \<Rightarrow> 'a list" where
  "insert_desc key x [] = [x]"
| "insert_desc key x (y # ys) =
     (if key_lt (key x) (key y) then y # insert_desc key x ys else x # y # ys)"

definition sort_desc :: "('a \<Rightarrow> sort_key) \<Rightarrow> 'a list \<Rightarrow> 'a list" where
  \<comment> \<open>a stable sort, largest key first: what \<open>list.sort(key=..., reverse=True)\<close> returns\<close>
  "sort_desc key xs = foldr (insert_desc key) xs []"

definition weight_key :: "json \<Rightarrow> sort_key" where
  \<comment> \<open>\<open>lambda s: s.get("weight", 0)\<close> on a skill that is a \<open>dict\<close>\<close>
  "weight_key s = (case s of JObject d \<Rightarrow> key_of (dict_get d ''weight'' (JInt 0)) | _ \<Rightarrow> NoKey)"

definition sort_skills :: "json list \<Rightarrow> exn + json list" where
  \<comment> \<open>\<open>skills.sort(key=lambda s: s.get("weight", 0), reverse=True)\<close>. A list of fewer than two
      items is never compared. Numbers order among themselves and strings among themselves;
      any other mix raises. (Python can also order some list-valued keys; the model raises on
      those as well.)\<close>
  "sort_skills skills =
     (if length skills \<le> 1 then Inr skills
      else if list_all (\<lambda>s. is_NumKey (weight_key s)) skills
            \<or> list_all (\<lambda>s. is_StrKey (weight_key s)) skills
      then Inr (sort_desc weight_key skills)
      else Inl (Exn TypeError (quoted ''<'' @ '' not supported between instances'')))"

definition modifiers_output :: "string \<Rightarrow> company_modifier \<Rightarrow> company_modifiers_out" where
  "modifiers_output ct m = \<lparr>
     cm_company_type = ct,
     cm_emphasis_areas = emphasis_areas m,
     cm_weight_adjustments = weight_adjustments m,
     cm_portfolio_focus = portfolio_focus m \<rparr>"

definition company_logic_node :: "agent_state \<Rightarrow> exn + company_update" where
  "company_logic_node state =
     (let ct = lower (case company_type state of Some c \<Rightarrow> c | None \<Rightarrow> ''mid_level'');
          modifiers = modifiers_for ct;
          sp = (case skill_profile state of
                  Some v \<Rightarrow> if truthy v then v else JObject []
                | None \<Rightarrow> JObject [])
      in if \<not> truthy sp then
           Inr \<lparr> cu_skill_profile = JObject [],
                 cu_company_modifiers = modifiers_output ct modifiers,
                 cu_current_phase = ''company_logic_complete'' \<rparr>
         else
           (case py_get sp ''skills'' (JArray []) of
              Inl e \<Rightarrow> Inl e
            | Inr skills \<Rightarrow>
           (case py_iter skills of
              Inl e \<Rightarrow> Inl e
            | Inr items \<Rightarrow>
           (case adjust_skills (weight_adjustments modifiers) items of
              Inl e \<Rightarrow> Inl e
            | Inr adjusted \<Rightarrow>
           (case skills of
              JArray _ \<Rightarrow>
                (case sort_skills adjusted of
                   Inl e \<Rightarrow> Inl e
                 | Inr sorted_skills \<Rightarrow>
                     (case sp of
                        JObject d \<Rightarrow>
                          Inr \<lparr> cu_skill_profile = JObject (dict_set d ''skills'' (JArray sorted_skills)),
                                cu_company_modifiers = modifiers_output ct modifiers,
                                cu_current_phase = ''company_logic_complete'' \<rparr>
                      | _ \<Rightarrow> Inl (no_attribute sp ''get'')))
            | _ \<Rightarrow> Inl (no_attribute skills ''sort''))))))"

definition demo_state :: agent_state where
  \<comment> \<open>a state after JD analysis: two skills, the second of which \<open>mid_level\<close> adjusts\<close>
  "demo_state = \<lparr>
     jd_text = Some ''We build payment services in Python and need an engineer who tests.'',
     role = Some ''Backend Engineer'',
     company_type = Some ''startup'',
     geography = None,
     skill_profile = Some (JObject [(''skills'', JArray
        [JObject [(''name'', JString ''Python''), (''weight'', JInt 7)],
         JObject [(''name'', JString ''Unit Testing''), (''weight'', JInt 6)]])]),
     errors = Some [],
     repo_url = None \<rparr>"

section \<open>JD endpoint: extraction of a JSON object from text\<close>

definition is_ascii_alpha :: "char \<Rightarrow> bool" where
  \<comment> \<open>the class \<open>[a-zA-Z]\<close>\<close>
  "is_ascii_alpha c = (let n = (of_char c :: nat) in
     (65 \<le> n \<and> n \<le> 90) \<or> (97 \<le> n \<and> n \<le> 122))"

definition strip_leading_fence :: "string \<Rightarrow> string" where
  \<comment> \<open>\<open>re.sub(r'^```[a-zA-Z]*\s*', '', text)\<close>\<close>
  "strip_leading_fence text =
     (if startswith ''```'' text
      then dropWhile isspace (dropWhile is_ascii_alpha (drop 3 text))
      else text)"

definition strip_trailing_fence :: "string \<Rightarrow> string" where
  \<comment> \<open>\<open>re.sub(r'```\s*$', '', text)\<close>: the only possible match is a fence followed by
      nothing but white space up to the end\<close>
  "strip_trailing_fence text =
     (let r = dropWhile isspace (rev text)
      in if startswith ''```'' r then rev (drop 3 r) else text)"

definition strip_markdown_fences :: "string \<Rightarrow> string" where
  "strip_markdown_fences text =
     strip (strip_trailing_fence (strip_leading_fence (strip text)))"

definition find :: "char \<Rightarrow> string \<Rightarrow> int" where
  \<comment> \<open>\<open>s.find(c)\<close>\<close>
  "find c s = (if c \<in> set s then int (length (takeWhile (\<lambda>x. x \<noteq> c) s)) else - 1)"

definition rfind :: "char \<Rightarrow> string \<Rightarrow> int" where
  \<comment> \<open>\<open>s.rfind(c)\<close>\<close>
  "rfind c s = (if c \<in> set s
                then int (length s) - 1 - int (length (takeWhile (\<lambda>x. x \<noteq> c) (rev s)))
                else - 1)"

definition slice :: "string \<Rightarrow> int \<Rightarrow> int \<Rightarrow> string" where
  \<comment> \<open>\<open>s[a:b]\<close> for indices that are not negative\<close>
  "slice s a b = take (nat b - nat a) (drop (nat a) s)"

definition try_extract_json :: "builtins \<Rightarrow> string \<Rightarrow> exn + (string \<times> json) list option" where
  \<comment> \<open>\<open>_try_extract_json\<close> on a \<open>str\<close>. \<open>Inr None\<close> is its \<open>return None\<close>; only
      \<open>JSONDecodeError\<close> and \<open>TypeError\<close> are caught around \<open>json.loads\<close>.\<close>
  "try_extract_json B text =
     (if length text < 10 then Inr None
      else
        let clean = strip_markdown_fences text;
            brace_start = find (CHR ''{'') clean
        in if brace_start = - 1 then Inr None
           else
             let brace_end = rfind (CHR ''}'') clean
             in if brace_end \<le> brace_start then Inr None
                else
                  let candidate = slice clean brace_start (brace_end + 1)
                  in (case json_loads B candidate of
                        Inr (JObject d) \<Rightarrow> Inr (Some d)
                      | Inr _ \<Rightarrow> Inr None
                      | Inl e \<Rightarrow> if kind e = JSONDecodeError \<or> kind e = TypeError
                                 then Inr None else Inl e))"

section \<open>JD endpoint: the validated skill profile\<close>

text \<open>
  The pydantic models of \<open>schemas/jd.py\<close>, with the checks their construction runs: a \<open>str\<close>
  field takes a \<open>str\<close> only, \<open>weight\<close> and \<open>importance\<close> lie in \<open>[0, 10]\<close>, \<open>description\<close>
  has at most 500 characters, \<open>summary\<close> at most 8000, \<open>experience_level\<close> is one of the
  six values of the enumeration, \<open>key_responsibilities\<close> is a list of \<open>str\<close>.
\<close>

record skill =
  sk_name :: string
  sk_category :: string
  sk_weight :: rat
  sk_source :: string

record engineering_expectation =
  ex_dimension :: string
  ex_importance :: rat
  ex_description :: string

record skill_profile_model =
  sp_skills :: "skill list"
  sp_experience_level :: string
  sp_domain :: string
  sp_engineering_expectations :: "engineering_expectation list"
  sp_key_responsibilities :: "string list"
  sp_summary :: string

definition validation_error :: "string \<Rightarrow> exn" where
  "validation_error field = Exn ValidationError (''1 validation error: '' @ field)"

definition str_field :: "string \<Rightarrow> json \<Rightarrow> exn + string" where
  "str_field field v = (case v of JString s \<Rightarrow> Inr s | _ \<Rightarrow> Inl (validation_error field))"

definition bounded_field :: "string \<Rightarrow> rat \<Rightarrow> exn + rat" where
  \<comment> \<open>\<open>Field(..., ge=0.0, le=10.0)\<close>\<close>
  "bounded_field field w =
     (if 0 \<le> w \<and> w \<le> 10 then Inr w else Inl (validation_error field))"

definition make_skill :: "builtins \<Rightarrow> json \<Rightarrow> exn + skill" where
  \<comment> \<open>the \<open>Skill(...)\<close> call of the loop: the keyword arguments are evaluated in order, then
      the model is validated\<close>
  "make_skill B s =
     (case py_get s ''name'' (JString ''Unknown'') of Inl e \<Rightarrow> Inl e | Inr nm \<Rightarrow>
     (case py_get s ''category'' (JString ''concept'') of Inl e \<Rightarrow> Inl e | Inr cat \<Rightarrow>
     (case py_get s ''weight'' (JFloat 5) of Inl e \<Rightarrow> Inl e | Inr w \<Rightarrow>
     (case py_float B w of Inl e \<Rightarrow> Inl e | Inr wt \<Rightarrow>
     (case py_get s ''source'' (JString ''inferred'') of Inl e \<Rightarrow> Inl e | Inr src \<Rightarrow>
     (case str_field ''name'' nm of Inl e \<Rightarrow> Inl e | Inr nm' \<Rightarrow>
     (case str_field ''category'' cat of Inl e \<Rightarrow> Inl e | Inr cat' \<Rightarrow>
     (case bounded_field ''weight'' wt of Inl e \<Rightarrow> Inl e | Inr w' \<Rightarrow>
     (case str_field ''source'' src of Inl e \<Rightarrow> Inl e | Inr src' \<Rightarrow>
        Inr \<lparr>sk_name = nm', sk_category = cat', sk_weight = w', sk_source = src'\<rparr>)))))))))"

definition make_expectation :: "builtins \<Rightarrow> json \<Rightarrow> exn + engineering_expectation" where
  "make_expectation B x =
     (case py_get x ''dimension'' (JString ''Unknown'') of Inl e \<Rightarrow> Inl e | Inr dm \<Rightarrow>
     (case py_get x ''importance'' (JFloat 5) of Inl e \<Rightarrow> Inl e | Inr im \<Rightarrow>
     (case py_float B im of Inl e \<Rightarrow> Inl e | Inr imf \<Rightarrow>
     (case py_get x ''description'' (JString '''') of Inl e \<Rightarrow> Inl e | Inr ds \<Rightarrow>
     (case str_field ''dimension'' dm of Inl e \<Rightarrow> Inl e | Inr dm' \<Rightarrow>
     (case bounded_field ''importance'' imf of Inl e \<Rightarrow> Inl e | Inr im' \<Rightarrow>
     (case str_field ''description'' ds of Inl e \<Rightarrow> Inl e | Inr ds' \<Rightarrow>
        if length ds' > 500 then Inl (validation_error ''description'')
        else Inr \<lparr>ex_dimension = dm', ex_importance = im', ex_description = ds'\<rparr>)))))))"

definition keep_valid :: "('a \<Rightarrow> exn + 'b) \<Rightarrow> 'a list \<Rightarrow> 'b list" where
  \<comment> \<open>\<open>for x in xs: try: out.append(mk(x)) except Exception: continue\<close>\<close>
  "keep_valid mk xs = List.map_filter (\<lambda>x. case mk x of Inl _ \<Rightarrow> None | Inr y \<Rightarrow> Some y) xs"

definition EXPERIENCE_LEVELS :: "string list" where
  "EXPERIENCE_LEVELS = [''intern'', ''junior'', ''mid'', ''senior'', ''staff'', ''principal'']"

definition str_list_field :: "string \<Rightarrow> json \<Rightarrow> exn + string list" where
  "str_list_field field v =
     (case v of
        JArray xs \<Rightarrow>
          if list_all (\<lambda>x. case x of JString _ \<Rightarrow> True | _ \<Rightarrow> False) xs
          then Inr (List.map_filter (\<lambda>x. case x of JString s \<Rightarrow> Some s | _ \<Rightarrow> None) xs)
          else Inl (validation_error field)
      | _ \<Rightarrow> Inl (validation_error field))"

definition py_slice_to :: "nat \<Rightarrow> json \<Rightarrow> exn + json" where
  \<comment> \<open>\<open>x[:n]\<close>\<close>
  "py_slice_to n x = (case x of
       JString s \<Rightarrow> Inr (JString (take n s))
     | JArray xs \<Rightarrow> Inr (JArray (take n xs))
     | _ \<Rightarrow> Inl (Exn TypeError (quoted (type_name x) @ '' object is not subscriptable'')))"

definition embedded_profile :: "builtins \<Rightarrow> (string \<times> json) list \<Rightarrow> exn + (string \<times> json) list" where
  \<comment> \<open>the re-extraction of a profile from the \<open>summary\<close> of the JD node's fallback\<close>
  "embedded_profile B raw =
     (case dict_get raw ''summary'' JNull of
        JString summary \<Rightarrow>
          if truthy (dict_get raw ''skills'' JNull) then Inr raw
          else
            (case try_extract_json B summary of
               Inl e \<Rightarrow> Inl e
             | Inr None \<Rightarrow> Inr raw
             | Inr (Some embedded) \<Rightarrow>
                 (case dict_get embedded ''skills'' JNull of
                    JArray (x # xs) \<Rightarrow> Inr embedded
                  | _ \<Rightarrow> Inr raw))
      | _ \<Rightarrow> Inr raw)"

definition safe_parse_skill_profile :: "builtins \<Rightarrow> json \<Rightarrow> exn + skill_profile_model" where
  "safe_parse_skill_profile B raw0 =
     (case (case raw0 of
              JString text \<Rightarrow>
                (case try_extract_json B text of
                   Inl e \<Rightarrow> Inl e
                 | Inr (Some parsed) \<Rightarrow> Inr parsed
                 | Inr None \<Rightarrow> Inr [])
            | JObject d \<Rightarrow> Inr d
            | _ \<Rightarrow> Inr []) of Inl e \<Rightarrow> Inl e | Inr raw1 \<Rightarrow>
     (case embedded_profile B raw1 of Inl e \<Rightarrow> Inl e | Inr raw \<Rightarrow>
     (case py_iter (dict_get raw ''skills'' (JArray [])) of Inl e \<Rightarrow> Inl e | Inr ss \<Rightarrow>
     (case py_iter (dict_get raw ''engineering_expectations'' (JArray [])) of
        Inl e \<Rightarrow> Inl e | Inr es \<Rightarrow>
     (case py_slice_to 8000 (dict_get raw ''summary'' (JString ''Analysis complete.'')) of
        Inl e \<Rightarrow> Inl e | Inr sm \<Rightarrow>
     (case str_field ''experience_level'' (dict_get raw ''experience_level'' (JString ''mid'')) of
        Inl e \<Rightarrow> Inl e | Inr lvl \<Rightarrow>
     if lvl \<notin> set EXPERIENCE_LEVELS then Inl (validation_error ''experience_level'') else
     (case str_field ''domain'' (dict_get raw ''domain'' (JString ''Software Engineering'')) of
        Inl e \<Rightarrow> Inl e | Inr dmn \<Rightarrow>
     (case str_list_field ''key_responsibilities''
             (dict_get raw ''key_responsibilities'' (JArray [])) of
        Inl e \<Rightarrow> Inl e | Inr resp \<Rightarrow>
     (case str_field ''summary'' sm of Inl e \<Rightarrow> Inl e | Inr summary \<Rightarrow>
        Inr \<lparr> sp_skills = keep_valid (make_skill B) ss,
              sp_experience_level = lvl,
              sp_domain = dmn,
              sp_engineering_expectations = keep_valid (make_expectation B) es,
              sp_key_responsibilities = resp,
              sp_summary = summary \<rparr>)))))))))"

section \<open>The generator\<close>

text \<open>
  A node talks to the model through \<open>await llm.ainvoke(messages)\<close>, which returns the text
  of a response or raises. The generator is modelled with a state of its own: an invocation
  takes the state and the messages and gives the outcome and the next state, so that two
  invocations with the same messages may differ, and the state left behind tells how many
  invocations a node made.

  Every node first builds its list of messages from the state, inside its \<open>try\<close> block. The
  JD node's list is modelled (\<open>jd_prompt\<close>). The capstone, fitness and scaffold nodes
  format whole parts of the state into their prompt, and no claim reads that text: these
  nodes take the outcome of building the messages as their argument \<open>prompt\<close>, which is the
  list of messages, or the exception that was raised while building it. Obtaining the
  client (\<open>get_llm\<close>) is taken to succeed.
\<close>

datatype message = SystemMessage string | HumanMessage string

type_synonym 'g llm = "'g \<Rightarrow> message list \<Rightarrow> (exn + string) \<times> 'g"

fun scripted :: "(exn + string) list llm" where
  \<comment> \<open>a generator that plays a fixed list of outcomes, one per invocation\<close>
  "scripted [] messages = (Inl (Exn RuntimeError ''no more responses''), [])"
| "scripted (r # rs) messages = (r, rs)"

definition py_len :: "json \<Rightarrow> exn + nat" where
  \<comment> \<open>\<open>len(x)\<close>\<close>
  "py_len x = (case x of
       JString s \<Rightarrow> Inr (length s)
     | JArray xs \<Rightarrow> Inr (length xs)
     | JObject d \<Rightarrow> Inr (length d)
     | _ \<Rightarrow> Inl (Exn TypeError (''object of type '' @ quoted (type_name x) @ '' has no len()'')))"

section \<open>JD analysis node\<close>

definition JD_RETRY :: string where
  "JD_RETRY = ''Your response was not valid JSON. Please return ONLY the JSON object ''
            @ ''as specified, with no markdown, no explanation, no extra text.''"

definition jd_candidate :: "string \<Rightarrow> string" where
  \<comment> \<open>the text handed to \<open>json.loads\<close>: fences stripped, then cut from the first \<open>{\<close> to the
      last \<open>}\<close> when it does not start with \<open>{\<close>\<close>
  "jd_candidate content =
     (let raw = strip_markdown_fences content
      in if startswith ''{'' raw then raw
         else
           let brace = find (CHR ''{'') raw
           in if brace \<ge> 0 then
                let raw1 = drop (nat brace) raw;
                    end_idx = rfind (CHR ''}'') raw1
                in if end_idx > 0 then take (nat (end_idx + 1)) raw1 else raw1
              else raw)"

definition build_jd_user_prompt :: "string \<Rightarrow> string \<Rightarrow> string \<Rightarrow> string option \<Rightarrow> string" where
  \<comment> \<open>the f-string of \<open>prompts/jd_analysis.py\<close>\<close>
  "build_jd_user_prompt jd r ct geo =
     (let geography_line = (case geo of
                              Some place \<Rightarrow> if place \<noteq> [] then newline # ''Geography: '' @ place
                                            else []
                            | None \<Rightarrow> [])
      in ''Analyze this job description:'' @ [newline, newline]
         @ ''Role: '' @ r @ [newline]
         @ ''Company Type: '' @ ct @ geography_line @ [newline, newline]
         @ ''--- JOB DESCRIPTION START ---'' @ [newline]
         @ jd @ [newline]
         @ ''--- JOB DESCRIPTION END ---'' @ [newline, newline]
         @ ''Extract the complete skill profile as specified in your instructions.'' @ [newline]
         @ ''Return ONLY valid JSON.'')"

definition jd_prompt :: "string \<Rightarrow> agent_state \<Rightarrow> exn + message list" where
  \<comment> \<open>the list \<open>messages\<close> the node starts from. \<open>state["jd_text"]\<close>, \<open>state["role"]\<close> and
      \<open>state["company_type"]\<close> raise \<open>KeyError\<close> on a state without the key, in this order;
      the text of \<open>JD_SYSTEM_PROMPT\<close> is a parameter\<close>
  "jd_prompt system_prompt state =
     (case jd_text state of
        None \<Rightarrow> Inl (Exn KeyError (quoted ''jd_text''))
      | Some jd \<Rightarrow>
     (case role state of
        None \<Rightarrow> Inl (Exn KeyError (quoted ''role''))
      | Some r \<Rightarrow>
     (case company_type state of
        None \<Rightarrow> Inl (Exn KeyError (quoted ''company_type''))
      | Some ct \<Rightarrow>
          Inr [SystemMessage system_prompt,
               HumanMessage (build_jd_user_prompt jd r ct (geography state))])))"

fun jd_attempts ::
  "builtins \<Rightarrow> 'g llm \<Rightarrow> nat list \<Rightarrow> message list \<Rightarrow> string \<Rightarrow> 'g
     \<Rightarrow> (exn + json \<times> string) \<times> 'g" where
  \<comment> \<open>the loop \<open>for attempt in range(2)\<close>; it yields \<open>parsed\<close> (\<open>None\<close> is \<open>JNull\<close>) and the
      content of the last response\<close>
  "jd_attempts B invoke [] messages response g = (Inr (JNull, response), g)"
| "jd_attempts B invoke (attempt # rest) messages response g =
     (case invoke g messages of
        (Inl e, g') \<Rightarrow> (Inl e, g')
      | (Inr content, g') \<Rightarrow>
          (case json_loads B (jd_candidate content) of
             Inr parsed \<Rightarrow> (Inr (parsed, content), g')
           | Inl e \<Rightarrow>
               if kind e = JSONDecodeError then
                 jd_attempts B invoke rest
                   (if attempt = 0 then messages @ [HumanMessage JD_RETRY] else messages)
                   content g'
               else (Inl e, g')))"

definition jd_fallback :: "agent_state \<Rightarrow> string \<Rightarrow> json" where
  \<comment> \<open>the dict that wraps the raw response when \<open>parsed is None\<close>\<close>
  "jd_fallback state content = JObject
     [(''skills'', JArray []),
      (''experience_level'', JString ''mid''),
      (''domain'', JString (case role state of Some r \<Rightarrow> r | None \<Rightarrow> ''Software Engineering'')),
      (''engineering_expectations'', JArray []),
      (''key_responsibilities'', JArray []),
      (''summary'', JString (take 8000 content))]"

datatype jd_update =
    JdComplete (jd_skill_profile: json) (jd_engineering_expectations: json)
               (jd_messages: "string list")
  | JdFailed (jd_errors: "string list")

definition jd_failed :: "exn \<Rightarrow> jd_update" where
  \<comment> \<open>the handler \<open>except Exception as e\<close>\<close>
  "jd_failed e = JdFailed [''JD analysis failed: '' @ str_of_exn e]"

definition jd_analysis_node ::
  "builtins \<Rightarrow> 'g llm \<Rightarrow> string \<Rightarrow> agent_state \<Rightarrow> 'g \<Rightarrow> jd_update \<times> 'g" where
  "jd_analysis_node B invoke system_prompt state g =
     (case jd_prompt system_prompt state of
        Inl e \<Rightarrow> (jd_failed e, g)
      | Inr messages \<Rightarrow>
     (case jd_attempts B invoke [0, 1] messages [] g of
        (Inl e, g') \<Rightarrow> (jd_failed e, g')
      | (Inr (parsed0, content), g') \<Rightarrow>
          let parsed = (if parsed0 = JNull then jd_fallback state content else parsed0)
          in (case py_get parsed ''skills'' (JArray []) of
                Inl e \<Rightarrow> (jd_failed e, g')
              | Inr skills \<Rightarrow>
             (case py_len skills of
                Inl e \<Rightarrow> (jd_failed e, g')
              | Inr _ \<Rightarrow>
             (case py_get parsed ''engineering_expectations'' (JArray []) of
                Inl e \<Rightarrow> (jd_failed e, g')
              | Inr ee \<Rightarrow> (JdComplete parsed ee [content], g'))))))"

section \<open>Capstone generator node\<close>

definition CAPSTONE_RETRY :: string where
  "CAPSTONE_RETRY = ''Your response was not valid JSON. ''
                  @ ''Return ONLY the JSON object with no markdown.''"

definition capstone_clean :: "string \<Rightarrow> string" where
  "capstone_clean content =
     (let raw = strip content
      in if startswith ''```'' raw then
           let first_nl = (if newline \<in> set raw
                           then length (takeWhile (\<lambda>c. c \<noteq> newline) raw) else 3);
               raw1 = drop first_nl raw;
               raw2 = (if endswith ''```'' raw1 then take (length raw1 - 3) raw1 else raw1)
           in strip raw2
         else raw)"

fun capstone_attempts ::
  "builtins \<Rightarrow> 'g llm \<Rightarrow> nat list \<Rightarrow> message list \<Rightarrow> string \<Rightarrow> 'g
     \<Rightarrow> (exn + json \<times> string) \<times> 'g" where
  \<comment> \<open>the loop \<open>for attempt in range(2)\<close>, entered with the first response\<close>
  "capstone_attempts B invoke [] messages response g = (Inr (JNull, response), g)"
| "capstone_attempts B invoke (attempt # rest) messages response g =
     (case json_loads B (capstone_clean response) of
        Inr parsed \<Rightarrow> (Inr (parsed, response), g)
      | Inl e \<Rightarrow>
          if kind e = JSONDecodeError then
            (if attempt = 0 then
               (case invoke g (messages @ [HumanMessage CAPSTONE_RETRY]) of
                  (Inl e', g') \<Rightarrow> (Inl e', g')
                | (Inr response', g') \<Rightarrow>
                    capstone_attempts B invoke rest
                      (messages @ [HumanMessage CAPSTONE_RETRY]) response' g')
             else capstone_attempts B invoke rest messages response g)
          else (Inl e, g))"

datatype capstone_update =
    CapstoneComplete (cap_projects: json) (cap_messages: "string list")
  | CapstoneFailed (cap_errors: "string list")

definition capstone_failed :: "exn \<Rightarrow> capstone_update" where
  "capstone_failed e = CapstoneFailed [''Capstone generation failed: '' @ str_of_exn e]"

definition capstone_projects :: "json \<Rightarrow> json" where
  \<comment> \<open>the choice of \<open>projects\<close> after the loop\<close>
  "capstone_projects parsed =
     (case parsed of
        JNull \<Rightarrow> JArray []
      | JObject d \<Rightarrow> (case map_of d ''projects'' of Some p \<Rightarrow> p | None \<Rightarrow> JArray [])
      | JArray xs \<Rightarrow> JArray xs
      | _ \<Rightarrow> JArray [])"

definition capstone_generator_node ::
  "builtins \<Rightarrow> 'g llm \<Rightarrow> exn + message list \<Rightarrow> 'g \<Rightarrow> capstone_update \<times> 'g" where
  "capstone_generator_node B invoke prompt g =
     (case prompt of
        Inl e \<Rightarrow> (capstone_failed e, g)
      | Inr messages \<Rightarrow>
     (case invoke g messages of
        (Inl e, g1) \<Rightarrow> (capstone_failed e, g1)
      | (Inr response, g1) \<Rightarrow>
          (case capstone_attempts B invoke [0, 1] messages response g1 of
             (Inl e, g') \<Rightarrow> (capstone_failed e, g')
           | (Inr (parsed, last_response), g') \<Rightarrow>
               (case py_len (capstone_projects parsed) of
                  Inl e \<Rightarrow> (capstone_failed e, g')
                | Inr _ \<Rightarrow> (CapstoneComplete (capstone_projects parsed) [last_response], g')))))"

section \<open>Fitness scorer node\<close>

definition FITNESS_RETRY :: string where
  "FITNESS_RETRY = ''Your response was not valid JSON. ''
                 @ ''Return ONLY a JSON object, no markdown fences or extra text.''"

definition fitness_clean :: "string \<Rightarrow> string" where
  \<comment> \<open>\<open>strip()\<close>, then \<open>re.sub(r"^```(?:json)?\s*", "", raw)\<close>, then
      \<open>re.sub(r"\s*```\s*$", "", raw)\<close>\<close>
  "fitness_clean content =
     (let raw = strip content;
          raw1 = (if startswith ''```'' raw then
                    let t = drop 3 raw
                    in dropWhile isspace (if startswith ''json'' t then drop 4 t else t)
                  else raw);
          r = dropWhile isspace (rev raw1)
      in if startswith ''```'' r then rev (dropWhile isspace (drop 3 r)) else raw1)"

fun fitness_attempts ::
  "builtins \<Rightarrow> 'g llm \<Rightarrow> nat list \<Rightarrow> message list \<Rightarrow> 'g \<Rightarrow> (exn + json option) \<times> 'g" where
  \<comment> \<open>the loop \<open>for attempt in range(2)\<close>: \<open>Some res\<close> at its \<open>break\<close>, \<open>None\<close> at its
      \<open>return\<close> after the second decode error\<close>
  "fitness_attempts B invoke [] messages g =
     (Inl (Exn OtherError (''cannot access local variable '' @ quoted ''result'')), g)"
| "fitness_attempts B invoke (attempt # rest) messages g =
     (case invoke g messages of
        (Inl e, g') \<Rightarrow> (Inl e, g')
      | (Inr content, g') \<Rightarrow>
          (case json_loads B (fitness_clean content) of
             Inr res \<Rightarrow> (Inr (Some res), g')
           | Inl e \<Rightarrow>
               if kind e = JSONDecodeError then
                 (if attempt = 0
                  then fitness_attempts B invoke rest (messages @ [HumanMessage FITNESS_RETRY]) g'
                  else (Inr None, g'))
               else (Inl e, g')))"

definition VERDICTS :: "string list" where
  "VERDICTS = [''strong_fit'', ''good_fit'', ''partial_fit'', ''weak_fit'']"

definition clamp_score :: "rat \<Rightarrow> json" where
  \<comment> \<open>\<open>max(0, min(100, f))\<close> for a \<open>float\<close> \<open>f\<close>. \<open>min\<close> and \<open>max\<close> return their first argument
      unless the second is strictly better, so the bounds come back as the \<open>int\<close> literals\<close>
  "clamp_score f =
     (let m = (if f < 100 then JFloat f else JInt 100)
      in if 0 < f then m else JInt 0)"

definition fitness_normalize :: "builtins \<Rightarrow> json \<Rightarrow> exn + json" where
  \<comment> \<open>the block \<open># Validate and normalize\<close>, which builds \<open>fitness_result\<close>\<close>
  "fitness_normalize B res =
     (case py_get res ''fitness_score'' (JInt 0) of Inl e \<Rightarrow> Inl e | Inr fs \<Rightarrow>
     (case py_float B fs of Inl e \<Rightarrow> Inl e | Inr f \<Rightarrow>
     (case py_get res ''verdict'' (JString ''weak_fit'') of Inl e \<Rightarrow> Inl e | Inr v \<Rightarrow>
     (case py_get res ''matched_skills'' (JArray []) of Inl e \<Rightarrow> Inl e | Inr ms0 \<Rightarrow>
     (case py_slice_to 20 ms0 of Inl e \<Rightarrow> Inl e | Inr ms \<Rightarrow>
     (case py_get res ''missing_skills'' (JArray []) of Inl e \<Rightarrow> Inl e | Inr mi0 \<Rightarrow>
     (case py_slice_to 15 mi0 of Inl e \<Rightarrow> Inl e | Inr mi \<Rightarrow>
     (case py_get res ''strengths'' (JArray []) of Inl e \<Rightarrow> Inl e | Inr st0 \<Rightarrow>
     (case py_slice_to 10 st0 of Inl e \<Rightarrow> Inl e | Inr st \<Rightarrow>
     (case py_get res ''improvements'' (JArray []) of Inl e \<Rightarrow> Inl e | Inr im0 \<Rightarrow>
     (case py_slice_to 10 im0 of Inl e \<Rightarrow> Inl e | Inr im \<Rightarrow>
     (case py_get res ''detailed_feedback'' (JString '''') of Inl e \<Rightarrow> Inl e | Inr df \<Rightarrow>
        Inr (JObject
          [(''fitness_score'', clamp_score f),
           (''verdict'', (case v of
                            JString s \<Rightarrow> if s \<in> set VERDICTS then JString s
                                         else JString ''partial_fit''
                          | _ \<Rightarrow> JString ''partial_fit'')),
           (''matched_skills'', ms),
           (''missing_skills'', mi),
           (''strengths'', st),
           (''improvements'', im),
           (''detailed_feedback'', JString (take 5000 (py_str B df)))])))))))))))))"

datatype fitness_update =
    FitnessScored (fitness_result: json)
  | FitnessFailed (fitness_errors: "string list")

definition state_errors :: "agent_state \<Rightarrow> string list" where
  \<comment> \<open>\<open>state.get("errors") or []\<close>\<close>
  "state_errors state = (case errors state of Some es \<Rightarrow> es | None \<Rightarrow> [])"

definition fitness_failed :: "agent_state \<Rightarrow> exn \<Rightarrow> fitness_update" where
  "fitness_failed state e =
     FitnessFailed (state_errors state @ [''Fitness evaluation failed: '' @ take 200 (str_of_exn e)])"

definition fitness_scorer_node ::
  "builtins \<Rightarrow> 'g llm \<Rightarrow> exn + message list \<Rightarrow> agent_state \<Rightarrow> 'g
     \<Rightarrow> fitness_update \<times> 'g" where
  "fitness_scorer_node B invoke prompt state g =
     (case prompt of
        Inl e \<Rightarrow> (fitness_failed state e, g)
      | Inr messages \<Rightarrow>
     (case fitness_attempts B invoke [0, 1] messages g of
        (Inl e, g') \<Rightarrow> (fitness_failed state e, g')
      | (Inr None, g') \<Rightarrow>
          (FitnessFailed (state_errors state @ [''Failed to parse fitness evaluation'']), g')
      | (Inr (Some res), g') \<Rightarrow>
          (case fitness_normalize B res of
             Inl e \<Rightarrow> (fitness_failed state e, g')
           | Inr fr \<Rightarrow> (FitnessScored fr, g'))))"

section \<open>Scaffold generator node\<close>

fun split_at_sub :: "string \<Rightarrow> string \<Rightarrow> (string \<times> string) option" where
  \<comment> \<open>the text before and after the first occurrence of \<open>sub\<close>\<close>
  "split_at_sub sub [] = (if sub = [] then Some ([], []) else None)"
| "split_at_sub sub (c # cs) =
     (if startswith sub (c # cs) then Some ([], drop (length sub) (c # cs))
      else (case split_at_sub sub cs of
              None \<Rightarrow> None
            | Some (before, after) \<Rightarrow> Some (c # before, after)))"

definition scaffold_clean :: "string \<Rightarrow> string" where
  \<comment> \<open>\<open>re.search(r"```(?:json)?\s*\n?(.*?)\n?```", cleaned, re.DOTALL)\<close> and the \<open>strip()\<close> of
      its group: the text between the first fence (with its tag and white space) and the
      next fence, when there are two fences\<close>
  "scaffold_clean content =
     (let cleaned = strip content
      in (case split_at_sub ''```'' cleaned of
            None \<Rightarrow> cleaned
          | Some (_, rest) \<Rightarrow>
              let body = dropWhile isspace (if startswith ''json'' rest then drop 4 rest else rest)
              in (case split_at_sub ''```'' body of
                    None \<Rightarrow> cleaned
                  | Some (inner, _) \<Rightarrow> strip inner)))"

definition parse_scaffold_response :: "builtins \<Rightarrow> string \<Rightarrow> exn + json" where
  "parse_scaffold_response B content =
     (case json_loads B (scaffold_clean content) of
        Inl e \<Rightarrow> Inl e
      | Inr (JObject d) \<Rightarrow>
          (case map_of d ''files'' of
             Some (JArray _) \<Rightarrow> Inr (JObject d)
           | _ \<Rightarrow> Inl (Exn ValueError (''Scaffold response missing '' @ quoted ''files''
                                        @ '' array'')))
      | Inr _ \<Rightarrow> Inl (Exn ValueError ''Scaffold response is not a JSON object''))"

datatype scaffold_update =
    ScaffoldComplete (scaffold_files: json) (scaffold_file_tree: json)
                     (scaffold_project_name: json) (scaffold_messages: "string list")
  | ScaffoldFailed (scaffold_errors: "string list")

definition scaffold_failed :: "exn \<Rightarrow> scaffold_update" where
  \<comment> \<open>the two handlers: \<open>except json.JSONDecodeError\<close>, then \<open>except Exception\<close>\<close>
  "scaffold_failed e =
     (if kind e = JSONDecodeError
      then ScaffoldFailed [''Scaffold generation failed: invalid LLM response'']
      else ScaffoldFailed [''Scaffold generation failed: '' @ str_of_exn e])"

definition scaffold_generator_node ::
  "builtins \<Rightarrow> 'g llm \<Rightarrow> exn + message list \<Rightarrow> 'g \<Rightarrow> scaffold_update \<times> 'g" where
  "scaffold_generator_node B invoke prompt g =
     (case prompt of
        Inl e \<Rightarrow> (scaffold_failed e, g)
      | Inr messages \<Rightarrow>
     (case invoke g messages of
        (Inl e, g') \<Rightarrow> (scaffold_failed e, g')
      | (Inr content, g') \<Rightarrow>
          (case parse_scaffold_response B content of
             Inl e \<Rightarrow> (scaffold_failed e, g')
           | Inr raw_scaffold \<Rightarrow>
               (case validate_scaffold B raw_scaffold of
                  Inl e \<Rightarrow> (scaffold_failed e, g')
                | Inr validated \<Rightarrow>
                    (ScaffoldComplete
                       (JArray (files_of validated))
                       (case validated of JObject d \<Rightarrow> dict_get d ''file_tree'' JNull | _ \<Rightarrow> JNull)
                       (case validated of JObject d \<Rightarrow> dict_get d ''project_name'' JNull | _ \<Rightarrow> JNull)
                       [content], g')))))"

section \<open>Repository scorecard parsing\<close>

definition unparsed_dimension :: json where
  "unparsed_dimension = JObject
     [(''score'', JFloat 5), (''details'', JString ''Unable to parse''),
      (''suggestions'', JArray [])]"

definition scorecard_fallback :: "string \<Rightarrow> json" where
  \<comment> \<open>the defaults \<open>_parse_scorecard\<close> returns when nothing parses\<close>
  "scorecard_fallback content = JObject
     [(''code_quality'', unparsed_dimension),
      (''test_coverage'', unparsed_dimension),
      (''complexity'', unparsed_dimension),
      (''structure'', unparsed_dimension),
      (''deployment_readiness'', unparsed_dimension),
      (''overall_score'', JFloat 5),
      (''summary'', JString (if content \<noteq> [] then take 500 content
                             else ''Analysis completed but response parsing failed.'')),
      (''top_improvements'', JArray [JString ''Retry analysis for detailed feedback''])]"

definition scorecard_text :: "string \<Rightarrow> string" where
  \<comment> \<open>the fence handling at the head of \<open>_parse_scorecard\<close>\<close>
  "scorecard_text content0 =
     (let content = strip content0
      in if startswith ''```'' content then
           let lines = split_on (\<lambda>c. c = newline) content
           in strip (join [newline] (if strip (last lines) = ''```''
                                     then butlast (tl lines) else tl lines))
         else content)"

definition parse_scorecard :: "builtins \<Rightarrow> string \<Rightarrow> exn + json" where
  "parse_scorecard B content0 =
     (let content = scorecard_text content0
      in (case json_loads B content of
            Inr v \<Rightarrow> Inr v
          | Inl e \<Rightarrow>
              if kind e \<noteq> JSONDecodeError then Inl e
              else
                let start = find (CHR ''{'') content;
                    end_idx = rfind (CHR ''}'') content + 1
                in if start \<ge> 0 \<and> end_idx > start then
                     (case json_loads B (slice content start end_idx) of
                        Inr v \<Rightarrow> Inr v
                      | Inl e' \<Rightarrow>
                          if kind e' \<noteq> JSONDecodeError then Inl e'
                          else Inr (scorecard_fallback content))
                   else Inr (scorecard_fallback content)))"

section \<open>Concrete inputs of the nodes and the scaffold validator\<close>

definition mixed_slash_scaffold :: json where
  \<comment> \<open>a scaffold whose only file has the path \<open>\/a.py\<close>: a backslash, a slash, \<open>a.py\<close>\<close>
  "mixed_slash_scaffold = JObject
     [(''files'', JArray
         [JObject [(''path'', JString (backslash # ''/a.py'')), (''content'', JString ''x'')]])]"

definition python_object :: string where
  \<comment> \<open>the JSON text of an object with one skill, Python, of weight 15\<close>
  "python_object =
     ''{'' @ dq ''skills'' @ '':[{'' @ dq ''name'' @ '':'' @ dq ''Python'' @ '',''
     @ dq ''weight'' @ '':15}]}''"

definition python_payload :: string where
  \<comment> \<open>the response of the end-to-end scenario: that object in \<open>```json\<close> fences\<close>
  "python_payload = ''```json'' @ [newline] @ python_object @ [newline] @ ''```''"

definition python_skill :: "(string \<times> json) list" where
  "python_skill = [(''name'', JString ''Python''), (''weight'', JInt 15)]"

definition python_profile :: json where
  \<comment> \<open>what \<open>json.loads\<close> makes of \<open>python_object\<close>\<close>
  "python_profile = JObject [(''skills'', JArray [JObject python_skill])]"

definition clamped_python_profile :: json where
  "clamped_python_profile = JObject
     [(''skills'', JArray [JObject [(''name'', JString ''Python''), (''weight'', JFloat 10)]])]"

definition prose_with_braces :: string where
  \<comment> \<open>the same object between prose that itself has braces\<close>
  "prose_with_braces = ''See {draft}: '' @ python_object @ '' Thanks.''"

definition unbalanced_object :: string where
  \<comment> \<open>\<open>python_object\<close> cut off after the skill's name: the list and the outer object stay open\<close>
  "unbalanced_object =
     ''{'' @ dq ''skills'' @ '':[{'' @ dq ''name'' @ '':'' @ dq ''Python'' @ ''}''"

definition truncated_object :: string where
  \<comment> \<open>\<open>python_object\<close> cut off inside the skill's name\<close>
  "truncated_object = ''{'' @ dq ''skills'' @ '':[{'' @ dq ''name'' @ '':'' @ [CHR 0x22] @ ''Pyth''"

definition high_score_payload :: string where
  \<comment> \<open>a fitness evaluation whose score lies above the range\<close>
  "high_score_payload = ''{'' @ dq ''fitness_score'' @ '':150}''"

definition null_score_payload :: string where
  \<comment> \<open>a fitness evaluation whose score is \<open>null\<close>\<close>
  "null_score_payload = ''{'' @ dq ''fitness_score'' @ '':null}''"

definition demo_system_prompt :: string where
  "demo_system_prompt = ''You are an analyst.''"

definition demo_messages :: "message list" where
  "demo_messages = [SystemMessage ''You are an analyst.'', HumanMessage ''Analyse this job.'']"

definition verdict_only_payload :: string where
  \<comment> \<open>a fitness evaluation that names a verdict and no score\<close>
  "verdict_only_payload = ''{'' @ dq ''verdict'' @ '':'' @ dq ''good_fit'' @ ''}''"

definition garbage_one :: string where
  "garbage_one = ''Sorry, I cannot produce that.''"

definition garbage_two :: string where
  "garbage_two = ''As a language model I must decline!''"

definition transport_timeout :: exn where
  \<comment> \<open>what \<open>ainvoke\<close> raises when the provider does not answer in time\<close>
  "transport_timeout = Exn OtherError ''Request timed out.''"

section \<open>Notions used in the statements\<close>

definition infix_of :: "string \<Rightarrow> string \<Rightarrow> bool" where
  \<comment> \<open>\<open>t\<close> is a slice \<open>s[i:j]\<close> of \<open>s\<close>\<close>
  "infix_of t s = (\<exists>pre post. s = pre @ t @ post)"

definition json_candidate :: "string \<Rightarrow> string" where
  \<comment> \<open>the text \<open>_try_extract_json\<close> hands to \<open>json.loads\<close>, its variable \<open>candidate\<close>\<close>
  "json_candidate text =
     (let clean = strip_markdown_fences text
      in slice clean (find (CHR ''{'') clean) (rfind (CHR ''}'') clean + 1))"

definition undecodable :: "builtins \<Rightarrow> string \<Rightarrow> bool" where
  \<comment> \<open>\<open>json.loads(text)\<close> raises \<open>JSONDecodeError\<close>: the text is not JSON\<close>
  "undecodable B text = (case json_loads B text of
                           Inl e \<Rightarrow> kind e = JSONDecodeError
                         | Inr _ \<Rightarrow> False)"

definition scorecard_unparseable :: "builtins \<Rightarrow> string \<Rightarrow> bool" where
  \<comment> \<open>both attempts of \<open>_parse_scorecard\<close> fail: \<open>json.loads\<close> refuses the response without its
      fences, and refuses its part from the first \<open>{\<close> to the last \<open>}\<close> if there is one\<close>
  "scorecard_unparseable B content =
     (let t = scorecard_text content;
          start = find (CHR ''{'') t;
          end_idx = rfind (CHR ''}'') t + 1
      in undecodable B t
         \<and> (start \<ge> 0 \<and> end_idx > start \<longrightarrow> undecodable B (slice t start end_idx)))"

chapter \<open>Properties\<close>

section \<open>Path filter (C2)\<close>

lemma parts_allowed_iff:
  "parts_allowed ps \<longleftrightarrow>
     (\<forall>p \<in> set ps. p \<notin> set FORBIDDEN_PATH_PARTS
                  \<and> (startswith ''.'' p \<longrightarrow> p \<in> set ALLOWED_DOT_PARTS))"
  by (induction ps) auto

lemma sanitize_path_rejects:
  assumes "trim_path raw = [] \<or> 300 < length (trim_path raw)
         \<or> (\<exists>part \<in> set (path_parts (trim_path raw)). part \<in> set FORBIDDEN_PATH_PARTS)
         \<or> (\<exists>part \<in> set (path_parts (trim_path raw)).
               startswith ''.'' part \<and> part \<notin> set ALLOWED_DOT_PARTS)
         \<or> (CHR ''.'' \<in> set (last (path_parts (trim_path raw)))
              \<and> file_ext (last (path_parts (trim_path raw))) \<notin> set ALLOWED_EXTENSIONS)"
  shows "sanitize_path raw = None"
  using assms unfolding sanitize_path_def Let_def parts_allowed_iff by auto

lemma sanitize_path_accepts:
  assumes "trim_path raw \<noteq> []" "length (trim_path raw) \<le> 300"
      and "\<forall>part \<in> set (path_parts (trim_path raw)).
             part \<notin> set FORBIDDEN_PATH_PARTS
           \<and> (startswith ''.'' part \<longrightarrow> part \<in> set ALLOWED_DOT_PARTS)"
      and "CHR ''.'' \<notin> set (last (path_parts (trim_path raw)))"
  shows "sanitize_path raw = Some (join ''/'' (path_parts (trim_path raw)))"
  using assms unfolding sanitize_path_def Let_def parts_allowed_iff by auto

text \<open>
  C2. \<open>_sanitize_path\<close> returns \<open>None\<close> for \<open>../../etc/passwd\<close>, \<open>node_modules/x/y.js\<close> and
  \<open>.git/config\<close>, and \<open>src/main.py\<close> for \<open>src/main.py\<close>. For every input, with the path
  read as the function itself reads it (the argument after \<open>strip().lstrip("/").lstrip("\\")\<close>):
  it returns \<open>None\<close> when the path is empty, longer than 300 characters, has a forbidden
  segment, has a dot-prefixed segment outside the allow-list, or ends in a file name whose
  extension is outside the allow-list; and a path that passes the first four tests and whose
  file name has no extension is let through, rejoined with \<open>/\<close>.
\<close>

theorem sanitize_path_rules:
  "sanitize_path ''../../etc/passwd'' = None
   \<and> sanitize_path ''node_modules/x/y.js'' = None
   \<and> sanitize_path ''.git/config'' = None
   \<and> sanitize_path ''src/main.py'' = Some ''src/main.py''
   \<and> (\<forall>raw.
         (trim_path raw = [] \<or> 300 < length (trim_path raw)
          \<or> (\<exists>part \<in> set (path_parts (trim_path raw)). part \<in> set FORBIDDEN_PATH_PARTS)
          \<or> (\<exists>part \<in> set (path_parts (trim_path raw)).
                startswith ''.'' part \<and> part \<notin> set ALLOWED_DOT_PARTS)
          \<or> (CHR ''.'' \<in> set (last (path_parts (trim_path raw)))
               \<and> file_ext (last (path_parts (trim_path raw))) \<notin> set ALLOWED_EXTENSIONS)
          \<longrightarrow> sanitize_path raw = None)
       \<and> (trim_path raw \<noteq> [] \<and> length (trim_path raw) \<le> 300
          \<and> (\<forall>part \<in> set (path_parts (trim_path raw)).
                 part \<notin> set FORBIDDEN_PATH_PARTS
               \<and> (startswith ''.'' part \<longrightarrow> part \<in> set ALLOWED_DOT_PARTS))
          \<and> CHR ''.'' \<notin> set (last (path_parts (trim_path raw)))
          \<longrightarrow> sanitize_path raw = Some (join ''/'' (path_parts (trim_path raw)))))"
proof (intro conjI allI impI)
  show "sanitize_path ''../../etc/passwd'' = None" by code_simp
  show "sanitize_path ''node_modules/x/y.js'' = None" by code_simp
  show "sanitize_path ''.git/config'' = None" by code_simp
  show "sanitize_path ''src/main.py'' = Some ''src/main.py''" by code_simp
next
  fix raw
  assume "trim_path raw = [] \<or> 300 < length (trim_path raw)
          \<or> (\<exists>part \<in> set (path_parts (trim_path raw)). part \<in> set FORBIDDEN_PATH_PARTS)
          \<or> (\<exists>part \<in> set (path_parts (trim_path raw)).
                startswith ''.'' part \<and> part \<notin> set ALLOWED_DOT_PARTS)
          \<or> (CHR ''.'' \<in> set (last (path_parts (trim_path raw)))
               \<and> file_ext (last (path_parts (trim_path raw))) \<notin> set ALLOWED_EXTENSIONS)"
  then show "sanitize_path raw = None" by (rule sanitize_path_rejects)
next
  fix raw
  assume "trim_path raw \<noteq> [] \<and> length (trim_path raw) \<le> 300
          \<and> (\<forall>part \<in> set (path_parts (trim_path raw)).
                 part \<notin> set FORBIDDEN_PATH_PARTS
               \<and> (startswith ''.'' part \<longrightarrow> part \<in> set ALLOWED_DOT_PARTS))
          \<and> CHR ''.'' \<notin> set (last (path_parts (trim_path raw)))"
  then show "sanitize_path raw = Some (join ''/'' (path_parts (trim_path raw)))"
    by (intro sanitize_path_accepts) auto
qed

theorem sanitize_path_rules_witness:
  "file_ext (last (path_parts (trim_path '' /bin/tool.EXE''))) \<notin> set ALLOWED_EXTENSIONS
   \<and> sanitize_path '' /bin/tool.EXE'' = None
   \<and> CHR ''.'' \<notin> set (last (path_parts (trim_path ''docker/Makefile'')))
   \<and> sanitize_path ''docker/Makefile'' = Some ''docker/Makefile''"
proof -
  have a: "CHR ''.'' \<in> set (last (path_parts (trim_path '' /bin/tool.EXE'')))
           \<and> file_ext (last (path_parts (trim_path '' /bin/tool.EXE''))) \<notin> set ALLOWED_EXTENSIONS"
    by code_simp
  have b: "trim_path ''docker/Makefile'' \<noteq> [] \<and> length (trim_path ''docker/Makefile'') \<le> 300
          \<and> (\<forall>part \<in> set (path_parts (trim_path ''docker/Makefile'')).
                 part \<notin> set FORBIDDEN_PATH_PARTS
               \<and> (startswith ''.'' part \<longrightarrow> part \<in> set ALLOWED_DOT_PARTS))
          \<and> CHR ''.'' \<notin> set (last (path_parts (trim_path ''docker/Makefile'')))"
    by code_simp
  have c: "join ''/'' (path_parts (trim_path ''docker/Makefile'')) = ''docker/Makefile''"
    by code_simp
  from sanitize_path_rules a have "sanitize_path '' /bin/tool.EXE'' = None" by blast
  moreover from sanitize_path_rules b
  have "sanitize_path ''docker/Makefile'' = Some (join ''/'' (path_parts (trim_path ''docker/Makefile'')))"
    by blast
  ultimately show ?thesis using a b c by simp
qed

section \<open>Scaffold budget (C3)\<close>

lemma content_bytes_file_entry [simp]:
  "content_bytes (file_entry B path content d) = utf8_len content"
  by (simp add: content_bytes_def file_entry_def dict_get_def)

lemma candidate_files_Cons:
  "candidate_files B (r # rs) =
     (case candidate_entry B r of None \<Rightarrow> candidate_files B rs
                                 | Some e \<Rightarrow> e # candidate_files B rs)"
  by (simp add: candidate_files_def split: option.splits)

lemma candidate_files_Nil [simp]: "candidate_files B [] = []"
  by (simp add: candidate_files_def)

lemma files_loop_refines:
  "files_loop B raws tot acc = Inr fs \<Longrightarrow>
     fs = acc @ enforce_budget MAX_SCAFFOLD_CONTENT_BYTES tot (candidate_files B raws)"
proof (induction raws arbitrary: tot acc)
  case Nil
  then show ?case by simp
next
  case (Cons r rs)
  show ?case
  proof (cases "candidate_entry B r")
    case None
    then have "files_loop B (r # rs) tot acc = files_loop B rs tot acc
               \<or> (\<exists>e. files_loop B (r # rs) tot acc = Inl e)"
      by (auto simp: candidate_entry_def path_arg_def split: json.splits option.splits if_splits)
    with Cons.prems have "files_loop B rs tot acc = Inr fs" by auto
    from Cons.IH[OF this] None show ?thesis
      by (simp add: candidate_files_Cons)
  next
    case (Some e)
    then obtain d p path where r: "r = JObject d"
      and p: "dict_get d ''path'' (JString '''') = JString p"
      and sp: "sanitize_path p = Some path" and ne: "path \<noteq> []"
      and e: "e = file_entry B path (py_str B (dict_get d ''content'' (JString ''''))) d"
      by (auto simp: candidate_entry_def split: json.splits option.splits if_splits)
    let ?c = "py_str B (dict_get d ''content'' (JString ''''))"
    show ?thesis
    proof (cases "tot + utf8_len ?c > MAX_SCAFFOLD_CONTENT_BYTES")
      case True
      with Cons.prems r p sp ne have "fs = acc"
        by (simp add: path_arg_def Let_def)
      with True Some e show ?thesis
        by (simp add: candidate_files_Cons)
    next
      case False
      with Cons.prems r p sp ne
      have "files_loop B rs (tot + utf8_len ?c) (acc @ [e]) = Inr fs"
        by (simp add: path_arg_def Let_def e)
      from Cons.IH[OF this] False Some e show ?thesis
        by (simp add: candidate_files_Cons)
    qed
  qed
qed

lemma enforce_budget_prefix:
  "\<exists>k \<le> length fs. enforce_budget cap running fs = take k fs
      \<and> running + total_bytes (take k fs) \<le> max cap running
      \<and> (k < length fs \<longrightarrow> cap < running + total_bytes (take (Suc k) fs))"
proof (induction fs arbitrary: running)
  case Nil
  then show ?case by (simp add: total_bytes_def)
next
  case (Cons f fs)
  show ?case
  proof (cases "running + content_bytes f > cap")
    case True
    then show ?thesis
      by (intro exI[of _ 0]) (simp add: total_bytes_def)
  next
    case False
    from Cons.IH[of "running + content_bytes f"] obtain k where k: "k \<le> length fs"
      "enforce_budget cap (running + content_bytes f) fs = take k fs"
      "running + content_bytes f + total_bytes (take k fs) \<le> max cap (running + content_bytes f)"
      "k < length fs \<longrightarrow> cap < running + content_bytes f + total_bytes (take (Suc k) fs)"
      by blast
    with False show ?thesis
      by (intro exI[of _ "Suc k"]) (auto simp: total_bytes_def)
  qed
qed

lemma validate_scaffold_files:
  assumes "validate_scaffold B (JObject d) = Inr validated"
      and "dict_get d ''files'' (JArray []) = JArray raw_files"
  shows "files_of validated =
           enforce_budget MAX_SCAFFOLD_CONTENT_BYTES 0 (candidate_files B raw_files)"
proof -
  from assms obtain fs where loop: "files_loop B raw_files 0 [] = Inr fs"
    and v: "files_of validated = fs"
    by (auto simp: validate_scaffold_def py_get_def py_iter_def files_of_def dict_get_def
             split: sum.splits)
  from files_loop_refines[OF loop] v show ?thesis by simp
qed

text \<open>
  C3. When the contents of the candidate files (the raw files that pass the path filter, in
  their order) sum beyond the cap of 512 KiB, the files that \<open>_validate_scaffold\<close> accepts
  are a strict prefix of the candidates: the first \<open>k\<close> of them, whose cumulative UTF-8 size
  is at most the cap, while adding candidate \<open>k + 1\<close> would exceed it; that candidate and
  all later ones are dropped.
\<close>

theorem budget_enforcement_prefix:
  assumes "validate_scaffold B (JObject d) = Inr validated"
      and "dict_get d ''files'' (JArray []) = JArray raw_files"
      and "MAX_SCAFFOLD_CONTENT_BYTES < total_bytes (candidate_files B raw_files)"
  shows "\<exists>k < length (candidate_files B raw_files).
           files_of validated = take k (candidate_files B raw_files)
         \<and> total_bytes (take k (candidate_files B raw_files)) \<le> MAX_SCAFFOLD_CONTENT_BYTES
         \<and> MAX_SCAFFOLD_CONTENT_BYTES < total_bytes (take (Suc k) (candidate_files B raw_files))"
proof -
  let ?cs = "candidate_files B raw_files"
  have fs: "files_of validated = enforce_budget MAX_SCAFFOLD_CONTENT_BYTES 0 ?cs"
    using assms(1,2) by (rule validate_scaffold_files)
  from enforce_budget_prefix[of ?cs MAX_SCAFFOLD_CONTENT_BYTES 0]
  obtain k where k: "k \<le> length ?cs"
    "enforce_budget MAX_SCAFFOLD_CONTENT_BYTES 0 ?cs = take k ?cs"
    "total_bytes (take k ?cs) \<le> MAX_SCAFFOLD_CONTENT_BYTES"
    "k < length ?cs \<longrightarrow> MAX_SCAFFOLD_CONTENT_BYTES < total_bytes (take (Suc k) ?cs)"
    by auto
  from k(1,3) assms(3) have "k < length ?cs"
    by (cases "k = length ?cs") auto
  with k fs show ?thesis by auto
qed

lemma utf8_len_replicate:
  "utf8_len (replicate n c) = n * (if (of_char c :: nat) < 128 then 1 else 2)"
  by (induction n) (auto simp: utf8_len_def)

theorem budget_enforcement_prefix_witness:
  "validate_scaffold py (JObject demo_scaffold) =
     Inr (JObject [(''project_name'', JString ''demoapp''),
                   (''files'', JArray [file_entry py ''a.txt'' ''hi'' []]),
                   (''file_tree'', JString '''')])
   \<and> length (candidate_files py (files_of (JObject demo_scaffold))) = 3
   \<and> MAX_SCAFFOLD_CONTENT_BYTES
        < total_bytes (candidate_files py (files_of (JObject demo_scaffold)))
   \<and> (\<exists>k < 3. [file_entry py ''a.txt'' ''hi'' []]
                 = take k (candidate_files py (files_of (JObject demo_scaffold))))"
proof -
  have sp: "sanitize_path ''a.txt'' = Some ''a.txt''" "sanitize_path ''../evil.txt'' = None"
    "sanitize_path ''big.txt'' = Some ''big.txt''" "sanitize_path ''c.txt'' = Some ''c.txt''"
    by code_simp+
  have pn: "project_name_of ''Demo App'' = ''demoapp''" by code_simp
  have u: "utf8_len ''hi'' = 2" "utf8_len ''z'' = 1" by code_simp+
  let ?V = "JObject [(''project_name'', JString ''demoapp''),
                   (''files'', JArray [file_entry py ''a.txt'' ''hi'' []]),
                   (''file_tree'', JString '''')]"
  let ?cs = "candidate_files py (files_of (JObject demo_scaffold))"
  have v: "validate_scaffold py (JObject demo_scaffold) = Inr ?V"
    by (simp add: validate_scaffold_def demo_scaffold_def py_get_def py_iter_def dict_get_def
          path_arg_def sp pn u py_str_def utf8_len_replicate MAX_SCAFFOLD_CONTENT_BYTES_def
          file_entry_def)
  have f: "dict_get demo_scaffold ''files'' (JArray []) = JArray (files_of (JObject demo_scaffold))"
    by (simp add: demo_scaffold_def files_of_def dict_get_def)
  have c: "?cs =
     [file_entry py ''a.txt'' ''hi'' [(''path'', JString ''a.txt''), (''content'', JString ''hi'')],
      file_entry py ''big.txt'' (replicate 524288 (CHR ''x''))
        [(''path'', JString ''big.txt''),
         (''content'', JString (replicate 524288 (CHR ''x'')))],
      file_entry py ''c.txt'' ''z'' [(''path'', JString ''c.txt''), (''content'', JString ''z'')]]"
    by (simp add: candidate_files_def candidate_entry_def demo_scaffold_def files_of_def
          dict_get_def sp py_str_def)
  have t: "MAX_SCAFFOLD_CONTENT_BYTES < total_bytes ?cs"
    by (simp add: c total_bytes_def u utf8_len_replicate MAX_SCAFFOLD_CONTENT_BYTES_def)
  from budget_enforcement_prefix[OF v f t] obtain k where
    "k < length ?cs" "files_of ?V = take k ?cs"
    by blast
  moreover have "files_of ?V = [file_entry py ''a.txt'' ''hi'' []]"
    by (simp add: files_of_def dict_get_def)
  moreover have l: "length ?cs = 3"
    by (simp add: c)
  ultimately have "\<exists>k < 3. [file_entry py ''a.txt'' ''hi'' []] = take k ?cs"
    by auto
  with v l t show ?thesis by blast
qed

section \<open>Company type fallback (C10)\<close>

lemma modifiers_for_unknown:
  assumes "ct \<notin> {''startup'', ''mid_level'', ''faang'', ''research'', ''enterprise''}"
  shows "modifiers_for ct = mid_level_modifier"
  using assms by (simp add: modifiers_for_def COMPANY_MODIFIERS_def)

lemma modifiers_for_mid_level: "modifiers_for ''mid_level'' = mid_level_modifier"
  by (simp add: modifiers_for_def COMPANY_MODIFIERS_def)

lemma lower_mid_level: "lower ''mid_level'' = ''mid_level''"
  by code_simp

text \<open>
  C10. If the state's company type, lowercased, is none of the five known archetypes, the
  company-modifier step uses the \<open>mid_level\<close> table: its lookup yields that table, and the
  whole step returns exactly what it returns for the same state with company type
  \<open>mid_level\<close> (the same result or the same failure, so the unknown type causes none), except
  that the result echoes the lowercased unknown type; with no skill profile in the state the
  step succeeds outright with the \<open>mid_level\<close> emphasis areas, weight adjustments and
  portfolio focus.
\<close>

theorem unknown_company_type_uses_mid_level:
  assumes "lower ct \<notin> {''startup'', ''mid_level'', ''faang'', ''research'', ''enterprise''}"
  shows "modifiers_for (lower ct) = mid_level_modifier
       \<and> company_logic_node (state\<lparr>company_type := Some ct\<rparr>) =
           map_sum id
             (\<lambda>u. u\<lparr>cu_company_modifiers := (cu_company_modifiers u)\<lparr>cm_company_type := lower ct\<rparr>\<rparr>)
             (company_logic_node (state\<lparr>company_type := Some ''mid_level''\<rparr>))
       \<and> company_logic_node (state\<lparr>company_type := Some ct, skill_profile := None\<rparr>) =
           Inr \<lparr> cu_skill_profile = JObject [],
                 cu_company_modifiers = \<lparr>
                   cm_company_type = lower ct,
                   cm_emphasis_areas = emphasis_areas mid_level_modifier,
                   cm_weight_adjustments = weight_adjustments mid_level_modifier,
                   cm_portfolio_focus = portfolio_focus mid_level_modifier \<rparr>,
                 cu_current_phase = ''company_logic_complete'' \<rparr>"
proof (intro conjI)
  show m: "modifiers_for (lower ct) = mid_level_modifier"
    using assms by (rule modifiers_for_unknown)
  show "company_logic_node (state\<lparr>company_type := Some ct\<rparr>) =
           map_sum id
             (\<lambda>u. u\<lparr>cu_company_modifiers := (cu_company_modifiers u)\<lparr>cm_company_type := lower ct\<rparr>\<rparr>)
             (company_logic_node (state\<lparr>company_type := Some ''mid_level''\<rparr>))"
    by (simp add: company_logic_node_def Let_def m modifiers_for_mid_level lower_mid_level
          modifiers_output_def split: sum.splits json.splits)
  show "company_logic_node (state\<lparr>company_type := Some ct, skill_profile := None\<rparr>) =
           Inr \<lparr> cu_skill_profile = JObject [],
                 cu_company_modifiers = \<lparr>
                   cm_company_type = lower ct,
                   cm_emphasis_areas = emphasis_areas mid_level_modifier,
                   cm_weight_adjustments = weight_adjustments mid_level_modifier,
                   cm_portfolio_focus = portfolio_focus mid_level_modifier \<rparr>,
                 cu_current_phase = ''company_logic_complete'' \<rparr>"
    by (simp add: company_logic_node_def Let_def m modifiers_output_def truthy_def)
qed

theorem unknown_company_type_uses_mid_level_witness:
  "lower ''Unicorn'' \<notin> {''startup'', ''mid_level'', ''faang'', ''research'', ''enterprise''}
   \<and> company_logic_node (demo_state\<lparr>company_type := Some ''Unicorn''\<rparr>) =
       Inr \<lparr> cu_skill_profile = JObject [(''skills'', JArray
                [JObject [(''name'', JString ''Unit Testing''), (''weight'', JFloat (17 / 2))],
                 JObject [(''name'', JString ''Python''), (''weight'', JInt 7)]])],
             cu_company_modifiers = \<lparr>
               cm_company_type = ''unicorn'',
               cm_emphasis_areas = emphasis_areas mid_level_modifier,
               cm_weight_adjustments = weight_adjustments mid_level_modifier,
               cm_portfolio_focus = portfolio_focus mid_level_modifier \<rparr>,
             cu_current_phase = ''company_logic_complete'' \<rparr>"
proof -
  have h: "lower ''Unicorn'' \<notin> {''startup'', ''mid_level'', ''faang'', ''research'', ''enterprise''}"
    by code_simp
  have l: "lower ''Unicorn'' = ''unicorn''" by code_simp
  have mid: "company_logic_node (demo_state\<lparr>company_type := Some ''mid_level''\<rparr>) =
       Inr \<lparr> cu_skill_profile = JObject [(''skills'', JArray
                [JObject [(''name'', JString ''Unit Testing''), (''weight'', JFloat (17 / 2))],
                 JObject [(''name'', JString ''Python''), (''weight'', JInt 7)]])],
             cu_company_modifiers = modifiers_output ''mid_level'' mid_level_modifier,
             cu_current_phase = ''company_logic_complete'' \<rparr>"
    by code_simp
  from unknown_company_type_uses_mid_level[OF h, of demo_state]
  have "company_logic_node (demo_state\<lparr>company_type := Some ''Unicorn''\<rparr>) =
           map_sum id
             (\<lambda>u. u\<lparr>cu_company_modifiers := (cu_company_modifiers u)\<lparr>cm_company_type := lower ''Unicorn''\<rparr>\<rparr>)
             (company_logic_node (demo_state\<lparr>company_type := Some ''mid_level''\<rparr>))"
    by blast
  then show ?thesis
    using h by (simp add: mid l modifiers_output_def)
qed

section \<open>Extraction of a JSON object (C8)\<close>

lemma dropWhile_before:
  "\<not> P c \<Longrightarrow> dropWhile P (pre @ c # rest) = dropWhile P pre @ c # rest"
  by (induction pre) auto

lemma brace_chars:
  "\<not> isspace (CHR ''{'')" "\<not> isspace (CHR ''}'')"
  "\<not> is_ascii_alpha (CHR ''{'')" "\<not> is_ascii_alpha (CHR ''}'')"
  by code_simp+

lemma startswith_fence_before_brace:
  assumes "startswith ''```'' (pre @ c # rest)" and "c \<noteq> CHR 0x60"
  shows "\<exists>p. pre = ''```'' @ p"
proof (cases pre)
  case Nil
  with assms show ?thesis by simp
next
  case (Cons a p1)
  show ?thesis
  proof (cases p1)
    case Nil
    with Cons assms show ?thesis by simp
  next
    case (Cons b p2)
    show ?thesis
    proof (cases p2)
      case Nil
      with Cons \<open>pre = a # p1\<close> assms show ?thesis by simp
    next
      case (Cons d p3)
      with \<open>p1 = b # p2\<close> \<open>pre = a # p1\<close> assms show ?thesis by auto
    qed
  qed
qed

lemma set_dropWhile_subset: "set (dropWhile P xs) \<subseteq> set xs"
  by (induction xs) auto

lemma lstrip_keeps_object:
  "\<exists>pre'. lstrip (pre @ CHR ''{'' # rest) = pre' @ CHR ''{'' # rest \<and> set pre' \<subseteq> set pre"
  unfolding lstrip_def
  using dropWhile_before[of isspace "CHR ''{''" pre rest] brace_chars(1)
        set_dropWhile_subset[of isspace pre]
  by auto

lemma rstrip_keeps_object:
  "\<exists>post'. rstrip (front @ CHR ''}'' # post) = front @ CHR ''}'' # post' \<and> set post' \<subseteq> set post"
proof -
  have "dropWhile isspace (rev post @ CHR ''}'' # rev front)
          = dropWhile isspace (rev post) @ CHR ''}'' # rev front"
    using brace_chars(2) by (rule dropWhile_before)
  then have "rstrip (front @ CHR ''}'' # post)
               = front @ CHR ''}'' # rev (dropWhile isspace (rev post))"
    by (simp add: rstrip_def)
  moreover have "set (rev (dropWhile isspace (rev post))) \<subseteq> set post"
    using set_dropWhile_subset[of isspace "rev post"] by simp
  ultimately show ?thesis by blast
qed

lemma leading_fence_keeps_object:
  "\<exists>pre'. strip_leading_fence (pre @ CHR ''{'' # rest) = pre' @ CHR ''{'' # rest
          \<and> set pre' \<subseteq> set pre"
proof (cases "startswith ''```'' (pre @ CHR ''{'' # rest)")
  case False
  then show ?thesis by (auto simp: strip_leading_fence_def)
next
  case True
  then obtain p where p: "pre = ''```'' @ p"
    using startswith_fence_before_brace[of pre "CHR ''{''" rest] by auto
  have "dropWhile isspace (dropWhile is_ascii_alpha (p @ CHR ''{'' # rest))
          = dropWhile isspace (dropWhile is_ascii_alpha p) @ CHR ''{'' # rest"
    using brace_chars by (simp add: dropWhile_before)
  with True p have "strip_leading_fence (pre @ CHR ''{'' # rest)
          = dropWhile isspace (dropWhile is_ascii_alpha p) @ CHR ''{'' # rest"
    by (simp add: strip_leading_fence_def)
  moreover have "set (dropWhile isspace (dropWhile is_ascii_alpha p)) \<subseteq> set pre"
    using set_dropWhile_subset[of isspace "dropWhile is_ascii_alpha p"]
          set_dropWhile_subset[of is_ascii_alpha p] p by auto
  ultimately show ?thesis by blast
qed

lemma trailing_fence_keeps_object:
  "\<exists>post'. strip_trailing_fence (front @ CHR ''}'' # post) = front @ CHR ''}'' # post'
           \<and> set post' \<subseteq> set post"
proof -
  let ?r = "dropWhile isspace (rev (front @ CHR ''}'' # post))"
  have r: "?r = dropWhile isspace (rev post) @ CHR ''}'' # rev front"
    using dropWhile_before[of isspace "CHR ''}''" "rev post" "rev front"] brace_chars(2)
    by simp
  show ?thesis
  proof (cases "startswith ''```'' ?r")
    case False
    then show ?thesis by (auto simp: strip_trailing_fence_def Let_def)
  next
    case True
    with r obtain p where p: "dropWhile isspace (rev post) = ''```'' @ p"
      using startswith_fence_before_brace[of "dropWhile isspace (rev post)" "CHR ''}''" "rev front"]
      by auto
    with r have "drop 3 ?r = p @ CHR ''}'' # rev front" by simp
    with True have "strip_trailing_fence (front @ CHR ''}'' # post)
                      = front @ CHR ''}'' # rev p"
      by (simp add: strip_trailing_fence_def Let_def)
    moreover have "set (rev p) \<subseteq> set post"
      using set_dropWhile_subset[of isspace "rev post"] p by auto
    ultimately show ?thesis by blast
  qed
qed

lemma fences_keep_object:
  assumes "CHR ''{'' \<notin> set pre" and "CHR ''}'' \<notin> set post"
  shows "\<exists>pre' post'.
           strip_markdown_fences (pre @ CHR ''{'' # body @ CHR ''}'' # post)
             = pre' @ CHR ''{'' # body @ CHR ''}'' # post'
         \<and> CHR ''{'' \<notin> set pre' \<and> CHR ''}'' \<notin> set post'"
proof -
  let ?o = "CHR ''{'' # body"
  obtain p1 where 1: "lstrip (pre @ CHR ''{'' # (body @ CHR ''}'' # post))
                        = p1 @ CHR ''{'' # (body @ CHR ''}'' # post)" "set p1 \<subseteq> set pre"
    using lstrip_keeps_object by blast
  obtain q1 where 2: "rstrip ((p1 @ ?o) @ CHR ''}'' # post) = (p1 @ ?o) @ CHR ''}'' # q1"
    "set q1 \<subseteq> set post"
    using rstrip_keeps_object by blast
  obtain p2 where 3: "strip_leading_fence (p1 @ CHR ''{'' # (body @ CHR ''}'' # q1))
                        = p2 @ CHR ''{'' # (body @ CHR ''}'' # q1)" "set p2 \<subseteq> set p1"
    using leading_fence_keeps_object by blast
  obtain q2 where 4: "strip_trailing_fence ((p2 @ ?o) @ CHR ''}'' # q1)
                        = (p2 @ ?o) @ CHR ''}'' # q2" "set q2 \<subseteq> set q1"
    using trailing_fence_keeps_object by blast
  obtain p3 where 5: "lstrip (p2 @ CHR ''{'' # (body @ CHR ''}'' # q2))
                        = p3 @ CHR ''{'' # (body @ CHR ''}'' # q2)" "set p3 \<subseteq> set p2"
    using lstrip_keeps_object by blast
  obtain q3 where 6: "rstrip ((p3 @ ?o) @ CHR ''}'' # q2) = (p3 @ ?o) @ CHR ''}'' # q3"
    "set q3 \<subseteq> set q2"
    using rstrip_keeps_object by blast
  have "strip_markdown_fences (pre @ CHR ''{'' # body @ CHR ''}'' # post)
          = p3 @ CHR ''{'' # body @ CHR ''}'' # q3"
    using 1(1) 2(1) 3(1) 4(1) 5(1) 6(1)
    by (simp add: strip_markdown_fences_def strip_def)
  moreover have "CHR ''{'' \<notin> set p3" using assms(1) 1(2) 3(2) 5(2) by blast
  moreover have "CHR ''}'' \<notin> set q3" using assms(2) 2(2) 4(2) 6(2) by blast
  ultimately show ?thesis by blast
qed

lemma find_object:
  assumes "CHR ''{'' \<notin> set pre'"
  shows "find (CHR ''{'') (pre' @ CHR ''{'' # rest) = int (length pre')"
  using assms by (simp add: find_def takeWhile_append)

lemma rfind_object:
  assumes "CHR ''}'' \<notin> set post'"
  shows "rfind (CHR ''}'') (front @ CHR ''}'' # post') = int (length front)"
proof -
  have "takeWhile (\<lambda>x. x \<noteq> CHR ''}'') (rev post' @ CHR ''}'' # rev front) = rev post'"
    using assms by (simp add: takeWhile_append)
  then show ?thesis by (simp add: rfind_def)
qed

lemma slice_object:
  "slice (pre' @ CHR ''{'' # body @ CHR ''}'' # post') (int (length pre'))
         (int (length (pre' @ CHR ''{'' # body)) + 1)
     = CHR ''{'' # body @ [CHR ''}'']"
proof -
  have "nat (int (length (pre' @ CHR ''{'' # body)) + 1) - nat (int (length pre'))
          = Suc (Suc (length body))"
    by simp
  then show ?thesis by (simp add: slice_def)
qed

lemma try_extract_json_object:
  assumes "CHR ''{'' \<notin> set pre" and "CHR ''}'' \<notin> set post"
      and "10 \<le> length (pre @ CHR ''{'' # body @ CHR ''}'' # post)"
      and "json_loads B (CHR ''{'' # body @ [CHR ''}'']) = Inr (JObject d)"
  shows "try_extract_json B (pre @ CHR ''{'' # body @ CHR ''}'' # post) = Inr (Some d)"
proof -
  from fences_keep_object[OF assms(1,2), of body] obtain pre' post' where
    c: "strip_markdown_fences (pre @ CHR ''{'' # body @ CHR ''}'' # post)
          = pre' @ CHR ''{'' # body @ CHR ''}'' # post'"
    and p: "CHR ''{'' \<notin> set pre'" and q: "CHR ''}'' \<notin> set post'"
    by blast
  have f: "find (CHR ''{'') (pre' @ CHR ''{'' # body @ CHR ''}'' # post') = int (length pre')"
    using p by (rule find_object)
  have r: "rfind (CHR ''}'') (pre' @ CHR ''{'' # body @ CHR ''}'' # post')
             = int (length (pre' @ CHR ''{'' # body))"
    using rfind_object[OF q, of "pre' @ CHR ''{'' # body"] by simp
  have s: "slice (pre' @ CHR ''{'' # body @ CHR ''}'' # post') (int (length pre'))
                 (int (length (pre' @ CHR ''{'' # body)) + 1) = CHR ''{'' # body @ [CHR ''}'']"
    by (rule slice_object)
  have n: "\<not> length (pre @ CHR ''{'' # body @ CHR ''}'' # post) < 10"
    using assms(3) by simp
  show ?thesis
    unfolding try_extract_json_def Let_def c f r s
    using n assms(4) by simp
qed

lemma set_strip_subset: "set (strip s) \<subseteq> set s"
  using set_dropWhile_subset[of isspace "rev (dropWhile isspace s)"]
        set_dropWhile_subset[of isspace s]
  by (auto simp: strip_def lstrip_def rstrip_def)

lemma set_strip_leading_fence: "set (strip_leading_fence s) \<subseteq> set s"
  using set_dropWhile_subset[of isspace "dropWhile is_ascii_alpha (drop 3 s)"]
        set_dropWhile_subset[of is_ascii_alpha "drop 3 s"] set_drop_subset[of 3 s]
  by (auto simp: strip_leading_fence_def)

lemma set_strip_trailing_fence: "set (strip_trailing_fence s) \<subseteq> set s"
  using set_drop_subset[of 3 "dropWhile isspace (rev s)"]
        set_dropWhile_subset[of isspace "rev s"]
  by (auto simp: strip_trailing_fence_def Let_def)

lemma set_strip_markdown_fences: "set (strip_markdown_fences s) \<subseteq> set s"
  unfolding strip_markdown_fences_def
  using set_strip_subset set_strip_leading_fence set_strip_trailing_fence
  by (meson subset_trans)

lemma try_extract_json_no_brace:
  assumes "CHR ''{'' \<notin> set text"
  shows "try_extract_json B text = Inr None"
proof -
  have "CHR ''{'' \<notin> set (strip_markdown_fences text)"
    using assms set_strip_markdown_fences by blast
  then show ?thesis by (simp add: try_extract_json_def Let_def find_def)
qed

lemma infix_of_refl: "infix_of s s"
  unfolding infix_of_def by (rule exI[of _ "[]"], rule exI[of _ "[]"]) simp

lemma infix_of_trans:
  assumes "infix_of u t" and "infix_of t s"
  shows "infix_of u s"
proof -
  from assms(1) obtain p q where "t = p @ u @ q" unfolding infix_of_def by blast
  moreover from assms(2) obtain p' q' where "s = p' @ t @ q'" unfolding infix_of_def by blast
  ultimately have "s = (p' @ p) @ u @ (q @ q')" by simp
  then show ?thesis unfolding infix_of_def by blast
qed

lemma infix_of_dropWhile: "infix_of (dropWhile P s) s"
proof -
  have "s = takeWhile P s @ dropWhile P s @ []" by simp
  then show ?thesis unfolding infix_of_def by blast
qed

lemma infix_of_drop: "infix_of (drop n s) s"
proof -
  have "s = take n s @ drop n s @ []" by simp
  then show ?thesis unfolding infix_of_def by blast
qed

lemma infix_of_take: "infix_of (take n s) s"
proof -
  have "s = [] @ take n s @ drop n s" by simp
  then show ?thesis unfolding infix_of_def by blast
qed

lemma infix_of_rev:
  assumes "infix_of t (rev s)"
  shows "infix_of (rev t) s"
proof -
  from assms obtain p q where "rev s = p @ t @ q" unfolding infix_of_def by blast
  then have "rev (rev s) = rev (p @ t @ q)" by simp
  then have "s = rev q @ rev t @ rev p" by simp
  then show ?thesis unfolding infix_of_def by blast
qed

lemma infix_of_strip: "infix_of (strip s) s"
proof -
  have "infix_of (lstrip s) s"
    unfolding lstrip_def by (rule infix_of_dropWhile)
  moreover have "infix_of (rstrip (lstrip s)) (lstrip s)"
    unfolding rstrip_def by (rule infix_of_rev) (rule infix_of_dropWhile)
  ultimately show ?thesis
    unfolding strip_def by (rule infix_of_trans[rotated])
qed

lemma infix_of_strip_leading_fence: "infix_of (strip_leading_fence s) s"
proof (cases "startswith ''```'' s")
  case True
  have "infix_of (dropWhile isspace (dropWhile is_ascii_alpha (drop 3 s)))
          (dropWhile is_ascii_alpha (drop 3 s))"
    by (rule infix_of_dropWhile)
  moreover have "infix_of (dropWhile is_ascii_alpha (drop 3 s)) (drop 3 s)"
    by (rule infix_of_dropWhile)
  moreover have "infix_of (drop 3 s) s"
    by (rule infix_of_drop)
  ultimately have "infix_of (dropWhile isspace (dropWhile is_ascii_alpha (drop 3 s))) s"
    by (meson infix_of_trans)
  with True show ?thesis by (simp add: strip_leading_fence_def)
next
  case False
  then show ?thesis by (simp add: strip_leading_fence_def infix_of_refl)
qed

lemma infix_of_strip_trailing_fence: "infix_of (strip_trailing_fence s) s"
proof (cases "startswith ''```'' (dropWhile isspace (rev s))")
  case True
  have "infix_of (drop 3 (dropWhile isspace (rev s))) (dropWhile isspace (rev s))"
    by (rule infix_of_drop)
  moreover have "infix_of (dropWhile isspace (rev s)) (rev s)"
    by (rule infix_of_dropWhile)
  ultimately have "infix_of (drop 3 (dropWhile isspace (rev s))) (rev s)"
    by (rule infix_of_trans)
  then have "infix_of (rev (drop 3 (dropWhile isspace (rev s)))) s"
    by (rule infix_of_rev)
  with True show ?thesis by (simp add: strip_trailing_fence_def Let_def)
next
  case False
  then show ?thesis by (simp add: strip_trailing_fence_def Let_def infix_of_refl)
qed

lemma infix_of_strip_markdown_fences: "infix_of (strip_markdown_fences s) s"
  unfolding strip_markdown_fences_def
  by (meson infix_of_trans infix_of_strip infix_of_strip_leading_fence
        infix_of_strip_trailing_fence)

lemma infix_of_json_candidate: "infix_of (json_candidate text) text"
proof -
  have "infix_of (slice s a b) s" for s a b
    unfolding slice_def by (meson infix_of_trans infix_of_take infix_of_drop)
  then show ?thesis
    unfolding json_candidate_def Let_def
    by (meson infix_of_trans infix_of_strip_markdown_fences)
qed

lemma candidate_shape:
  assumes "find (CHR ''{'') s \<noteq> - 1" and "find (CHR ''{'') s < rfind (CHR ''}'') s"
  shows "\<exists>body. slice s (find (CHR ''{'') s) (rfind (CHR ''}'') s + 1)
                  = CHR ''{'' # body @ [CHR ''}'']"
proof -
  have o: "CHR ''{'' \<in> set s"
    using assms(1) by (auto simp: find_def split: if_splits)
  have c: "CHR ''}'' \<in> set s"
    using assms by (auto simp: find_def rfind_def split: if_splits)
  from split_list_first[OF o] obtain p rest where
    s1: "s = p @ CHR ''{'' # rest" and p: "CHR ''{'' \<notin> set p"
    by blast
  from split_list_last[OF c] obtain front q where
    s2: "s = front @ CHR ''}'' # q" and q: "CHR ''}'' \<notin> set q"
    by blast
  have f: "find (CHR ''{'') s = int (length p)"
    using find_object[OF p, of rest] s1 by simp
  have r: "rfind (CHR ''}'') s = int (length front)"
    using rfind_object[OF q, of front] s2 by simp
  have l: "length p < length front"
    using assms(2) f r by simp
  from s1 s2 have "p @ CHR ''{'' # rest = front @ CHR ''}'' # q" by simp
  then obtain us where
    "(p @ us = front \<and> CHR ''{'' # rest = us @ CHR ''}'' # q)
     \<or> (p = front @ us \<and> us @ CHR ''{'' # rest = CHR ''}'' # q)"
    by (auto simp: append_eq_append_conv2)
  with l obtain us where u: "p @ us = front" "CHR ''{'' # rest = us @ CHR ''}'' # q"
    by auto
  with l obtain body where b: "us = CHR ''{'' # body"
    by (cases us) auto
  with u have rest: "rest = body @ CHR ''}'' # q" and front: "front = p @ CHR ''{'' # body"
    by auto
  have "slice (p @ CHR ''{'' # body @ CHR ''}'' # q) (int (length p))
          (int (length (p @ CHR ''{'' # body)) + 1) = CHR ''{'' # body @ [CHR ''}'']"
    by (rule slice_object)
  then show ?thesis
    using s1 rest front f r by auto
qed

lemma try_extract_json_sound:
  assumes "try_extract_json B text = Inr (Some d)"
  shows "10 \<le> length text \<and> json_loads B (json_candidate text) = Inr (JObject d)
         \<and> infix_of (json_candidate text) text
         \<and> (\<exists>body. json_candidate text = CHR ''{'' # body @ [CHR ''}''])"
proof -
  let ?clean = "strip_markdown_fences text"
  from assms have l: "10 \<le> length text"
    by (auto simp: try_extract_json_def split: if_splits)
  from assms have f: "find (CHR ''{'') ?clean \<noteq> - 1"
    by (auto simp: try_extract_json_def Let_def split: if_splits)
  from assms have r: "find (CHR ''{'') ?clean < rfind (CHR ''}'') ?clean"
    by (auto simp: try_extract_json_def Let_def split: if_splits)
  from assms l f r have j: "json_loads B (json_candidate text) = Inr (JObject d)"
    by (auto simp: try_extract_json_def json_candidate_def Let_def
             split: if_splits sum.splits json.splits)
  from candidate_shape[OF f r] have "\<exists>body. json_candidate text = CHR ''{'' # body @ [CHR ''}'']"
    by (simp add: json_candidate_def Let_def)
  with l j infix_of_json_candidate show ?thesis by blast
qed

lemma try_extract_json_refused:
  assumes "undecodable B (json_candidate text)"
  shows "try_extract_json B text = Inr None"
  using assms
  by (auto simp: try_extract_json_def json_candidate_def undecodable_def Let_def
           split: sum.splits)

lemma try_extract_json_not_object:
  assumes "json_loads B (json_candidate text) = Inr v" and "\<forall>d. v \<noteq> JObject d"
  shows "try_extract_json B text = Inr None"
  using assms
  by (auto simp: try_extract_json_def json_candidate_def Let_def split: json.splits)

lemma try_extract_json_total:
  assumes "\<forall>s e. json_loads B s = Inl e \<longrightarrow> kind e = JSONDecodeError"
  shows "\<exists>r. try_extract_json B text = Inr r"
  using assms
  by (auto simp: try_extract_json_def Let_def split: if_splits sum.splits json.splits)

lemma json_parse_raises_decode_error_only:
  "json_loads py s = Inl e \<Longrightarrow> kind e = JSONDecodeError"
  by (auto simp: py_def json_parse_def split: option.splits)

text \<open>
  C8, as the code has it. \<open>_try_extract_json\<close> returns the object for a text of at least ten
  characters that holds a JSON object between prose without braces: no \<open>{\<close> before it and
  no \<open>}\<close> after it, which covers the bare object and the object in \<open>```json\<close> fences. It
  returns \<open>None\<close> for every text shorter than ten characters, whatever the parser would
  say, and for every text without \<open>{\<close>. Whenever it returns an object, the text has at least
  ten characters and \<open>json.loads\<close> has accepted, as that object, the candidate: a slice of the
  text that runs from a \<open>{\<close> to a \<open>}\<close> (the first and the last of the text without its fences).
  Whenever \<open>json.loads\<close> refuses the candidate with \<open>JSONDecodeError\<close>, as it does for
  truncated or unbalanced JSON, or reads it as something that is not an object, the result
  is \<open>None\<close>; and nothing is raised as long as \<open>json.loads\<close> raises nothing but
  \<open>JSONDecodeError\<close>.
\<close>

theorem try_extract_json_robust:
  "(\<forall>pre body post d.
      CHR ''{'' \<notin> set pre \<and> CHR ''}'' \<notin> set post
      \<and> 10 \<le> length (pre @ CHR ''{'' # body @ CHR ''}'' # post)
      \<and> json_loads B (CHR ''{'' # body @ [CHR ''}'']) = Inr (JObject d)
      \<longrightarrow> try_extract_json B (pre @ CHR ''{'' # body @ CHR ''}'' # post) = Inr (Some d))
   \<and> (\<forall>B' text. length text < 10 \<longrightarrow> try_extract_json B' text = Inr None)
   \<and> (\<forall>text. CHR ''{'' \<notin> set text \<longrightarrow> try_extract_json B text = Inr None)
   \<and> (\<forall>text d. try_extract_json B text = Inr (Some d)
         \<longrightarrow> 10 \<le> length text
             \<and> json_loads B (json_candidate text) = Inr (JObject d)
             \<and> infix_of (json_candidate text) text
             \<and> (\<exists>body. json_candidate text = CHR ''{'' # body @ [CHR ''}'']))
   \<and> (\<forall>text. undecodable B (json_candidate text) \<longrightarrow> try_extract_json B text = Inr None)
   \<and> (\<forall>text v. json_loads B (json_candidate text) = Inr v \<and> (\<forall>d. v \<noteq> JObject d)
         \<longrightarrow> try_extract_json B text = Inr None)
   \<and> ((\<forall>s e. json_loads B s = Inl e \<longrightarrow> kind e = JSONDecodeError)
         \<longrightarrow> (\<forall>text. \<exists>r. try_extract_json B text = Inr r))"
proof (intro conjI allI impI)
  fix pre body post d
  assume "CHR ''{'' \<notin> set pre \<and> CHR ''}'' \<notin> set post
      \<and> 10 \<le> length (pre @ CHR ''{'' # body @ CHR ''}'' # post)
      \<and> json_loads B (CHR ''{'' # body @ [CHR ''}'']) = Inr (JObject d)"
  then show "try_extract_json B (pre @ CHR ''{'' # body @ CHR ''}'' # post) = Inr (Some d)"
    using try_extract_json_object by blast
next
  fix B' :: builtins and t :: string
  assume "length t < 10"
  then show "try_extract_json B' t = Inr None" by (simp add: try_extract_json_def)
next
  fix t
  assume "CHR ''{'' \<notin> set t"
  then show "try_extract_json B t = Inr None" by (rule try_extract_json_no_brace)
next
  fix t d
  assume a: "try_extract_json B t = Inr (Some d)"
  from try_extract_json_sound[OF a] show "10 \<le> length t" by blast
  from try_extract_json_sound[OF a] show "json_loads B (json_candidate t) = Inr (JObject d)"
    by blast
  from try_extract_json_sound[OF a] show "infix_of (json_candidate t) t" by blast
  from try_extract_json_sound[OF a]
  show "\<exists>body. json_candidate t = CHR ''{'' # body @ [CHR ''}'']" by blast
next
  fix t
  assume "undecodable B (json_candidate t)"
  then show "try_extract_json B t = Inr None" by (rule try_extract_json_refused)
next
  fix t v
  assume "json_loads B (json_candidate t) = Inr v \<and> (\<forall>d. v \<noteq> JObject d)"
  then show "try_extract_json B t = Inr None" using try_extract_json_not_object by blast
next
  fix t
  assume "\<forall>s e. json_loads B s = Inl e \<longrightarrow> kind e = JSONDecodeError"
  then show "\<exists>r. try_extract_json B t = Inr r" by (rule try_extract_json_total)
qed

theorem try_extract_json_robust_witness:
  "try_extract_json py python_payload = Inr (Some [(''skills'', JArray [JObject python_skill])])
   \<and> try_extract_json py python_object = Inr (Some [(''skills'', JArray [JObject python_skill])])
   \<and> try_extract_json py (''Here it is: '' @ python_object @ '' Hope it helps.'')
        = Inr (Some [(''skills'', JArray [JObject python_skill])])
   \<and> json_candidate python_payload = python_object
   \<and> json_loads py python_object = Inr (JObject [(''skills'', JArray [JObject python_skill])])
   \<and> length (''{'' @ dq ''a'' @ '':1}'') < 10
   \<and> try_extract_json py (''{'' @ dq ''a'' @ '':1}'') = Inr None
   \<and> CHR ''{'' \<notin> set ''I cannot help with that''
   \<and> try_extract_json py ''I cannot help with that'' = Inr None
   \<and> json_candidate unbalanced_object = unbalanced_object
   \<and> undecodable py unbalanced_object
   \<and> try_extract_json py unbalanced_object = Inr None
   \<and> try_extract_json py truncated_object = Inr None
   \<and> json_candidate (''The answer: {42}'') = ''{42}''
   \<and> undecodable py ''{42}''
   \<and> try_extract_json py (''The answer: {42}'') = Inr None"
proof -
  let ?body = "dq ''skills'' @ '':[{'' @ dq ''name'' @ '':'' @ dq ''Python'' @ '',''
               @ dq ''weight'' @ '':15}]''"
  let ?d = "[(''skills'', JArray [JObject python_skill])]"
  note t = try_extract_json_robust[of py]
  have obj: "python_object = CHR ''{'' # ?body @ [CHR ''}'']"
    by (simp add: python_object_def)
  have loads: "json_loads py (CHR ''{'' # ?body @ [CHR ''}'']) = Inr (JObject ?d)"
    by code_simp
  have shape:
    "\<And>pre post. pre @ python_object @ post = pre @ CHR ''{'' # ?body @ CHR ''}'' # post"
    by (simp add: obj)
  have ex: "\<And>pre post. CHR ''{'' \<notin> set pre \<Longrightarrow> CHR ''}'' \<notin> set post
       \<Longrightarrow> 10 \<le> length (pre @ CHR ''{'' # ?body @ CHR ''}'' # post)
       \<Longrightarrow> try_extract_json py (pre @ python_object @ post) = Inr (Some ?d)"
    using t[THEN conjunct1] loads unfolding shape by blast
  have a: "try_extract_json py python_payload = Inr (Some ?d)"
    using ex[of "''```json'' @ [newline]" "[newline] @ ''```''"]
    by (simp add: python_payload_def newline_def dq_def)
  have b: "try_extract_json py python_object = Inr (Some ?d)"
    using ex[of "[]" "[]"] by (simp add: dq_def)
  have c: "try_extract_json py (''Here it is: '' @ python_object @ '' Hope it helps.'')
             = Inr (Some ?d)"
    using ex[of "''Here it is: ''" "'' Hope it helps.''"] by (simp add: dq_def)
  have k: "json_candidate python_payload = python_object"
    by code_simp
  have k': "json_loads py python_object = Inr (JObject ?d)"
    using t[THEN conjunct2, THEN conjunct2, THEN conjunct2, THEN conjunct1, rule_format,
            OF a]
    by (simp add: k)
  have s: "length (''{'' @ dq ''a'' @ '':1}'') < 10" by (simp add: dq_def)
  have d: "try_extract_json py (''{'' @ dq ''a'' @ '':1}'') = Inr None"
    using t[THEN conjunct2, THEN conjunct1, rule_format, OF s] .
  have n: "CHR ''{'' \<notin> set ''I cannot help with that''" by simp
  have e: "try_extract_json py ''I cannot help with that'' = Inr None"
    using t[THEN conjunct2, THEN conjunct2, THEN conjunct1, rule_format, OF n] .
  have u1: "json_candidate unbalanced_object = unbalanced_object"
    by code_simp
  have u2: "undecodable py unbalanced_object"
    by code_simp
  have u3: "try_extract_json py unbalanced_object = Inr None"
    using t[THEN conjunct2, THEN conjunct2, THEN conjunct2, THEN conjunct2, THEN conjunct1,
            rule_format, of unbalanced_object]
    by (simp add: u1 u2)
  have f: "try_extract_json py truncated_object = Inr None"
    by code_simp
  have v1: "json_candidate (''The answer: {42}'') = ''{42}''"
    by code_simp
  have v2: "undecodable py ''{42}''"
    by code_simp
  have v3: "try_extract_json py (''The answer: {42}'') = Inr None"
    using t[THEN conjunct2, THEN conjunct2, THEN conjunct2, THEN conjunct2, THEN conjunct1,
            rule_format, of "''The answer: {42}''"]
    by (simp add: v1 v2)
  from a b c k k' s d n e u1 u2 u3 f v1 v2 v3 show ?thesis by (intro conjI)
qed

theorem arbitrary_prose_counterexample:
  "json_loads py python_object = Inr python_profile
   \<and> try_extract_json py prose_with_braces = Inr None"
  by code_simp

section \<open>Idempotence of scaffold validation (C9)\<close>

text \<open>
  C9. \<open>_validate_scaffold\<close> is not idempotent. \<open>_sanitize_path\<close> removes leading slashes and
  then leading backslashes, once each and in that order, so the path \<open>\/a.py\<close> leaves the
  first pass as \<open>/a.py\<close>, still with a leading slash, and the second pass as \<open>a.py\<close>:
  validating the validated scaffold changes it.
\<close>

theorem validate_scaffold_not_idempotent:
  "sanitize_path (backslash # ''/a.py'') = Some ''/a.py''
   \<and> sanitize_path ''/a.py'' = Some ''a.py''
   \<and> validate_scaffold py mixed_slash_scaffold =
       Inr (JObject
         [(''project_name'', JString ''scaffold-project''),
          (''files'', JArray
             [JObject [(''path'', JString ''/a.py''), (''content'', JString ''x''),
                       (''language'', JString ''text''), (''description'', JString '''')]]),
          (''file_tree'', JString '''')])
   \<and> validate_scaffold py (JObject
         [(''project_name'', JString ''scaffold-project''),
          (''files'', JArray
             [JObject [(''path'', JString ''/a.py''), (''content'', JString ''x''),
                       (''language'', JString ''text''), (''description'', JString '''')]]),
          (''file_tree'', JString '''')]) =
       Inr (JObject
         [(''project_name'', JString ''scaffold-project''),
          (''files'', JArray
             [JObject [(''path'', JString ''a.py''), (''content'', JString ''x''),
                       (''language'', JString ''text''), (''description'', JString '''')]]),
          (''file_tree'', JString '''')])"
proof -
  have a: "sanitize_path (backslash # ''/a.py'') = Some ''/a.py''"
    by code_simp
  have b: "sanitize_path ''/a.py'' = Some ''a.py''"
    by code_simp
  have pn: "project_name_of ''scaffold-project'' = ''scaffold-project''"
    by code_simp
  have u: "utf8_len ''x'' = 1"
    by code_simp
  have c: "validate_scaffold py mixed_slash_scaffold =
       Inr (JObject
         [(''project_name'', JString ''scaffold-project''),
          (''files'', JArray
             [JObject [(''path'', JString ''/a.py''), (''content'', JString ''x''),
                       (''language'', JString ''text''), (''description'', JString '''')]]),
          (''file_tree'', JString '''')])"
    by (simp add: validate_scaffold_def mixed_slash_scaffold_def py_get_def py_iter_def
          dict_get_def path_arg_def a pn u py_str_def MAX_SCAFFOLD_CONTENT_BYTES_def
          file_entry_def)
  have d: "validate_scaffold py (JObject
         [(''project_name'', JString ''scaffold-project''),
          (''files'', JArray
             [JObject [(''path'', JString ''/a.py''), (''content'', JString ''x''),
                       (''language'', JString ''text''), (''description'', JString '''')]]),
          (''file_tree'', JString '''')]) =
       Inr (JObject
         [(''project_name'', JString ''scaffold-project''),
          (''files'', JArray
             [JObject [(''path'', JString ''a.py''), (''content'', JString ''x''),
                       (''language'', JString ''text''), (''description'', JString '''')]]),
          (''file_tree'', JString '''')])"
    by (simp add: validate_scaffold_def py_get_def py_iter_def
          dict_get_def path_arg_def b pn u py_str_def MAX_SCAFFOLD_CONTENT_BYTES_def
          file_entry_def)
  from a b c d show ?thesis by (intro conjI)
qed

section \<open>The weight bound of a skill (C7)\<close>

lemma json_loads_python_object: "json_loads py python_object = Inr python_profile"
  by code_simp

lemma jd_candidate_python_payload: "jd_candidate python_payload = python_object"
  by code_simp

lemma lower_Python: "lower ''Python'' = ''python''"
  by code_simp

lemma jd_analysis_node_python:
  assumes "jd_prompt system_prompt state = Inr messages"
      and "invoke g messages = (Inr python_payload, g')"
      and "json_loads B python_object = Inr python_profile"
  shows "jd_analysis_node B invoke system_prompt state g
           = (JdComplete python_profile (JArray []) [python_payload], g')"
  by (simp add: jd_analysis_node_def assms jd_candidate_python_payload python_profile_def
        py_get_def dict_get_def py_len_def)

lemma apply_adjustments_python:
  "apply_adjustments (weight_adjustments startup_modifier) ''python'' python_skill
     = Inr python_skill"
  "apply_adjustments (weight_adjustments mid_level_modifier) ''python'' python_skill
     = Inr python_skill"
  "apply_adjustments (weight_adjustments faang_modifier) ''python'' python_skill
     = Inr python_skill"
  "apply_adjustments (weight_adjustments enterprise_modifier) ''python'' python_skill
     = Inr python_skill"
  "apply_adjustments (weight_adjustments research_modifier) ''python'' python_skill
     = Inr [(''name'', JString ''Python''), (''weight'', JFloat 10)]"
  by code_simp+

lemma modifiers_for_cases:
  "modifiers_for ct = (if ct = ''startup'' then startup_modifier
     else if ct = ''mid_level'' then mid_level_modifier
     else if ct = ''faang'' then faang_modifier
     else if ct = ''research'' then research_modifier
     else if ct = ''enterprise'' then enterprise_modifier
     else mid_level_modifier)"
  by (simp add: modifiers_for_def COMPANY_MODIFIERS_def)

lemma apply_adjustments_python_for:
  "apply_adjustments (weight_adjustments (modifiers_for ct)) ''python'' python_skill
     = Inr (if ct = ''research'' then [(''name'', JString ''Python''), (''weight'', JFloat 10)]
            else python_skill)"
  by (simp add: modifiers_for_cases apply_adjustments_python)

lemma company_logic_node_python:
  "map_sum id cu_skill_profile (company_logic_node (state\<lparr>skill_profile := Some python_profile\<rparr>))
     = Inr (if lower (case company_type state of Some c \<Rightarrow> c | None \<Rightarrow> ''mid_level'') = ''research''
            then clamped_python_profile else python_profile)"
  by (simp add: company_logic_node_def Let_def python_profile_def clamped_python_profile_def
        truthy_def py_get_def dict_get_def py_iter_def lower_Python
        apply_adjustments_python_for[unfolded python_skill_def] python_skill_def
        sort_skills_def dict_set_def)

lemma safe_parse_python_profile:
  "safe_parse_skill_profile B python_profile =
     Inr \<lparr> sp_skills = [], sp_experience_level = ''mid'', sp_domain = ''Software Engineering'',
           sp_engineering_expectations = [], sp_key_responsibilities = [],
           sp_summary = ''Analysis complete.'' \<rparr>"
  by (simp add: safe_parse_skill_profile_def python_profile_def python_skill_def
        embedded_profile_def dict_get_def py_iter_def py_slice_to_def str_field_def
        EXPERIENCE_LEVELS_def str_list_field_def keep_valid_def List.map_filter_simps
        make_skill_def py_get_def py_float_def float_overflows_def bounded_field_def)

lemma safe_parse_clamped_python_profile:
  "safe_parse_skill_profile B clamped_python_profile =
     Inr \<lparr> sp_skills = [\<lparr>sk_name = ''Python'', sk_category = ''concept'', sk_weight = 10,
                          sk_source = ''inferred''\<rparr>],
           sp_experience_level = ''mid'', sp_domain = ''Software Engineering'',
           sp_engineering_expectations = [], sp_key_responsibilities = [],
           sp_summary = ''Analysis complete.'' \<rparr>"
  by (simp add: safe_parse_skill_profile_def clamped_python_profile_def
        embedded_profile_def dict_get_def py_iter_def py_slice_to_def str_field_def
        EXPERIENCE_LEVELS_def str_list_field_def keep_valid_def List.map_filter_simps
        make_skill_def py_get_def py_float_def float_overflows_def bounded_field_def)

lemma company_then_safe_parse_python:
  "\<exists>u. company_logic_node (state\<lparr>skill_profile := Some python_profile\<rparr>) = Inr u
       \<and> cu_skill_profile u =
            (if lower (case company_type state of Some c \<Rightarrow> c | None \<Rightarrow> ''mid_level'') = ''research''
             then clamped_python_profile else python_profile)
       \<and> safe_parse_skill_profile B (cu_skill_profile u) =
            Inr \<lparr> sp_skills =
                    (if lower (case company_type state of Some c \<Rightarrow> c | None \<Rightarrow> ''mid_level'')
                          = ''research''
                     then [\<lparr>sk_name = ''Python'', sk_category = ''concept'', sk_weight = 10,
                            sk_source = ''inferred''\<rparr>]
                     else []),
                  sp_experience_level = ''mid'', sp_domain = ''Software Engineering'',
                  sp_engineering_expectations = [], sp_key_responsibilities = [],
                  sp_summary = ''Analysis complete.'' \<rparr>"
proof -
  obtain u where u: "company_logic_node (state\<lparr>skill_profile := Some python_profile\<rparr>) = Inr u"
    and p: "cu_skill_profile u =
       (if lower (case company_type state of Some c \<Rightarrow> c | None \<Rightarrow> ''mid_level'') = ''research''
        then clamped_python_profile else python_profile)"
    using company_logic_node_python[of state]
    by (cases "company_logic_node (state\<lparr>skill_profile := Some python_profile\<rparr>)") auto
  show ?thesis
    by (rule exI[of _ u])
       (simp add: u p safe_parse_python_profile safe_parse_clamped_python_profile)
qed

text \<open>
  C7, as the code has it. When the generator's first answer to the JD node is the fenced
  payload whose single skill is \<open>Python\<close> with weight 15 (and \<open>json.loads\<close> reads it as that
  object), the node returns the profile with the weight 15 unchanged. \<open>_safe_parse_skill_profile\<close>
  does not clamp: the \<open>Skill\<close> model refuses the weight (its bound is \<open>[0, 10]\<close>) and the skill is
  dropped, so applied to the node's profile it returns a profile with no skills. The company
  step, run on the node's profile, clamps a weight to \<open>[0, 10]\<close> only where one of its
  adjustment keys occurs in the skill's name, which for \<open>python\<close> is the case for the
  \<open>research\<close> company type alone: only then does \<open>_safe_parse_skill_profile\<close> of the company
  step's profile hold exactly one skill, \<open>Python\<close>, with weight 10; for every other company
  type it holds no skills.
\<close>

theorem python_weight_15_kept_only_when_clamped:
  assumes "jd_prompt system_prompt state = Inr messages"
      and "invoke g messages = (Inr python_payload, g')"
      and "json_loads B python_object = Inr python_profile"
  shows "jd_analysis_node B invoke system_prompt state g
           = (JdComplete python_profile (JArray []) [python_payload], g')
       \<and> safe_parse_skill_profile B python_profile =
            Inr \<lparr> sp_skills = [], sp_experience_level = ''mid'',
                  sp_domain = ''Software Engineering'', sp_engineering_expectations = [],
                  sp_key_responsibilities = [], sp_summary = ''Analysis complete.'' \<rparr>
       \<and> (\<exists>ct u. company_type state = Some ct
            \<and> company_logic_node (state\<lparr>skill_profile := Some python_profile\<rparr>) = Inr u
            \<and> cu_skill_profile u =
                 (if lower ct = ''research'' then clamped_python_profile else python_profile)
            \<and> safe_parse_skill_profile B (cu_skill_profile u) =
                 Inr \<lparr> sp_skills =
                         (if lower ct = ''research''
                          then [\<lparr>sk_name = ''Python'', sk_category = ''concept'', sk_weight = 10,
                                 sk_source = ''inferred''\<rparr>]
                          else []),
                       sp_experience_level = ''mid'', sp_domain = ''Software Engineering'',
                       sp_engineering_expectations = [], sp_key_responsibilities = [],
                       sp_summary = ''Analysis complete.'' \<rparr>)"
proof (intro conjI)
  show "jd_analysis_node B invoke system_prompt state g
           = (JdComplete python_profile (JArray []) [python_payload], g')"
    using assms by (rule jd_analysis_node_python)
  show "safe_parse_skill_profile B python_profile =
            Inr \<lparr> sp_skills = [], sp_experience_level = ''mid'',
                  sp_domain = ''Software Engineering'', sp_engineering_expectations = [],
                  sp_key_responsibilities = [], sp_summary = ''Analysis complete.'' \<rparr>"
    by (rule safe_parse_python_profile)
  from assms(1) obtain ct where ct: "company_type state = Some ct"
    by (auto simp: jd_prompt_def split: option.splits)
  from company_then_safe_parse_python[of state B] ct
  show "\<exists>ct u. company_type state = Some ct
            \<and> company_logic_node (state\<lparr>skill_profile := Some python_profile\<rparr>) = Inr u
            \<and> cu_skill_profile u =
                 (if lower ct = ''research'' then clamped_python_profile else python_profile)
            \<and> safe_parse_skill_profile B (cu_skill_profile u) =
                 Inr \<lparr> sp_skills =
                         (if lower ct = ''research''
                          then [\<lparr>sk_name = ''Python'', sk_category = ''concept'', sk_weight = 10,
                                 sk_source = ''inferred''\<rparr>]
                          else []),
                       sp_experience_level = ''mid'', sp_domain = ''Software Engineering'',
                       sp_engineering_expectations = [], sp_key_responsibilities = [],
                       sp_summary = ''Analysis complete.'' \<rparr>"
    by auto
qed

theorem python_weight_15_kept_only_when_clamped_witness:
  "jd_prompt demo_system_prompt (demo_state\<lparr>company_type := Some ''research''\<rparr>) =
     Inr [SystemMessage demo_system_prompt,
          HumanMessage (build_jd_user_prompt
            ''We build payment services in Python and need an engineer who tests.''
            ''Backend Engineer'' ''research'' None)]
   \<and> json_loads py python_object = Inr python_profile
   \<and> jd_analysis_node py scripted demo_system_prompt
        (demo_state\<lparr>company_type := Some ''research''\<rparr>) [Inr python_payload]
       = (JdComplete python_profile (JArray []) [python_payload], [])
   \<and> safe_parse_skill_profile py python_profile =
       Inr \<lparr> sp_skills = [], sp_experience_level = ''mid'',
             sp_domain = ''Software Engineering'', sp_engineering_expectations = [],
             sp_key_responsibilities = [], sp_summary = ''Analysis complete.'' \<rparr>
   \<and> map_sum id cu_skill_profile
        (company_logic_node
           (demo_state\<lparr>company_type := Some ''research'', skill_profile := Some python_profile\<rparr>))
       = Inr clamped_python_profile
   \<and> safe_parse_skill_profile py clamped_python_profile =
       Inr \<lparr> sp_skills = [\<lparr>sk_name = ''Python'', sk_category = ''concept'', sk_weight = 10,
                            sk_source = ''inferred''\<rparr>],
             sp_experience_level = ''mid'', sp_domain = ''Software Engineering'',
             sp_engineering_expectations = [], sp_key_responsibilities = [],
             sp_summary = ''Analysis complete.'' \<rparr>"
proof -
  let ?S = "demo_state\<lparr>company_type := Some ''research''\<rparr>"
  let ?m = "[SystemMessage demo_system_prompt,
          HumanMessage (build_jd_user_prompt
            ''We build payment services in Python and need an engineer who tests.''
            ''Backend Engineer'' ''research'' None)]"
  have p: "jd_prompt demo_system_prompt ?S = Inr ?m"
    by (simp add: jd_prompt_def demo_state_def)
  have i: "scripted [Inr python_payload] ?m = (Inr python_payload, [])"
    by simp
  have l: "json_loads py python_object = Inr python_profile"
    by (rule json_loads_python_object)
  have r: "lower ''research'' = ''research''"
    by code_simp
  note t = python_weight_15_kept_only_when_clamped
             [of demo_system_prompt ?S ?m scripted "[Inr python_payload]" "[]" py, OF p i l]
  from t have a: "jd_analysis_node py scripted demo_system_prompt ?S [Inr python_payload]
       = (JdComplete python_profile (JArray []) [python_payload], [])"
    by (rule conjunct1)
  from t have b: "safe_parse_skill_profile py python_profile =
       Inr \<lparr> sp_skills = [], sp_experience_level = ''mid'',
             sp_domain = ''Software Engineering'', sp_engineering_expectations = [],
             sp_key_responsibilities = [], sp_summary = ''Analysis complete.'' \<rparr>"
    by blast
  from t obtain ct u where
    c: "company_type ?S = Some ct"
    and u: "company_logic_node (?S\<lparr>skill_profile := Some python_profile\<rparr>) = Inr u"
    and k: "cu_skill_profile u =
              (if lower ct = ''research'' then clamped_python_profile else python_profile)"
    and s: "safe_parse_skill_profile py (cu_skill_profile u) =
              Inr \<lparr> sp_skills =
                      (if lower ct = ''research''
                       then [\<lparr>sk_name = ''Python'', sk_category = ''concept'', sk_weight = 10,
                              sk_source = ''inferred''\<rparr>]
                       else []),
                    sp_experience_level = ''mid'', sp_domain = ''Software Engineering'',
                    sp_engineering_expectations = [], sp_key_responsibilities = [],
                    sp_summary = ''Analysis complete.'' \<rparr>"
    by blast
  from c have ct: "ct = ''research''" by simp
  have d: "map_sum id cu_skill_profile
        (company_logic_node
           (demo_state\<lparr>company_type := Some ''research'', skill_profile := Some python_profile\<rparr>))
       = Inr clamped_python_profile"
    using u k by (simp add: ct r)
  have e: "safe_parse_skill_profile py clamped_python_profile =
       Inr \<lparr> sp_skills = [\<lparr>sk_name = ''Python'', sk_category = ''concept'', sk_weight = 10,
                            sk_source = ''inferred''\<rparr>],
             sp_experience_level = ''mid'', sp_domain = ''Software Engineering'',
             sp_engineering_expectations = [], sp_key_responsibilities = [],
             sp_summary = ''Analysis complete.'' \<rparr>"
    using s k by (simp add: ct r)
  from p l a b d e show ?thesis by (intro conjI)
qed

theorem python_weight_15_dropped_counterexample:
  "company_type demo_state = Some ''startup''
   \<and> jd_analysis_node py scripted demo_system_prompt demo_state [Inr python_payload]
       = (JdComplete python_profile (JArray []) [python_payload], [])
   \<and> map_sum id cu_skill_profile
        (company_logic_node (demo_state\<lparr>skill_profile := Some python_profile\<rparr>))
       = Inr python_profile
   \<and> safe_parse_skill_profile py python_profile =
       Inr \<lparr> sp_skills = [], sp_experience_level = ''mid'',
             sp_domain = ''Software Engineering'', sp_engineering_expectations = [],
             sp_key_responsibilities = [], sp_summary = ''Analysis complete.'' \<rparr>"
proof -
  let ?m = "[SystemMessage demo_system_prompt,
          HumanMessage (build_jd_user_prompt
            ''We build payment services in Python and need an engineer who tests.''
            ''Backend Engineer'' ''startup'' None)]"
  have c: "company_type demo_state = Some ''startup''"
    by (simp add: demo_state_def)
  have p: "jd_prompt demo_system_prompt demo_state = Inr ?m"
    by (simp add: jd_prompt_def demo_state_def)
  have i: "scripted [Inr python_payload] ?m = (Inr python_payload, [])"
    by simp
  have a: "jd_analysis_node py scripted demo_system_prompt demo_state [Inr python_payload]
       = (JdComplete python_profile (JArray []) [python_payload], [])"
    using jd_analysis_node_python
            [of demo_system_prompt demo_state ?m scripted "[Inr python_payload]" "[]" py,
             OF p i json_loads_python_object] .
  have r: "lower ''startup'' \<noteq> ''research''"
    by code_simp
  have b: "map_sum id cu_skill_profile
        (company_logic_node (demo_state\<lparr>skill_profile := Some python_profile\<rparr>))
       = Inr python_profile"
    using company_logic_node_python[of demo_state] by (simp add: c r)
  have d: "safe_parse_skill_profile py python_profile =
       Inr \<lparr> sp_skills = [], sp_experience_level = ''mid'',
             sp_domain = ''Software Engineering'', sp_engineering_expectations = [],
             sp_key_responsibilities = [], sp_summary = ''Analysis complete.'' \<rparr>"
    by (rule safe_parse_python_profile)
  from c a b d show ?thesis by (intro conjI)
qed

section \<open>The nodes on responses that are not JSON\<close>

lemma undecodableE:
  assumes "undecodable B t"
  obtains e where "json_loads B t = Inl e" and "kind e = JSONDecodeError"
  using assms by (auto simp: undecodable_def split: sum.splits)

lemma jd_node_garbage:
  assumes "jd_prompt system_prompt state = Inr messages"
      and "invoke g messages = (Inr c1, g1)" and "undecodable B (jd_candidate c1)"
      and "invoke g1 (messages @ [HumanMessage JD_RETRY]) = (Inr c2, g2)"
      and "undecodable B (jd_candidate c2)"
  shows "jd_analysis_node B invoke system_prompt state g
           = (JdComplete (jd_fallback state c2) (JArray []) [c2], g2)"
proof -
  obtain e1 where e1: "json_loads B (jd_candidate c1) = Inl e1" "kind e1 = JSONDecodeError"
    using assms(3) by (rule undecodableE)
  obtain e2 where e2: "json_loads B (jd_candidate c2) = Inl e2" "kind e2 = JSONDecodeError"
    using assms(5) by (rule undecodableE)
  have "jd_attempts B invoke [0, 1] messages [] g = (Inr (JNull, c2), g2)"
    by (simp add: assms(2,4) e1 e2)
  then show ?thesis
    by (simp add: jd_analysis_node_def assms(1) jd_fallback_def py_get_def dict_get_def
          py_len_def)
qed

lemma capstone_node_garbage:
  assumes "invoke g messages = (Inr c1, g1)" and "undecodable B (capstone_clean c1)"
      and "invoke g1 (messages @ [HumanMessage CAPSTONE_RETRY]) = (Inr c2, g2)"
      and "undecodable B (capstone_clean c2)"
  shows "capstone_generator_node B invoke (Inr messages) g
           = (CapstoneComplete (JArray []) [c2], g2)"
proof -
  obtain e1 where e1: "json_loads B (capstone_clean c1) = Inl e1" "kind e1 = JSONDecodeError"
    using assms(2) by (rule undecodableE)
  obtain e2 where e2: "json_loads B (capstone_clean c2) = Inl e2" "kind e2 = JSONDecodeError"
    using assms(4) by (rule undecodableE)
  have "capstone_attempts B invoke [0, 1] messages c1 g1 = (Inr (JNull, c2), g2)"
    by (simp add: assms(3) e1 e2)
  then show ?thesis
    by (simp add: capstone_generator_node_def assms(1) capstone_projects_def py_len_def)
qed

lemma fitness_node_garbage:
  assumes "invoke g messages = (Inr c1, g1)" and "undecodable B (fitness_clean c1)"
      and "invoke g1 (messages @ [HumanMessage FITNESS_RETRY]) = (Inr c2, g2)"
      and "undecodable B (fitness_clean c2)"
  shows "fitness_scorer_node B invoke (Inr messages) state g
           = (FitnessFailed (state_errors state @ [''Failed to parse fitness evaluation'']), g2)"
proof -
  obtain e1 where e1: "json_loads B (fitness_clean c1) = Inl e1" "kind e1 = JSONDecodeError"
    using assms(2) by (rule undecodableE)
  obtain e2 where e2: "json_loads B (fitness_clean c2) = Inl e2" "kind e2 = JSONDecodeError"
    using assms(4) by (rule undecodableE)
  have "fitness_attempts B invoke [0, 1] messages g = (Inr None, g2)"
    by (simp add: assms(1,3) e1 e2)
  then show ?thesis
    by (simp add: fitness_scorer_node_def)
qed

lemma scaffold_node_garbage:
  assumes "invoke g messages = (Inr c, g1)" and "undecodable B (scaffold_clean c)"
  shows "scaffold_generator_node B invoke (Inr messages) g
           = (ScaffoldFailed [''Scaffold generation failed: invalid LLM response''], g1)"
proof -
  obtain e where e: "json_loads B (scaffold_clean c) = Inl e" "kind e = JSONDecodeError"
    using assms(2) by (rule undecodableE)
  show ?thesis
    by (simp add: scaffold_generator_node_def assms(1) parse_scaffold_response_def e
          scaffold_failed_def)
qed

lemma parse_scorecard_garbage:
  assumes "undecodable B (scorecard_text content)"
      and "find (CHR ''{'') (scorecard_text content) \<ge> 0
           \<and> rfind (CHR ''}'') (scorecard_text content) + 1 > find (CHR ''{'') (scorecard_text content)
           \<longrightarrow> undecodable B (slice (scorecard_text content)
                                (find (CHR ''{'') (scorecard_text content))
                                (rfind (CHR ''}'') (scorecard_text content) + 1))"
  shows "parse_scorecard B content = Inr (scorecard_fallback (scorecard_text content))"
proof -
  obtain e where e: "json_loads B (scorecard_text content) = Inl e" "kind e = JSONDecodeError"
    using assms(1) by (rule undecodableE)
  show ?thesis
  proof (cases "find (CHR ''{'') (scorecard_text content) \<ge> 0
           \<and> rfind (CHR ''}'') (scorecard_text content) + 1 > find (CHR ''{'') (scorecard_text content)")
    case True
    with assms(2) obtain e' where
      "json_loads B (slice (scorecard_text content)
                                (find (CHR ''{'') (scorecard_text content))
                                (rfind (CHR ''}'') (scorecard_text content) + 1)) = Inl e'"
      "kind e' = JSONDecodeError"
      using undecodableE by blast
    with True show ?thesis
      by (simp add: parse_scorecard_def Let_def e)
  next
    case False
    then show ?thesis
      by (auto simp: parse_scorecard_def Let_def e)
  qed
qed

lemma scorecard_fallback_scores:
  "py_get (scorecard_fallback content) ''overall_score'' JNull = Inr (JFloat 5)"
  "list_all (\<lambda>k. py_get (scorecard_fallback content) k JNull = Inr unparsed_dimension)
     [''code_quality'', ''test_coverage'', ''complexity'', ''structure'',
      ''deployment_readiness'']"
  "py_get unparsed_dimension ''score'' JNull = Inr (JFloat 5)"
  by (simp_all add: scorecard_fallback_def unparsed_dimension_def py_get_def dict_get_def)

lemma fitness_node_parsed:
  assumes "invoke g messages = (Inr c, g1)" and "json_loads B (fitness_clean c) = Inr res"
  shows "fitness_scorer_node B invoke (Inr messages) state g =
           (case fitness_normalize B res of
              Inl e \<Rightarrow> fitness_failed state e
            | Inr fr \<Rightarrow> FitnessScored fr, g1)"
  by (simp add: fitness_scorer_node_def assms split: sum.splits)

lemma garbage_clean:
  "jd_candidate garbage_one = garbage_one" "jd_candidate garbage_two = garbage_two"
  "capstone_clean garbage_one = garbage_one" "capstone_clean garbage_two = garbage_two"
  "fitness_clean garbage_one = garbage_one" "fitness_clean garbage_two = garbage_two"
  "scaffold_clean garbage_one = garbage_one" "scaffold_clean garbage_two = garbage_two"
  "scorecard_text garbage_one = garbage_one" "scorecard_text garbage_two = garbage_two"
  by code_simp+

lemma garbage_undecodable: "undecodable py garbage_one" "undecodable py garbage_two"
  by code_simp+

section \<open>Defaults of bounded numeric fields (C6)\<close>

lemma fitness_normalize_score:
  assumes "fitness_normalize B res = Inr r"
  shows "\<exists>v f. py_get res ''fitness_score'' (JInt 0) = Inr v \<and> py_float B v = Inr f
               \<and> py_get r ''fitness_score'' JNull = Inr (clamp_score f)"
  using assms
  by (auto simp: fitness_normalize_def split: sum.splits)
     (simp add: py_get_def dict_get_def)

lemma fitness_normalize_raises:
  assumes "py_get res ''fitness_score'' (JInt 0) = Inr v" and "py_float B v = Inl e"
  shows "fitness_normalize B res = Inl e"
  using assms by (simp add: fitness_normalize_def)

lemma make_skill_weight:
  assumes "make_skill B s = Inr sk"
  shows "\<exists>v. py_get s ''weight'' (JFloat 5) = Inr v \<and> py_float B v = Inr (sk_weight sk)
             \<and> 0 \<le> sk_weight sk \<and> sk_weight sk \<le> 10"
  using assms
  by (auto simp: make_skill_def bounded_field_def split: sum.splits if_splits)

lemma make_expectation_importance:
  assumes "make_expectation B x = Inr ex"
  shows "\<exists>v. py_get x ''importance'' (JFloat 5) = Inr v \<and> py_float B v = Inr (ex_importance ex)
             \<and> 0 \<le> ex_importance ex \<and> ex_importance ex \<le> 10"
  using assms
  by (auto simp: make_expectation_def bounded_field_def split: sum.splits if_splits)

lemma make_skill_raises:
  assumes "py_get s ''weight'' (JFloat 5) = Inr v" and "py_float B v = Inl e"
  shows "\<exists>e'. make_skill B s = Inl e'"
  using assms by (auto simp: make_skill_def py_get_def split: sum.splits json.splits)

lemma make_skill_out_of_range:
  assumes "py_get s ''weight'' (JFloat 5) = Inr v" and "py_float B v = Inr w"
      and "w < 0 \<or> 10 < w"
  shows "\<exists>e'. make_skill B s = Inl e'"
  using assms
  by (auto simp: make_skill_def py_get_def bounded_field_def split: sum.splits json.splits)

text \<open>
  C6, as the code has it. The default of a missing bounded numeric field is the one written
  at its \<open>get\<close>. A response of the fitness evaluation without \<open>fitness_score\<close> (range 0 to
  100) is scored 0, the minimum of its range, by the fitness node. A missing skill \<open>weight\<close>
  and a missing expectation \<open>importance\<close> (range 0 to 10) become 5.0, and
  \<open>_parse_scorecard\<close>, on a response that \<open>json.loads\<close> refuses whole and from its first \<open>{\<close>
  to its last \<open>}\<close>, returns a scorecard whose overall score and five dimension scores are
  5.0. A value that is present is never replaced by a default: a \<open>fitness_score\<close> that
  \<open>float\<close> accepts is clamped to the nearer bound of \<open>[0, 100]\<close>; one that \<open>float\<close> refuses
  makes the fitness node return the error entry \<open>Fitness evaluation failed: ...\<close> and no
  result; and a skill whose \<open>weight\<close> \<open>float\<close> refuses or puts outside \<open>[0, 10]\<close> is dropped
  from the profile.
\<close>

theorem numeric_field_defaults:
  "(\<forall>messages c g1 d fr.
      invoke g messages = (Inr c, g1) \<and> json_loads B (fitness_clean c) = Inr (JObject d)
      \<and> map_of d ''fitness_score'' = None \<and> fitness_normalize B (JObject d) = Inr fr
      \<longrightarrow> fitness_scorer_node B invoke (Inr messages) state g = (FitnessScored fr, g1)
          \<and> py_get fr ''fitness_score'' JNull = Inr (JInt 0))
   \<and> (\<forall>messages c g1 d v f fr.
      invoke g messages = (Inr c, g1) \<and> json_loads B (fitness_clean c) = Inr (JObject d)
      \<and> map_of d ''fitness_score'' = Some v \<and> py_float B v = Inr f
      \<and> fitness_normalize B (JObject d) = Inr fr
      \<longrightarrow> fitness_scorer_node B invoke (Inr messages) state g = (FitnessScored fr, g1)
          \<and> py_get fr ''fitness_score'' JNull
              = Inr (if f \<le> 0 then JInt 0 else if f < 100 then JFloat f else JInt 100))
   \<and> (\<forall>messages c g1 d v e.
      invoke g messages = (Inr c, g1) \<and> json_loads B (fitness_clean c) = Inr (JObject d)
      \<and> map_of d ''fitness_score'' = Some v \<and> py_float B v = Inl e
      \<longrightarrow> fitness_scorer_node B invoke (Inr messages) state g
            = (FitnessFailed (state_errors state
                 @ [''Fitness evaluation failed: '' @ take 200 (str_of_exn e)]), g1))
   \<and> (\<forall>d sk. map_of d ''weight'' = None \<and> make_skill B (JObject d) = Inr sk
      \<longrightarrow> sk_weight sk = 5)
   \<and> (\<forall>d x. map_of d ''importance'' = None \<and> make_expectation B (JObject d) = Inr x
      \<longrightarrow> ex_importance x = 5)
   \<and> (\<forall>d v. map_of d ''weight'' = Some v
         \<and> (\<forall>w. py_float B v = Inr w \<longrightarrow> w < 0 \<or> 10 < w)
      \<longrightarrow> keep_valid (make_skill B) [JObject d] = [])
   \<and> (\<forall>content.
         undecodable B (scorecard_text content)
         \<and> (find (CHR ''{'') (scorecard_text content) \<ge> 0
              \<and> rfind (CHR ''}'') (scorecard_text content) + 1
                   > find (CHR ''{'') (scorecard_text content)
             \<longrightarrow> undecodable B (slice (scorecard_text content)
                                  (find (CHR ''{'') (scorecard_text content))
                                  (rfind (CHR ''}'') (scorecard_text content) + 1)))
      \<longrightarrow> (\<exists>card. parse_scorecard B content = Inr card
             \<and> py_get card ''overall_score'' JNull = Inr (JFloat 5)
             \<and> list_all (\<lambda>k. \<exists>dim. py_get card k JNull = Inr dim
                                \<and> py_get dim ''score'' JNull = Inr (JFloat 5))
                  [''code_quality'', ''test_coverage'', ''complexity'', ''structure'',
                   ''deployment_readiness'']))"
proof (intro conjI allI impI)
  fix messages c g1 d fr
  assume a: "invoke g messages = (Inr c, g1) \<and> json_loads B (fitness_clean c) = Inr (JObject d)
      \<and> map_of d ''fitness_score'' = None \<and> fitness_normalize B (JObject d) = Inr fr"
  then show "fitness_scorer_node B invoke (Inr messages) state g = (FitnessScored fr, g1)"
    using fitness_node_parsed[of invoke g messages c g1 B "JObject d" state] by simp
  from a have "py_get (JObject d) ''fitness_score'' (JInt 0) = Inr (JInt 0)"
    by (simp add: py_get_def dict_get_def)
  with fitness_normalize_score[of B "JObject d" fr] a
  show "py_get fr ''fitness_score'' JNull = Inr (JInt 0)"
    by (auto simp: py_float_def float_overflows_def clamp_score_def)
next
  fix messages c g1 d v f fr
  assume a: "invoke g messages = (Inr c, g1) \<and> json_loads B (fitness_clean c) = Inr (JObject d)
      \<and> map_of d ''fitness_score'' = Some v \<and> py_float B v = Inr f
      \<and> fitness_normalize B (JObject d) = Inr fr"
  then show "fitness_scorer_node B invoke (Inr messages) state g = (FitnessScored fr, g1)"
    using fitness_node_parsed[of invoke g messages c g1 B "JObject d" state] by simp
  from a have "py_get (JObject d) ''fitness_score'' (JInt 0) = Inr v"
    by (simp add: py_get_def dict_get_def)
  with fitness_normalize_score[of B "JObject d" fr] a
  show "py_get fr ''fitness_score'' JNull
          = Inr (if f \<le> 0 then JInt 0 else if f < 100 then JFloat f else JInt 100)"
    by (auto simp: clamp_score_def)
next
  fix messages c g1 d v e
  assume a: "invoke g messages = (Inr c, g1) \<and> json_loads B (fitness_clean c) = Inr (JObject d)
      \<and> map_of d ''fitness_score'' = Some v \<and> py_float B v = Inl e"
  then have "py_get (JObject d) ''fitness_score'' (JInt 0) = Inr v"
    by (simp add: py_get_def dict_get_def)
  with a have "fitness_normalize B (JObject d) = Inl e"
    by (simp add: fitness_normalize_raises)
  with a show "fitness_scorer_node B invoke (Inr messages) state g
            = (FitnessFailed (state_errors state
                 @ [''Fitness evaluation failed: '' @ take 200 (str_of_exn e)]), g1)"
    using fitness_node_parsed[of invoke g messages c g1 B "JObject d" state]
    by (simp add: fitness_failed_def)
next
  fix d sk
  assume a: "map_of d ''weight'' = None \<and> make_skill B (JObject d) = Inr sk"
  then have "py_get (JObject d) ''weight'' (JFloat 5) = Inr (JFloat 5)"
    by (simp add: py_get_def dict_get_def)
  with make_skill_weight[of B "JObject d" sk] a show "sk_weight sk = 5"
    by (auto simp: py_float_def)
next
  fix d x
  assume a: "map_of d ''importance'' = None \<and> make_expectation B (JObject d) = Inr x"
  then have "py_get (JObject d) ''importance'' (JFloat 5) = Inr (JFloat 5)"
    by (simp add: py_get_def dict_get_def)
  with make_expectation_importance[of B "JObject d" x] a show "ex_importance x = 5"
    by (auto simp: py_float_def)
next
  fix d v
  assume a: "map_of d ''weight'' = Some v
         \<and> (\<forall>w. py_float B v = Inr w \<longrightarrow> w < 0 \<or> 10 < w)"
  then have g: "py_get (JObject d) ''weight'' (JFloat 5) = Inr v"
    by (simp add: py_get_def dict_get_def)
  have "\<exists>e. make_skill B (JObject d) = Inl e"
  proof (cases "py_float B v")
    case (Inl e)
    with g show ?thesis by (rule make_skill_raises)
  next
    case (Inr w)
    with a have "w < 0 \<or> 10 < w" by simp
    with g Inr show ?thesis by (rule make_skill_out_of_range)
  qed
  then show "keep_valid (make_skill B) [JObject d] = []"
    by (auto simp: keep_valid_def List.map_filter_simps)
next
  fix content
  assume a: "undecodable B (scorecard_text content)
         \<and> (find (CHR ''{'') (scorecard_text content) \<ge> 0
              \<and> rfind (CHR ''}'') (scorecard_text content) + 1
                   > find (CHR ''{'') (scorecard_text content)
             \<longrightarrow> undecodable B (slice (scorecard_text content)
                                  (find (CHR ''{'') (scorecard_text content))
                                  (rfind (CHR ''}'') (scorecard_text content) + 1)))"
  then have p: "parse_scorecard B content = Inr (scorecard_fallback (scorecard_text content))"
    using parse_scorecard_garbage by blast
  have "list_all (\<lambda>k. \<exists>dim. py_get (scorecard_fallback (scorecard_text content)) k JNull = Inr dim
                                \<and> py_get dim ''score'' JNull = Inr (JFloat 5))
                  [''code_quality'', ''test_coverage'', ''complexity'', ''structure'',
                   ''deployment_readiness'']"
    by (simp add: scorecard_fallback_def unparsed_dimension_def py_get_def dict_get_def)
  with p scorecard_fallback_scores(1)[of "scorecard_text content"]
  show "\<exists>card. parse_scorecard B content = Inr card
             \<and> py_get card ''overall_score'' JNull = Inr (JFloat 5)
             \<and> list_all (\<lambda>k. \<exists>dim. py_get card k JNull = Inr dim
                                \<and> py_get dim ''score'' JNull = Inr (JFloat 5))
                  [''code_quality'', ''test_coverage'', ''complexity'', ''structure'',
                   ''deployment_readiness'']"
    by blast
qed

theorem numeric_field_defaults_witness:
  "fitness_scorer_node py scripted (Inr demo_messages) demo_state [Inr verdict_only_payload] =
     (FitnessScored (JObject
       [(''fitness_score'', JInt 0), (''verdict'', JString ''good_fit''),
        (''matched_skills'', JArray []), (''missing_skills'', JArray []),
        (''strengths'', JArray []), (''improvements'', JArray []),
        (''detailed_feedback'', JString [])]), [])
   \<and> fitness_scorer_node py scripted (Inr demo_messages) demo_state [Inr high_score_payload] =
     (FitnessScored (JObject
       [(''fitness_score'', JInt 100), (''verdict'', JString ''weak_fit''),
        (''matched_skills'', JArray []), (''missing_skills'', JArray []),
        (''strengths'', JArray []), (''improvements'', JArray []),
        (''detailed_feedback'', JString [])]), [])
   \<and> fitness_scorer_node py scripted (Inr demo_messages) demo_state [Inr null_score_payload] =
     (FitnessFailed [''Fitness evaluation failed: ''
        @ ''float() argument must be a string or a real number, not '' @ quoted ''NoneType''],
      [])
   \<and> make_skill py (JObject [(''name'', JString ''Go'')]) =
     Inr \<lparr>sk_name = ''Go'', sk_category = ''concept'', sk_weight = 5, sk_source = ''inferred''\<rparr>
   \<and> make_expectation py (JObject [(''dimension'', JString ''Testing'')]) =
     Inr \<lparr>ex_dimension = ''Testing'', ex_importance = 5, ex_description = ''''\<rparr>
   \<and> keep_valid (make_skill py) [JObject python_skill] = []
   \<and> parse_scorecard py garbage_one = Inr (scorecard_fallback garbage_one)
   \<and> py_get (scorecard_fallback garbage_one) ''overall_score'' JNull = Inr (JFloat 5)"
proof -
  let ?r0 = "JObject
       [(''fitness_score'', JInt 0), (''verdict'', JString ''good_fit''),
        (''matched_skills'', JArray []), (''missing_skills'', JArray []),
        (''strengths'', JArray []), (''improvements'', JArray []),
        (''detailed_feedback'', JString [])]"
  let ?r1 = "JObject
       [(''fitness_score'', JInt 100), (''verdict'', JString ''weak_fit''),
        (''matched_skills'', JArray []), (''missing_skills'', JArray []),
        (''strengths'', JArray []), (''improvements'', JArray []),
        (''detailed_feedback'', JString [])]"
  have cl: "fitness_clean verdict_only_payload = verdict_only_payload"
    "fitness_clean high_score_payload = high_score_payload"
    "fitness_clean null_score_payload = null_score_payload"
    by code_simp+
  have ld: "json_loads py verdict_only_payload = Inr (JObject [(''verdict'', JString ''good_fit'')])"
    "json_loads py high_score_payload = Inr (JObject [(''fitness_score'', JInt 150)])"
    "json_loads py null_score_payload = Inr (JObject [(''fitness_score'', JNull)])"
    by code_simp+
  have e: "state_errors demo_state = []"
    by (simp add: state_errors_def demo_state_def)
  have n0: "fitness_normalize py (JObject [(''verdict'', JString ''good_fit'')]) = Inr ?r0"
    by (simp add: fitness_normalize_def py_get_def dict_get_def py_float_def float_overflows_def
          clamp_score_def py_slice_to_def VERDICTS_def py_str_def)
  have n1: "fitness_normalize py (JObject [(''fitness_score'', JInt 150)]) = Inr ?r1"
    by (simp add: fitness_normalize_def py_get_def dict_get_def py_float_def float_overflows_def
          clamp_score_def py_slice_to_def VERDICTS_def py_str_def)
  have a: "fitness_scorer_node py scripted (Inr demo_messages) demo_state
             [Inr verdict_only_payload] = (FitnessScored ?r0, [])"
    using numeric_field_defaults[of scripted "[Inr verdict_only_payload]" py demo_state,
            THEN conjunct1, rule_format,
            of demo_messages verdict_only_payload "[]" "[(''verdict'', JString ''good_fit'')]" ?r0]
    by (simp add: cl ld n0)
  have f150: "py_float py (JInt 150) = Inr 150"
    by (simp add: py_float_def float_overflows_def)
  have b: "fitness_scorer_node py scripted (Inr demo_messages) demo_state
             [Inr high_score_payload] = (FitnessScored ?r1, [])"
    using numeric_field_defaults[of scripted "[Inr high_score_payload]" py demo_state,
            THEN conjunct2, THEN conjunct1, rule_format,
            of demo_messages high_score_payload "[]" "[(''fitness_score'', JInt 150)]"
               "JInt 150" 150 ?r1]
    by (simp add: cl ld n1 f150)
  have fn: "py_float py JNull = Inl (Exn TypeError
                (''float() argument must be a string or a real number, not ''
                 @ quoted ''NoneType''))"
    by (simp add: py_float_def type_name_def)
  have c: "fitness_scorer_node py scripted (Inr demo_messages) demo_state
             [Inr null_score_payload] =
     (FitnessFailed [''Fitness evaluation failed: ''
        @ ''float() argument must be a string or a real number, not '' @ quoted ''NoneType''],
      [])"
    using numeric_field_defaults[of scripted "[Inr null_score_payload]" py demo_state,
            THEN conjunct2, THEN conjunct2, THEN conjunct1, rule_format,
            of demo_messages null_score_payload "[]" "[(''fitness_score'', JNull)]" JNull
               "Exn TypeError (''float() argument must be a string or a real number, not ''
                 @ quoted ''NoneType'')"]
    by (simp add: cl ld fn e quoted_def)
  have d: "make_skill py (JObject [(''name'', JString ''Go'')]) =
     Inr \<lparr>sk_name = ''Go'', sk_category = ''concept'', sk_weight = 5, sk_source = ''inferred''\<rparr>"
    by (simp add: make_skill_def py_get_def dict_get_def py_float_def str_field_def
          bounded_field_def)
  have f: "make_expectation py (JObject [(''dimension'', JString ''Testing'')]) =
     Inr \<lparr>ex_dimension = ''Testing'', ex_importance = 5, ex_description = ''''\<rparr>"
    by (simp add: make_expectation_def py_get_def dict_get_def py_float_def str_field_def
          bounded_field_def)
  have w: "map_of python_skill ''weight'' = Some (JInt 15)
           \<and> (\<forall>w. py_float py (JInt 15) = Inr w \<longrightarrow> w < 0 \<or> 10 < w)"
    by (simp add: python_skill_def py_float_def float_overflows_def)
  have g: "keep_valid (make_skill py) [JObject python_skill] = []"
    using numeric_field_defaults[of scripted "[]" py demo_state,
            THEN conjunct2, THEN conjunct2, THEN conjunct2, THEN conjunct2, THEN conjunct2,
            THEN conjunct1, rule_format, OF w] .
  have nb: "find (CHR ''{'') garbage_one = - 1"
    by code_simp
  have h: "\<exists>card. parse_scorecard py garbage_one = Inr card
             \<and> py_get card ''overall_score'' JNull = Inr (JFloat 5)
             \<and> list_all (\<lambda>k. \<exists>dim. py_get card k JNull = Inr dim
                                \<and> py_get dim ''score'' JNull = Inr (JFloat 5))
                  [''code_quality'', ''test_coverage'', ''complexity'', ''structure'',
                   ''deployment_readiness'']"
    using numeric_field_defaults[of scripted "[]" py demo_state,
            THEN conjunct2, THEN conjunct2, THEN conjunct2, THEN conjunct2, THEN conjunct2,
            THEN conjunct2, rule_format, of garbage_one]
    by (simp add: garbage_clean garbage_undecodable nb)
  have hp: "parse_scorecard py garbage_one = Inr (scorecard_fallback garbage_one)"
    using parse_scorecard_garbage[of py garbage_one]
    by (simp add: garbage_clean garbage_undecodable nb)
  from h hp have i: "py_get (scorecard_fallback garbage_one) ''overall_score'' JNull
                       = Inr (JFloat 5)"
    by auto
  from a b c d f g hp i show ?thesis by (intro conjI)
qed

theorem fitness_score_default_counterexample:
  "json_loads py (fitness_clean verdict_only_payload)
     = Inr (JObject [(''verdict'', JString ''good_fit'')])
   \<and> fst (fitness_scorer_node py scripted (Inr demo_messages) demo_state
            [Inr verdict_only_payload]) =
     FitnessScored (JObject
       [(''fitness_score'', JInt 0), (''verdict'', JString ''good_fit''),
        (''matched_skills'', JArray []), (''missing_skills'', JArray []),
        (''strengths'', JArray []), (''improvements'', JArray []),
        (''detailed_feedback'', JString [])])
   \<and> keep_valid (make_skill py)
        [JObject [(''name'', JString ''Go''), (''weight'', JNull)]] = []"
proof -
  have c: "fitness_clean verdict_only_payload = verdict_only_payload"
    by code_simp
  have l: "json_loads py verdict_only_payload = Inr (JObject [(''verdict'', JString ''good_fit'')])"
    by code_simp
  have a: "fitness_normalize py (JObject [(''verdict'', JString ''good_fit'')]) =
     Inr (JObject
       [(''fitness_score'', JInt 0), (''verdict'', JString ''good_fit''),
        (''matched_skills'', JArray []), (''missing_skills'', JArray []),
        (''strengths'', JArray []), (''improvements'', JArray []),
        (''detailed_feedback'', JString [])])"
    by (simp add: fitness_normalize_def py_get_def dict_get_def py_float_def float_overflows_def
          clamp_score_def py_slice_to_def VERDICTS_def py_str_def)
  have n: "fst (fitness_scorer_node py scripted (Inr demo_messages) demo_state
                  [Inr verdict_only_payload]) =
     FitnessScored (JObject
       [(''fitness_score'', JInt 0), (''verdict'', JString ''good_fit''),
        (''matched_skills'', JArray []), (''missing_skills'', JArray []),
        (''strengths'', JArray []), (''improvements'', JArray []),
        (''detailed_feedback'', JString [])])"
    by (simp add: fitness_scorer_node_def c l a)
  have k: "keep_valid (make_skill py)
        [JObject [(''name'', JString ''Go''), (''weight'', JNull)]] = []"
    by (simp add: keep_valid_def List.map_filter_simps make_skill_def py_get_def dict_get_def
          py_float_def)
  from l n k show ?thesis by (simp add: c)
qed

section \<open>Parse failure on every attempt (C1)\<close>

text \<open>
  C1, as the code has it. When every response of the generator is text that \<open>json.loads\<close>
  refuses, no node raises, and what the node returns depends on the node. The JD analysis
  node and the capstone node, after their second attempt, return a fallback result and no
  error: the JD node the default profile around the last response, the capstone node an
  empty list of projects. The fitness node, after its second attempt, and the scaffold
  node, which makes a single attempt, return an error entry instead of a result:
  \<open>Failed to parse fitness evaluation\<close> and
  \<open>Scaffold generation failed: invalid LLM response\<close>.
\<close>

theorem parse_failure_outcomes:
  "(\<forall>messages c1 g1 c2 g2.
      jd_prompt system_prompt state = Inr messages
      \<and> invoke g messages = (Inr c1, g1) \<and> undecodable B (jd_candidate c1)
      \<and> invoke g1 (messages @ [HumanMessage JD_RETRY]) = (Inr c2, g2)
      \<and> undecodable B (jd_candidate c2)
      \<longrightarrow> jd_analysis_node B invoke system_prompt state g
            = (JdComplete (jd_fallback state c2) (JArray []) [c2], g2))
   \<and> (\<forall>messages c1 g1 c2 g2.
      invoke g messages = (Inr c1, g1) \<and> undecodable B (capstone_clean c1)
      \<and> invoke g1 (messages @ [HumanMessage CAPSTONE_RETRY]) = (Inr c2, g2)
      \<and> undecodable B (capstone_clean c2)
      \<longrightarrow> capstone_generator_node B invoke (Inr messages) g
            = (CapstoneComplete (JArray []) [c2], g2))
   \<and> (\<forall>messages c1 g1 c2 g2.
      invoke g messages = (Inr c1, g1) \<and> undecodable B (fitness_clean c1)
      \<and> invoke g1 (messages @ [HumanMessage FITNESS_RETRY]) = (Inr c2, g2)
      \<and> undecodable B (fitness_clean c2)
      \<longrightarrow> fitness_scorer_node B invoke (Inr messages) state g
            = (FitnessFailed (state_errors state @ [''Failed to parse fitness evaluation'']), g2))
   \<and> (\<forall>messages c g1.
      invoke g messages = (Inr c, g1) \<and> undecodable B (scaffold_clean c)
      \<longrightarrow> scaffold_generator_node B invoke (Inr messages) g
            = (ScaffoldFailed [''Scaffold generation failed: invalid LLM response''], g1))"
proof (intro conjI allI impI)
  fix messages c1 g1 c2 g2
  assume "jd_prompt system_prompt state = Inr messages
      \<and> invoke g messages = (Inr c1, g1) \<and> undecodable B (jd_candidate c1)
      \<and> invoke g1 (messages @ [HumanMessage JD_RETRY]) = (Inr c2, g2)
      \<and> undecodable B (jd_candidate c2)"
  then show "jd_analysis_node B invoke system_prompt state g
            = (JdComplete (jd_fallback state c2) (JArray []) [c2], g2)"
    using jd_node_garbage[of system_prompt state messages invoke g c1 g1 B c2 g2] by blast
next
  fix messages c1 g1 c2 g2
  assume "invoke g messages = (Inr c1, g1) \<and> undecodable B (capstone_clean c1)
      \<and> invoke g1 (messages @ [HumanMessage CAPSTONE_RETRY]) = (Inr c2, g2)
      \<and> undecodable B (capstone_clean c2)"
  then show "capstone_generator_node B invoke (Inr messages) g
            = (CapstoneComplete (JArray []) [c2], g2)"
    using capstone_node_garbage[of invoke g messages c1 g1 B c2 g2] by blast
next
  fix messages c1 g1 c2 g2
  assume "invoke g messages = (Inr c1, g1) \<and> undecodable B (fitness_clean c1)
      \<and> invoke g1 (messages @ [HumanMessage FITNESS_RETRY]) = (Inr c2, g2)
      \<and> undecodable B (fitness_clean c2)"
  then show "fitness_scorer_node B invoke (Inr messages) state g
            = (FitnessFailed (state_errors state @ [''Failed to parse fitness evaluation'']), g2)"
    using fitness_node_garbage[of invoke g messages c1 g1 B c2 g2 state] by blast
next
  fix messages c g1
  assume "invoke g messages = (Inr c, g1) \<and> undecodable B (scaffold_clean c)"
  then show "scaffold_generator_node B invoke (Inr messages) g
            = (ScaffoldFailed [''Scaffold generation failed: invalid LLM response''], g1)"
    using scaffold_node_garbage[of invoke g messages c g1 B] by blast
qed

theorem parse_failure_outcomes_witness:
  "undecodable py garbage_one \<and> undecodable py garbage_two
   \<and> jd_analysis_node py scripted demo_system_prompt demo_state
        [Inr garbage_one, Inr garbage_two]
       = (JdComplete (jd_fallback demo_state garbage_two) (JArray []) [garbage_two], [])
   \<and> capstone_generator_node py scripted (Inr demo_messages) [Inr garbage_one, Inr garbage_two]
       = (CapstoneComplete (JArray []) [garbage_two], [])
   \<and> fitness_scorer_node py scripted (Inr demo_messages) demo_state
        [Inr garbage_one, Inr garbage_two]
       = (FitnessFailed [''Failed to parse fitness evaluation''], [])
   \<and> scaffold_generator_node py scripted (Inr demo_messages) [Inr garbage_one, Inr garbage_two]
       = (ScaffoldFailed [''Scaffold generation failed: invalid LLM response''],
          [Inr garbage_two])"
proof -
  note t = parse_failure_outcomes
             [of demo_system_prompt demo_state scripted "[Inr garbage_one, Inr garbage_two]" py]
  let ?m = "[SystemMessage demo_system_prompt,
          HumanMessage (build_jd_user_prompt
            ''We build payment services in Python and need an engineer who tests.''
            ''Backend Engineer'' ''startup'' None)]"
  have p: "jd_prompt demo_system_prompt demo_state = Inr ?m"
    by (simp add: jd_prompt_def demo_state_def)
  have a: "jd_analysis_node py scripted demo_system_prompt demo_state
             [Inr garbage_one, Inr garbage_two]
       = (JdComplete (jd_fallback demo_state garbage_two) (JArray []) [garbage_two], [])"
    using t[THEN conjunct1, rule_format,
            of ?m garbage_one "[Inr garbage_two]" garbage_two "[]"]
    by (simp add: p garbage_clean garbage_undecodable)
  have b: "capstone_generator_node py scripted (Inr demo_messages)
             [Inr garbage_one, Inr garbage_two]
       = (CapstoneComplete (JArray []) [garbage_two], [])"
    using t[THEN conjunct2, THEN conjunct1, rule_format,
            of demo_messages garbage_one "[Inr garbage_two]" garbage_two "[]"]
    by (simp add: garbage_clean garbage_undecodable)
  have e: "state_errors demo_state = []"
    by (simp add: state_errors_def demo_state_def)
  have c: "fitness_scorer_node py scripted (Inr demo_messages) demo_state
                  [Inr garbage_one, Inr garbage_two]
       = (FitnessFailed [''Failed to parse fitness evaluation''], [])"
    using t[THEN conjunct2, THEN conjunct2, THEN conjunct1, rule_format,
            of demo_messages garbage_one "[Inr garbage_two]" garbage_two "[]"]
    by (simp add: garbage_clean garbage_undecodable e)
  have d: "scaffold_generator_node py scripted (Inr demo_messages)
             [Inr garbage_one, Inr garbage_two]
       = (ScaffoldFailed [''Scaffold generation failed: invalid LLM response''],
          [Inr garbage_two])"
    using t[THEN conjunct2, THEN conjunct2, THEN conjunct2, rule_format,
            of demo_messages garbage_one "[Inr garbage_two]"]
    by (simp add: garbage_clean garbage_undecodable)
  from garbage_undecodable a b c d show ?thesis by (intro conjI)
qed

theorem parse_failure_reported_counterexample:
  "undecodable py (fitness_clean garbage_one) \<and> undecodable py (fitness_clean garbage_two)
   \<and> fst (fitness_scorer_node py scripted (Inr demo_messages) demo_state
            [Inr garbage_one, Inr garbage_two])
       = FitnessFailed [''Failed to parse fitness evaluation'']
   \<and> undecodable py (scaffold_clean garbage_one)
   \<and> fst (scaffold_generator_node py scripted (Inr demo_messages) [Inr garbage_one])
       = ScaffoldFailed [''Scaffold generation failed: invalid LLM response'']"
proof -
  have u: "undecodable py (fitness_clean garbage_one)" "undecodable py (fitness_clean garbage_two)"
    "undecodable py (scaffold_clean garbage_one)"
    by (simp_all only: garbage_clean garbage_undecodable)
  have e: "state_errors demo_state = []"
    by (simp add: state_errors_def demo_state_def)
  have a: "fst (fitness_scorer_node py scripted (Inr demo_messages) demo_state
            [Inr garbage_one, Inr garbage_two])
       = FitnessFailed [''Failed to parse fitness evaluation'']"
    using fitness_node_garbage[of scripted "[Inr garbage_one, Inr garbage_two]" demo_messages
            garbage_one "[Inr garbage_two]" py garbage_two "[]" demo_state] u
    by (simp add: e)
  have b: "fst (scaffold_generator_node py scripted (Inr demo_messages) [Inr garbage_one])
       = ScaffoldFailed [''Scaffold generation failed: invalid LLM response'']"
    using scaffold_node_garbage[of scripted "[Inr garbage_one]" demo_messages
            garbage_one "[]" py] u
    by simp
  from u a b show ?thesis by (intro conjI)
qed

section \<open>Two runs on different unparseable responses (C4)\<close>

lemma jd_fallback_eq:
  "jd_fallback state c = jd_fallback state c' \<longleftrightarrow> take 8000 c = take 8000 c'"
  by (simp add: jd_fallback_def)

lemma scorecard_fallback_eq:
  "scorecard_fallback t = scorecard_fallback t' \<longleftrightarrow>
     (if t \<noteq> [] then take 500 t else ''Analysis completed but response parsing failed.'')
     = (if t' \<noteq> [] then take 500 t' else ''Analysis completed but response parsing failed.'')"
  by (simp add: scorecard_fallback_def)

text \<open>
  C4, as the code has it. Take two runs of a task, each on responses that \<open>json.loads\<close>
  refuses. The fitness node returns the same error entry in both runs and the scaffold node
  the same error entry; the capstone node returns the same empty list of projects. The
  fallback of the JD node and the fallback of \<open>_parse_scorecard\<close> carry the response in their
  \<open>summary\<close>: the two JD profiles are the fixed default profile with the first 8000
  characters of the last response as summary, so they are equal exactly when the last
  responses agree on their first 8000 characters; the two scorecards are the fixed default
  scorecard with the first 500 characters of the response (without its fences) as summary,
  so they are equal exactly when these agree (an empty response has a fixed summary). The JD node and the capstone node also return
  the last response itself among their messages.
\<close>

theorem fallback_of_two_runs:
  "(\<forall>messages c1 g1 c2 g2 g' c1' g1' c2' g2'.
      jd_prompt system_prompt state = Inr messages
      \<and> invoke g messages = (Inr c1, g1) \<and> undecodable B (jd_candidate c1)
      \<and> invoke g1 (messages @ [HumanMessage JD_RETRY]) = (Inr c2, g2)
      \<and> undecodable B (jd_candidate c2)
      \<and> invoke g' messages = (Inr c1', g1') \<and> undecodable B (jd_candidate c1')
      \<and> invoke g1' (messages @ [HumanMessage JD_RETRY]) = (Inr c2', g2')
      \<and> undecodable B (jd_candidate c2')
      \<longrightarrow> fst (jd_analysis_node B invoke system_prompt state g)
            = JdComplete (jd_fallback state c2) (JArray []) [c2]
          \<and> fst (jd_analysis_node B invoke system_prompt state g')
            = JdComplete (jd_fallback state c2') (JArray []) [c2']
          \<and> (jd_fallback state c2 = jd_fallback state c2' \<longleftrightarrow> take 8000 c2 = take 8000 c2')
          \<and> (fst (jd_analysis_node B invoke system_prompt state g)
               = fst (jd_analysis_node B invoke system_prompt state g') \<longleftrightarrow> c2 = c2'))
   \<and> (\<forall>content content'.
      scorecard_unparseable B content \<and> scorecard_unparseable B content'
      \<longrightarrow> parse_scorecard B content = Inr (scorecard_fallback (scorecard_text content))
          \<and> parse_scorecard B content' = Inr (scorecard_fallback (scorecard_text content'))
          \<and> (parse_scorecard B content = parse_scorecard B content' \<longleftrightarrow>
               (if scorecard_text content \<noteq> [] then take 500 (scorecard_text content)
                else ''Analysis completed but response parsing failed.'')
               = (if scorecard_text content' \<noteq> [] then take 500 (scorecard_text content')
                  else ''Analysis completed but response parsing failed.'')))
   \<and> (\<forall>messages c1 g1 c2 g2 g' c1' g1' c2' g2'.
      invoke g messages = (Inr c1, g1) \<and> undecodable B (fitness_clean c1)
      \<and> invoke g1 (messages @ [HumanMessage FITNESS_RETRY]) = (Inr c2, g2)
      \<and> undecodable B (fitness_clean c2)
      \<and> invoke g' messages = (Inr c1', g1') \<and> undecodable B (fitness_clean c1')
      \<and> invoke g1' (messages @ [HumanMessage FITNESS_RETRY]) = (Inr c2', g2')
      \<and> undecodable B (fitness_clean c2')
      \<longrightarrow> fst (fitness_scorer_node B invoke (Inr messages) state g)
            = fst (fitness_scorer_node B invoke (Inr messages) state g'))
   \<and> (\<forall>messages c g1 g' c' g1'.
      invoke g messages = (Inr c, g1) \<and> undecodable B (scaffold_clean c)
      \<and> invoke g' messages = (Inr c', g1') \<and> undecodable B (scaffold_clean c')
      \<longrightarrow> fst (scaffold_generator_node B invoke (Inr messages) g)
            = fst (scaffold_generator_node B invoke (Inr messages) g'))
   \<and> (\<forall>messages c1 g1 c2 g2 g' c1' g1' c2' g2'.
      invoke g messages = (Inr c1, g1) \<and> undecodable B (capstone_clean c1)
      \<and> invoke g1 (messages @ [HumanMessage CAPSTONE_RETRY]) = (Inr c2, g2)
      \<and> undecodable B (capstone_clean c2)
      \<and> invoke g' messages = (Inr c1', g1') \<and> undecodable B (capstone_clean c1')
      \<and> invoke g1' (messages @ [HumanMessage CAPSTONE_RETRY]) = (Inr c2', g2')
      \<and> undecodable B (capstone_clean c2')
      \<longrightarrow> fst (capstone_generator_node B invoke (Inr messages) g)
            = CapstoneComplete (JArray []) [c2]
          \<and> fst (capstone_generator_node B invoke (Inr messages) g')
            = CapstoneComplete (JArray []) [c2'])"
proof (intro conjI allI impI)
  fix messages c1 g1 c2 g2 g' c1' g1' c2' g2'
  assume a: "jd_prompt system_prompt state = Inr messages
      \<and> invoke g messages = (Inr c1, g1) \<and> undecodable B (jd_candidate c1)
      \<and> invoke g1 (messages @ [HumanMessage JD_RETRY]) = (Inr c2, g2)
      \<and> undecodable B (jd_candidate c2)
      \<and> invoke g' messages = (Inr c1', g1') \<and> undecodable B (jd_candidate c1')
      \<and> invoke g1' (messages @ [HumanMessage JD_RETRY]) = (Inr c2', g2')
      \<and> undecodable B (jd_candidate c2')"
  then have r: "jd_analysis_node B invoke system_prompt state g
            = (JdComplete (jd_fallback state c2) (JArray []) [c2], g2)"
    using jd_node_garbage[of system_prompt state messages invoke g c1 g1 B c2 g2] by blast
  from a have r': "jd_analysis_node B invoke system_prompt state g'
            = (JdComplete (jd_fallback state c2') (JArray []) [c2'], g2')"
    using jd_node_garbage[of system_prompt state messages invoke g' c1' g1' B c2' g2'] by blast
  from r show "fst (jd_analysis_node B invoke system_prompt state g)
            = JdComplete (jd_fallback state c2) (JArray []) [c2]" by simp
  from r' show "fst (jd_analysis_node B invoke system_prompt state g')
            = JdComplete (jd_fallback state c2') (JArray []) [c2']" by simp
  show "jd_fallback state c2 = jd_fallback state c2' \<longleftrightarrow> take 8000 c2 = take 8000 c2'"
    by (rule jd_fallback_eq)
  from r r' show "fst (jd_analysis_node B invoke system_prompt state g)
               = fst (jd_analysis_node B invoke system_prompt state g') \<longleftrightarrow> c2 = c2'"
    by auto
next
  fix content content'
  assume a: "scorecard_unparseable B content \<and> scorecard_unparseable B content'"
  then have r: "parse_scorecard B content = Inr (scorecard_fallback (scorecard_text content))"
    using parse_scorecard_garbage[of B content] by (simp add: scorecard_unparseable_def Let_def)
  from a have r': "parse_scorecard B content' = Inr (scorecard_fallback (scorecard_text content'))"
    using parse_scorecard_garbage[of B content'] by (simp add: scorecard_unparseable_def Let_def)
  from r show "parse_scorecard B content = Inr (scorecard_fallback (scorecard_text content))" .
  from r' show "parse_scorecard B content' = Inr (scorecard_fallback (scorecard_text content'))" .
  from r r' show "parse_scorecard B content = parse_scorecard B content' \<longleftrightarrow>
               (if scorecard_text content \<noteq> [] then take 500 (scorecard_text content)
                else ''Analysis completed but response parsing failed.'')
               = (if scorecard_text content' \<noteq> [] then take 500 (scorecard_text content')
                  else ''Analysis completed but response parsing failed.'')"
    by (simp only: sum.inject scorecard_fallback_eq)
next
  fix messages c1 g1 c2 g2 g' c1' g1' c2' g2'
  assume a: "invoke g messages = (Inr c1, g1) \<and> undecodable B (fitness_clean c1)
      \<and> invoke g1 (messages @ [HumanMessage FITNESS_RETRY]) = (Inr c2, g2)
      \<and> undecodable B (fitness_clean c2)
      \<and> invoke g' messages = (Inr c1', g1') \<and> undecodable B (fitness_clean c1')
      \<and> invoke g1' (messages @ [HumanMessage FITNESS_RETRY]) = (Inr c2', g2')
      \<and> undecodable B (fitness_clean c2')"
  then have "fitness_scorer_node B invoke (Inr messages) state g
            = (FitnessFailed (state_errors state @ [''Failed to parse fitness evaluation'']), g2)"
    using fitness_node_garbage[of invoke g messages c1 g1 B c2 g2 state] by blast
  moreover from a have "fitness_scorer_node B invoke (Inr messages) state g'
            = (FitnessFailed (state_errors state @ [''Failed to parse fitness evaluation'']), g2')"
    using fitness_node_garbage[of invoke g' messages c1' g1' B c2' g2' state] by blast
  ultimately show "fst (fitness_scorer_node B invoke (Inr messages) state g)
            = fst (fitness_scorer_node B invoke (Inr messages) state g')"
    by simp
next
  fix messages c g1 g' c' g1'
  assume a: "invoke g messages = (Inr c, g1) \<and> undecodable B (scaffold_clean c)
      \<and> invoke g' messages = (Inr c', g1') \<and> undecodable B (scaffold_clean c')"
  then have "scaffold_generator_node B invoke (Inr messages) g
            = (ScaffoldFailed [''Scaffold generation failed: invalid LLM response''], g1)"
    using scaffold_node_garbage[of invoke g messages c g1 B] by blast
  moreover from a have "scaffold_generator_node B invoke (Inr messages) g'
            = (ScaffoldFailed [''Scaffold generation failed: invalid LLM response''], g1')"
    using scaffold_node_garbage[of invoke g' messages c' g1' B] by blast
  ultimately show "fst (scaffold_generator_node B invoke (Inr messages) g)
            = fst (scaffold_generator_node B invoke (Inr messages) g')"
    by simp
next
  fix messages c1 g1 c2 g2 g' c1' g1' c2' g2'
  assume a: "invoke g messages = (Inr c1, g1) \<and> undecodable B (capstone_clean c1)
      \<and> invoke g1 (messages @ [HumanMessage CAPSTONE_RETRY]) = (Inr c2, g2)
      \<and> undecodable B (capstone_clean c2)
      \<and> invoke g' messages = (Inr c1', g1') \<and> undecodable B (capstone_clean c1')
      \<and> invoke g1' (messages @ [HumanMessage CAPSTONE_RETRY]) = (Inr c2', g2')
      \<and> undecodable B (capstone_clean c2')"
  then have "capstone_generator_node B invoke (Inr messages) g
            = (CapstoneComplete (JArray []) [c2], g2)"
    using capstone_node_garbage[of invoke g messages c1 g1 B c2 g2] by blast
  then show "fst (capstone_generator_node B invoke (Inr messages) g)
            = CapstoneComplete (JArray []) [c2]" by simp
  from a have "capstone_generator_node B invoke (Inr messages) g'
            = (CapstoneComplete (JArray []) [c2'], g2')"
    using capstone_node_garbage[of invoke g' messages c1' g1' B c2' g2'] by blast
  then show "fst (capstone_generator_node B invoke (Inr messages) g')
            = CapstoneComplete (JArray []) [c2']" by simp
qed

theorem fallback_of_two_runs_witness:
  "fst (jd_analysis_node py scripted demo_system_prompt demo_state
          [Inr garbage_one, Inr garbage_one])
     = JdComplete (jd_fallback demo_state garbage_one) (JArray []) [garbage_one]
   \<and> fst (jd_analysis_node py scripted demo_system_prompt demo_state
          [Inr garbage_two, Inr garbage_two])
     = JdComplete (jd_fallback demo_state garbage_two) (JArray []) [garbage_two]
   \<and> scorecard_unparseable py garbage_one \<and> scorecard_unparseable py garbage_two
   \<and> parse_scorecard py garbage_one = Inr (scorecard_fallback garbage_one)
   \<and> parse_scorecard py garbage_two = Inr (scorecard_fallback garbage_two)
   \<and> fst (fitness_scorer_node py scripted (Inr demo_messages) demo_state
            [Inr garbage_one, Inr garbage_one])
     = fst (fitness_scorer_node py scripted (Inr demo_messages) demo_state
            [Inr garbage_two, Inr garbage_two])
   \<and> fst (scaffold_generator_node py scripted (Inr demo_messages) [Inr garbage_one])
     = fst (scaffold_generator_node py scripted (Inr demo_messages) [Inr garbage_two])
   \<and> fst (capstone_generator_node py scripted (Inr demo_messages)
            [Inr garbage_one, Inr garbage_one])
     = CapstoneComplete (JArray []) [garbage_one]"
proof -
  note t = fallback_of_two_runs
             [of demo_system_prompt demo_state scripted "[Inr garbage_one, Inr garbage_one]" py]
  let ?m = "[SystemMessage demo_system_prompt,
          HumanMessage (build_jd_user_prompt
            ''We build payment services in Python and need an engineer who tests.''
            ''Backend Engineer'' ''startup'' None)]"
  have p: "jd_prompt demo_system_prompt demo_state = Inr ?m"
    by (simp add: jd_prompt_def demo_state_def)
  have nb: "find (CHR ''{'') garbage_one = - 1" "find (CHR ''{'') garbage_two = - 1"
    by code_simp+
  have su: "scorecard_unparseable py garbage_one" "scorecard_unparseable py garbage_two"
    by (simp_all add: scorecard_unparseable_def Let_def garbage_clean garbage_undecodable nb)
  have a: "fst (jd_analysis_node py scripted demo_system_prompt demo_state
                  [Inr garbage_one, Inr garbage_one])
             = JdComplete (jd_fallback demo_state garbage_one) (JArray []) [garbage_one]
           \<and> fst (jd_analysis_node py scripted demo_system_prompt demo_state
                  [Inr garbage_two, Inr garbage_two])
             = JdComplete (jd_fallback demo_state garbage_two) (JArray []) [garbage_two]"
    using t[THEN conjunct1, rule_format,
            of ?m garbage_one "[Inr garbage_one]" garbage_one "[]"
               "[Inr garbage_two, Inr garbage_two]" garbage_two "[Inr garbage_two]"
               garbage_two "[]"]
    by (simp add: p garbage_clean garbage_undecodable)
  have b: "parse_scorecard py garbage_one = Inr (scorecard_fallback garbage_one)
           \<and> parse_scorecard py garbage_two = Inr (scorecard_fallback garbage_two)"
    using t[THEN conjunct2, THEN conjunct1, rule_format, of garbage_one garbage_two] su
    by (simp add: garbage_clean)
  have c: "fst (fitness_scorer_node py scripted (Inr demo_messages) demo_state
            [Inr garbage_one, Inr garbage_one])
     = fst (fitness_scorer_node py scripted (Inr demo_messages) demo_state
            [Inr garbage_two, Inr garbage_two])"
    using t[THEN conjunct2, THEN conjunct2, THEN conjunct1, rule_format,
            of demo_messages garbage_one "[Inr garbage_one]" garbage_one "[]"
               "[Inr garbage_two, Inr garbage_two]" garbage_two "[Inr garbage_two]"
               garbage_two "[]"]
    by (simp add: garbage_clean garbage_undecodable)
  have "fst (scaffold_generator_node py scripted (Inr demo_messages)
               [Inr garbage_one, Inr garbage_one])
     = fst (scaffold_generator_node py scripted (Inr demo_messages) [Inr garbage_two])"
    using t[THEN conjunct2, THEN conjunct2, THEN conjunct2, THEN conjunct1, rule_format,
            of demo_messages garbage_one "[Inr garbage_one]"
               "[Inr garbage_two]" garbage_two "[]"]
    by (simp add: garbage_clean garbage_undecodable)
  moreover have "fst (scaffold_generator_node py scripted (Inr demo_messages)
               [Inr garbage_one, Inr garbage_one])
     = fst (scaffold_generator_node py scripted (Inr demo_messages) [Inr garbage_one])"
    using scaffold_node_garbage[of scripted "[Inr garbage_one, Inr garbage_one]" demo_messages
            garbage_one "[Inr garbage_one]" py]
          scaffold_node_garbage[of scripted "[Inr garbage_one]" demo_messages
            garbage_one "[]" py]
    by (simp add: garbage_clean garbage_undecodable)
  ultimately have d: "fst (scaffold_generator_node py scripted (Inr demo_messages)
                             [Inr garbage_one])
     = fst (scaffold_generator_node py scripted (Inr demo_messages) [Inr garbage_two])"
    by simp
  have e: "fst (capstone_generator_node py scripted (Inr demo_messages)
            [Inr garbage_one, Inr garbage_one])
     = CapstoneComplete (JArray []) [garbage_one]"
    using t[THEN conjunct2, THEN conjunct2, THEN conjunct2, THEN conjunct2, rule_format,
            of demo_messages garbage_one "[Inr garbage_one]" garbage_one "[]"
               "[Inr garbage_two, Inr garbage_two]" garbage_two "[Inr garbage_two]"
               garbage_two "[]"]
    by (simp add: garbage_clean garbage_undecodable)
  from a su b c d e show ?thesis by (intro conjI) simp_all
qed

theorem fallback_echoes_response_counterexample:
  "undecodable py (jd_candidate garbage_one) \<and> undecodable py (jd_candidate garbage_two)
   \<and> fst (jd_analysis_node py scripted demo_system_prompt demo_state
          [Inr garbage_one, Inr garbage_one])
     = JdComplete (jd_fallback demo_state garbage_one) (JArray []) [garbage_one]
   \<and> fst (jd_analysis_node py scripted demo_system_prompt demo_state
          [Inr garbage_two, Inr garbage_two])
     = JdComplete (jd_fallback demo_state garbage_two) (JArray []) [garbage_two]
   \<and> jd_fallback demo_state garbage_one \<noteq> jd_fallback demo_state garbage_two
   \<and> parse_scorecard py garbage_one = Inr (scorecard_fallback garbage_one)
   \<and> parse_scorecard py garbage_two = Inr (scorecard_fallback garbage_two)
   \<and> scorecard_fallback garbage_one \<noteq> scorecard_fallback garbage_two"
proof -
  let ?m = "[SystemMessage demo_system_prompt,
          HumanMessage (build_jd_user_prompt
            ''We build payment services in Python and need an engineer who tests.''
            ''Backend Engineer'' ''startup'' None)]"
  have p: "jd_prompt demo_system_prompt demo_state = Inr ?m"
    by (simp add: jd_prompt_def demo_state_def)
  have u: "undecodable py (jd_candidate garbage_one)" "undecodable py (jd_candidate garbage_two)"
    by (simp_all only: garbage_clean garbage_undecodable)
  have a: "fst (jd_analysis_node py scripted demo_system_prompt demo_state
                  [Inr garbage_one, Inr garbage_one])
             = JdComplete (jd_fallback demo_state garbage_one) (JArray []) [garbage_one]"
    using jd_node_garbage[of demo_system_prompt demo_state ?m scripted
            "[Inr garbage_one, Inr garbage_one]" garbage_one "[Inr garbage_one]" py
            garbage_one "[]"] p u
    by simp
  have b: "fst (jd_analysis_node py scripted demo_system_prompt demo_state
                  [Inr garbage_two, Inr garbage_two])
             = JdComplete (jd_fallback demo_state garbage_two) (JArray []) [garbage_two]"
    using jd_node_garbage[of demo_system_prompt demo_state ?m scripted
            "[Inr garbage_two, Inr garbage_two]" garbage_two "[Inr garbage_two]" py
            garbage_two "[]"] p u
    by simp
  have c: "jd_fallback demo_state garbage_one \<noteq> jd_fallback demo_state garbage_two"
    by (simp add: jd_fallback_def garbage_one_def garbage_two_def)
  have nb: "find (CHR ''{'') garbage_one = - 1" "find (CHR ''{'') garbage_two = - 1"
    by code_simp+
  have d: "parse_scorecard py garbage_one = Inr (scorecard_fallback garbage_one)"
    using parse_scorecard_garbage[of py garbage_one]
    by (simp add: garbage_clean garbage_undecodable nb)
  have e: "parse_scorecard py garbage_two = Inr (scorecard_fallback garbage_two)"
    using parse_scorecard_garbage[of py garbage_two]
    by (simp add: garbage_clean garbage_undecodable nb)
  have f: "scorecard_fallback garbage_one \<noteq> scorecard_fallback garbage_two"
    by (simp add: scorecard_fallback_def garbage_one_def garbage_two_def)
  from u a b c d e f show ?thesis by (intro conjI)
qed

section \<open>Failure of the generator call (C5)\<close>

lemma jd_node_transport_first:
  assumes "jd_prompt system_prompt state = Inr messages" and "invoke g messages = (Inl e, g1)"
  shows "jd_analysis_node B invoke system_prompt state g = (jd_failed e, g1)"
  by (simp add: jd_analysis_node_def assms)

lemma jd_node_transport_second:
  assumes "jd_prompt system_prompt state = Inr messages"
      and "invoke g messages = (Inr c1, g1)" and "undecodable B (jd_candidate c1)"
      and "invoke g1 (messages @ [HumanMessage JD_RETRY]) = (Inl e, g2)"
  shows "jd_analysis_node B invoke system_prompt state g = (jd_failed e, g2)"
proof -
  obtain e1 where "json_loads B (jd_candidate c1) = Inl e1" "kind e1 = JSONDecodeError"
    using assms(3) by (rule undecodableE)
  then show ?thesis
    by (simp add: jd_analysis_node_def assms(1,2,4))
qed

lemma fitness_node_transport_first:
  assumes "invoke g messages = (Inl e, g1)"
  shows "fitness_scorer_node B invoke (Inr messages) state g = (fitness_failed state e, g1)"
  by (simp add: fitness_scorer_node_def assms)

lemma fitness_node_transport_second:
  assumes "invoke g messages = (Inr c1, g1)" and "undecodable B (fitness_clean c1)"
      and "invoke g1 (messages @ [HumanMessage FITNESS_RETRY]) = (Inl e, g2)"
  shows "fitness_scorer_node B invoke (Inr messages) state g = (fitness_failed state e, g2)"
proof -
  obtain e1 where "json_loads B (fitness_clean c1) = Inl e1" "kind e1 = JSONDecodeError"
    using assms(2) by (rule undecodableE)
  then show ?thesis
    by (simp add: fitness_scorer_node_def assms(1,3))
qed

text \<open>
  C5, as the code has it. A failure of the generator call itself, that is an exception out
  of \<open>ainvoke\<close> (raised once the client has given up its own retries, \<open>max_retries=3\<close>), is
  never retried by the node and does not go through the node's two attempts: the call
  stands inside the node's \<open>try\<close> block, whose handler returns. If the first call of the JD
  node or of the fitness node raises, the node makes no second call (the generator is left
  in the state after that one call) and returns the error entry that carries the text of
  the exception: \<open>JD analysis failed: ...\<close>, or \<open>Fitness evaluation failed: ...\<close> with at most
  200 characters of it, after the errors already in the state. If the first response is
  text that \<open>json.loads\<close> refuses and the second call raises, the node returns the same kind
  of error entry. In neither case does the node raise.
\<close>

theorem transport_failure_ends_node:
  "(\<forall>messages e g1.
      jd_prompt system_prompt state = Inr messages \<and> invoke g messages = (Inl e, g1)
      \<longrightarrow> jd_analysis_node B invoke system_prompt state g
            = (JdFailed [''JD analysis failed: '' @ str_of_exn e], g1))
   \<and> (\<forall>messages c1 g1 e g2.
      jd_prompt system_prompt state = Inr messages
      \<and> invoke g messages = (Inr c1, g1) \<and> undecodable B (jd_candidate c1)
      \<and> invoke g1 (messages @ [HumanMessage JD_RETRY]) = (Inl e, g2)
      \<longrightarrow> jd_analysis_node B invoke system_prompt state g
            = (JdFailed [''JD analysis failed: '' @ str_of_exn e], g2))
   \<and> (\<forall>messages e g1.
      invoke g messages = (Inl e, g1)
      \<longrightarrow> fitness_scorer_node B invoke (Inr messages) state g
            = (FitnessFailed (state_errors state
                 @ [''Fitness evaluation failed: '' @ take 200 (str_of_exn e)]), g1))
   \<and> (\<forall>messages c1 g1 e g2.
      invoke g messages = (Inr c1, g1) \<and> undecodable B (fitness_clean c1)
      \<and> invoke g1 (messages @ [HumanMessage FITNESS_RETRY]) = (Inl e, g2)
      \<longrightarrow> fitness_scorer_node B invoke (Inr messages) state g
            = (FitnessFailed (state_errors state
                 @ [''Fitness evaluation failed: '' @ take 200 (str_of_exn e)]), g2))"
proof (intro conjI allI impI)
  fix messages e g1
  assume "jd_prompt system_prompt state = Inr messages \<and> invoke g messages = (Inl e, g1)"
  then show "jd_analysis_node B invoke system_prompt state g
            = (JdFailed [''JD analysis failed: '' @ str_of_exn e], g1)"
    using jd_node_transport_first[of system_prompt state messages invoke g e g1 B]
    by (simp add: jd_failed_def)
next
  fix messages c1 g1 e g2
  assume "jd_prompt system_prompt state = Inr messages
      \<and> invoke g messages = (Inr c1, g1) \<and> undecodable B (jd_candidate c1)
      \<and> invoke g1 (messages @ [HumanMessage JD_RETRY]) = (Inl e, g2)"
  then show "jd_analysis_node B invoke system_prompt state g
            = (JdFailed [''JD analysis failed: '' @ str_of_exn e], g2)"
    using jd_node_transport_second[of system_prompt state messages invoke g c1 g1 B e g2]
    by (simp add: jd_failed_def)
next
  fix messages e g1
  assume "invoke g messages = (Inl e, g1)"
  then show "fitness_scorer_node B invoke (Inr messages) state g
            = (FitnessFailed (state_errors state
                 @ [''Fitness evaluation failed: '' @ take 200 (str_of_exn e)]), g1)"
    using fitness_node_transport_first[of invoke g messages e g1 B state]
    by (simp add: fitness_failed_def)
next
  fix messages c1 g1 e g2
  assume "invoke g messages = (Inr c1, g1) \<and> undecodable B (fitness_clean c1)
      \<and> invoke g1 (messages @ [HumanMessage FITNESS_RETRY]) = (Inl e, g2)"
  then show "fitness_scorer_node B invoke (Inr messages) state g
            = (FitnessFailed (state_errors state
                 @ [''Fitness evaluation failed: '' @ take 200 (str_of_exn e)]), g2)"
    using fitness_node_transport_second[of invoke g messages c1 g1 B e g2 state]
    by (simp add: fitness_failed_def)
qed

theorem transport_failure_ends_node_witness:
  "jd_analysis_node py scripted demo_system_prompt demo_state
     [Inl transport_timeout, Inr python_payload]
     = (JdFailed [''JD analysis failed: Request timed out.''], [Inr python_payload])
   \<and> jd_analysis_node py scripted demo_system_prompt demo_state
     [Inr garbage_one, Inl transport_timeout]
     = (JdFailed [''JD analysis failed: Request timed out.''], [])
   \<and> fitness_scorer_node py scripted (Inr demo_messages) demo_state
     [Inl transport_timeout, Inr verdict_only_payload]
     = (FitnessFailed [''Fitness evaluation failed: Request timed out.''],
        [Inr verdict_only_payload])
   \<and> fitness_scorer_node py scripted (Inr demo_messages) demo_state
     [Inr garbage_one, Inl transport_timeout]
     = (FitnessFailed [''Fitness evaluation failed: Request timed out.''], [])"
proof -
  let ?m = "[SystemMessage demo_system_prompt,
          HumanMessage (build_jd_user_prompt
            ''We build payment services in Python and need an engineer who tests.''
            ''Backend Engineer'' ''startup'' None)]"
  have p: "jd_prompt demo_system_prompt demo_state = Inr ?m"
    by (simp add: jd_prompt_def demo_state_def)
  have e: "state_errors demo_state = []"
    by (simp add: state_errors_def demo_state_def)
  have s: "str_of_exn transport_timeout = ''Request timed out.''"
    by (simp add: transport_timeout_def)
  have a: "jd_analysis_node py scripted demo_system_prompt demo_state
     [Inl transport_timeout, Inr python_payload]
     = (JdFailed [''JD analysis failed: Request timed out.''], [Inr python_payload])"
    using transport_failure_ends_node
            [of demo_system_prompt demo_state scripted
                "[Inl transport_timeout, Inr python_payload]" py,
             THEN conjunct1, rule_format, of ?m transport_timeout "[Inr python_payload]"]
    by (simp add: p s)
  have b: "jd_analysis_node py scripted demo_system_prompt demo_state
     [Inr garbage_one, Inl transport_timeout]
     = (JdFailed [''JD analysis failed: Request timed out.''], [])"
    using transport_failure_ends_node
            [of demo_system_prompt demo_state scripted
                "[Inr garbage_one, Inl transport_timeout]" py,
             THEN conjunct2, THEN conjunct1, rule_format,
             of ?m garbage_one "[Inl transport_timeout]" transport_timeout "[]"]
    by (simp add: p s garbage_clean garbage_undecodable)
  have c: "fitness_scorer_node py scripted (Inr demo_messages) demo_state
     [Inl transport_timeout, Inr verdict_only_payload]
     = (FitnessFailed [''Fitness evaluation failed: Request timed out.''],
        [Inr verdict_only_payload])"
    using transport_failure_ends_node
            [of demo_system_prompt demo_state scripted
                "[Inl transport_timeout, Inr verdict_only_payload]" py,
             THEN conjunct2, THEN conjunct2, THEN conjunct1, rule_format,
             of demo_messages transport_timeout "[Inr verdict_only_payload]"]
    by (simp add: e s)
  have d: "fitness_scorer_node py scripted (Inr demo_messages) demo_state
     [Inr garbage_one, Inl transport_timeout]
     = (FitnessFailed [''Fitness evaluation failed: Request timed out.''], [])"
    using transport_failure_ends_node
            [of demo_system_prompt demo_state scripted
                "[Inr garbage_one, Inl transport_timeout]" py,
             THEN conjunct2, THEN conjunct2, THEN conjunct2, rule_format,
             of demo_messages garbage_one "[Inl transport_timeout]" transport_timeout "[]"]
    by (simp add: e s garbage_clean garbage_undecodable)
  from a b c d show ?thesis by (intro conjI)
qed

theorem transport_failure_not_retried_counterexample:
  "json_loads py (jd_candidate python_payload) = Inr python_profile
   \<and> jd_analysis_node py scripted demo_system_prompt demo_state
     [Inl transport_timeout, Inr python_payload]
     = (JdFailed [''JD analysis failed: Request timed out.''], [Inr python_payload])
   \<and> json_loads py (fitness_clean verdict_only_payload)
       = Inr (JObject [(''verdict'', JString ''good_fit'')])
   \<and> fitness_scorer_node py scripted (Inr demo_messages) demo_state
     [Inl transport_timeout, Inr verdict_only_payload]
     = (FitnessFailed [''Fitness evaluation failed: Request timed out.''],
        [Inr verdict_only_payload])"
proof -
  let ?m = "[SystemMessage demo_system_prompt,
          HumanMessage (build_jd_user_prompt
            ''We build payment services in Python and need an engineer who tests.''
            ''Backend Engineer'' ''startup'' None)]"
  have p: "jd_prompt demo_system_prompt demo_state = Inr ?m"
    by (simp add: jd_prompt_def demo_state_def)
  have e: "state_errors demo_state = []"
    by (simp add: state_errors_def demo_state_def)
  have l: "json_loads py (jd_candidate python_payload) = Inr python_profile"
    by (simp add: jd_candidate_python_payload json_loads_python_object)
  have a: "jd_analysis_node py scripted demo_system_prompt demo_state
     [Inl transport_timeout, Inr python_payload]
     = (JdFailed [''JD analysis failed: Request timed out.''], [Inr python_payload])"
    using jd_node_transport_first[of demo_system_prompt demo_state ?m scripted
            "[Inl transport_timeout, Inr python_payload]" transport_timeout
            "[Inr python_payload]" py] p
    by (simp add: jd_failed_def transport_timeout_def)
  have c: "fitness_clean verdict_only_payload = verdict_only_payload"
    by code_simp
  have l2: "json_loads py verdict_only_payload = Inr (JObject [(''verdict'', JString ''good_fit'')])"
    by code_simp
  have b: "fitness_scorer_node py scripted (Inr demo_messages) demo_state
     [Inl transport_timeout, Inr verdict_only_payload]
     = (FitnessFailed [''Fitness evaluation failed: Request timed out.''],
        [Inr verdict_only_payload])"
    using fitness_node_transport_first[of scripted
            "[Inl transport_timeout, Inr verdict_only_payload]" demo_messages
            transport_timeout "[Inr verdict_only_payload]" py demo_state]
    by (simp add: fitness_failed_def transport_timeout_def e)
  from l a l2 b show ?thesis by (simp add: c)
qed

end
